theory Spec2Isabelle
  imports Complex_Main "HOL-Library.AList"
begin

section \<open>Documents and collections\<close>

text \<open>
  The service keeps its data in MongoDB collections of free-form documents. A document is
  an association list from field names to values; a collection is the list of its
  documents in natural (insertion) order. A number is an IEEE 754 double: \<open>JNum\<close> holds
  the rational that a finite double denotes, \<open>JInf\<close> is an infinity (\<open>True\<close> the positive
  one) and \<open>JNaN\<close> the not-a-number value. \<open>JDate\<close> holds a time stamp and \<open>JId\<close> an
  ObjectId.
\<close>

type_synonym oid = nat

datatype jval =
    JNull
  | JBool bool
  | JNum rat
  | JInf bool
  | JNaN
  | JStr string
  | JDate nat
  | JId oid
  | JArr "jval list"
  | JObj "(string \<times> jval) list"

type_synonym doc = "(string \<times> jval) list"

definition fld :: "doc \<Rightarrow> string \<Rightarrow> jval option" where
  "fld d k = map_of d k"

text \<open>A field read that is written back into a document: \<open>undefined\<close> is stored as null.\<close>

definition stored :: "jval option \<Rightarrow> jval" where
  "stored v = (case v of None \<Rightarrow> JNull | Some x \<Rightarrow> x)"

text \<open>
  JavaScript's conversion to a number. What it does on strings, dates, arrays and
  ObjectIds is the language's and not this repository's: it is the parameter \<open>tonum\<close>
  (\<open>None\<close> is NaN).
\<close>

fun js_Number :: "(jval \<Rightarrow> rat option) \<Rightarrow> jval option \<Rightarrow> jval" where
  "js_Number tonum None = JNaN"
| "js_Number tonum (Some (JNum n)) = JNum n"
| "js_Number tonum (Some (JInf s)) = JInf s"
| "js_Number tonum (Some JNaN) = JNaN"
| "js_Number tonum (Some JNull) = JNum 0"
| "js_Number tonum (Some (JBool b)) = JNum (if b then 1 else 0)"
| "js_Number tonum (Some v) = (case tonum v of None \<Rightarrow> JNaN | Some n \<Rightarrow> JNum n)"

text \<open>\<open>a < q\<close> for a number \<open>q\<close>: \<open>a\<close> is converted to a number, and NaN compares false.\<close>

definition js_lt :: "(jval \<Rightarrow> rat option) \<Rightarrow> jval option \<Rightarrow> rat \<Rightarrow> bool" where
  "js_lt tonum a q =
     (case js_Number tonum a of JNum n \<Rightarrow> n < q | JInf s \<Rightarrow> \<not> s | _ \<Rightarrow> False)"

text \<open>JavaScript truthiness of a value that may be \<open>undefined\<close>.\<close>

fun truthy :: "jval option \<Rightarrow> bool" where
  "truthy None = False"
| "truthy (Some JNull) = False"
| "truthy (Some (JBool b)) = b"
| "truthy (Some (JNum n)) = (n \<noteq> 0)"
| "truthy (Some JNaN) = False"
| "truthy (Some (JStr s)) = (s \<noteq> [])"
| "truthy (Some _) = True"

text \<open>
  A request parameter that is meant to be an ObjectId: the driver's constructor throws on
  a malformed string, and \<open>toObjectId\<close> turns the throw into \<open>null\<close>.
\<close>

datatype idparam = Malformed | Hex oid

fun toObjectId :: "idparam \<Rightarrow> oid option" where
  "toObjectId Malformed = None"
| "toObjectId (Hex i) = Some i"

subsection \<open>Query filters\<close>

text \<open>
  \<open>{ _id: v }\<close>. Every stored document has an \<open>_id\<close>, which is never an array, so the
  filter is plain equality. \<open>by_id\<close> is the case of an ObjectId, and \<open>id_is\<close> the case of
  the result of \<open>toObjectId\<close>, which is \<open>null\<close> when the conversion failed.
\<close>

definition id_eq :: "jval \<Rightarrow> doc \<Rightarrow> bool" where
  "id_eq v d = (fld d ''_id'' = Some v)"

definition by_id :: "oid \<Rightarrow> doc \<Rightarrow> bool" where
  "by_id i d = id_eq (JId i) d"

definition id_is :: "oid option \<Rightarrow> doc \<Rightarrow> bool" where
  "id_is i d = id_eq (stored (map_option JId i)) d"

text \<open>The store keeps \<open>_id\<close> unique within a collection.\<close>

definition unique_ids :: "doc list \<Rightarrow> bool" where
  "unique_ids ds = distinct (map (\<lambda>d. fld d ''_id'') ds)"

text \<open>
  \<open>{ k: v }\<close>: the field equals \<open>v\<close>, or is an array with \<open>v\<close> among its elements; a
  missing field matches \<open>null\<close>.
\<close>

definition field_eq :: "string \<Rightarrow> jval \<Rightarrow> doc \<Rightarrow> bool" where
  "field_eq k v d =
     (case fld d k of
        None \<Rightarrow> v = JNull
      | Some (JArr xs) \<Rightarrow> JArr xs = v \<or> v \<in> set xs
      | Some x \<Rightarrow> x = v)"

text \<open>
  \<open>{ k: { $gte: q } }\<close> for a number \<open>q\<close>: comparison operators only match values of
  the same BSON type class, so a field that is not a number never matches; an array
  matches when one of its elements does.
\<close>

fun num_gte :: "rat \<Rightarrow> jval \<Rightarrow> bool" where
  "num_gte q (JNum n) = (q \<le> n)"
| "num_gte q (JInf s) = s"
| "num_gte q _ = False"

definition field_gte :: "string \<Rightarrow> rat \<Rightarrow> doc \<Rightarrow> bool" where
  "field_gte k q d =
     (case fld d k of
        None \<Rightarrow> False
      | Some (JArr xs) \<Rightarrow> list_ex (num_gte q) xs
      | Some x \<Rightarrow> num_gte q x)"


subsection \<open>Update operators\<close>

text \<open>
  \<open>{ $set: kvs }\<close> assigns each listed field and \<open>{ $inc: { k: a } }\<close> adds to a field.

  A field name of \<open>$set\<close> is a path: names separated by dots. \<open>a.b\<close> is the field \<open>b\<close> of
  the embedded document \<open>a\<close>, and the element of index \<open>b\<close> when \<open>a\<close> is an array and
  \<open>b\<close> a number (the array grows, padded with nulls, when the index is past its end). A
  missing \<open>a\<close> is created as an embedded document; an \<open>a\<close> that holds anything else is a
  write error. A \<open>plain_key\<close> is a path of one name, a top-level field.
\<close>

datatype update = Set "(string \<times> jval) list" | Inc string jval

definition plain_key :: "string \<Rightarrow> bool" where
  "plain_key k = (k \<noteq> [] \<and> CHR ''.'' \<notin> set k \<and> hd k \<noteq> CHR ''$'')"

fun path_of :: "string \<Rightarrow> string list" where
  "path_of [] = [[]]"
| "path_of (c # cs) =
     (if c = CHR ''.'' then [] # path_of cs
      else (case path_of cs of [] \<Rightarrow> [[c]] | p # ps \<Rightarrow> (c # p) # ps))"

text \<open>An array index is a decimal numeral without a leading zero.\<close>

definition digit :: "char \<Rightarrow> nat option" where
  "digit c = (let n = of_char c in if (48::nat) \<le> n \<and> n \<le> 57 then Some (n - 48) else None)"

fun numeral_of :: "nat \<Rightarrow> string \<Rightarrow> nat option" where
  "numeral_of n [] = Some n"
| "numeral_of n (c # cs) =
     (case digit c of None \<Rightarrow> None | Some m \<Rightarrow> numeral_of (10 * n + m) cs)"

definition array_index :: "string \<Rightarrow> nat option" where
  "array_index k =
     (if k = [] \<or> (hd k = CHR ''0'' \<and> tl k \<noteq> []) then None else numeral_of 0 k)"

text \<open>
  \<open>set_in p v cur\<close> is the value of a position that holds \<open>cur\<close> (\<open>None\<close> when nothing
  is there) after the path \<open>p\<close> below it has been set to \<open>v\<close>.
\<close>

fun set_in :: "string list \<Rightarrow> jval \<Rightarrow> jval option \<Rightarrow> jval option" where
  "set_in [] v cur = Some v"
| "set_in (k # ks) v None = map_option (\<lambda>x. JObj [(k, x)]) (set_in ks v None)"
| "set_in (k # ks) v (Some (JObj e)) =
     map_option (\<lambda>x. JObj (AList.update k x e)) (set_in ks v (map_of e k))"
| "set_in (k # ks) v (Some (JArr xs)) =
     (case array_index k of
        None \<Rightarrow> None
      | Some n \<Rightarrow>
          map_option (\<lambda>x. JArr ((xs @ replicate (Suc n - length xs) JNull)[n := x]))
            (set_in ks v (if n < length xs then Some (xs ! n) else None)))"
| "set_in (k # ks) v (Some _) = None"

definition set_field :: "string \<Rightarrow> jval \<Rightarrow> doc \<Rightarrow> doc option" where
  "set_field k v d =
     (case set_in (path_of k) v (Some (JObj d)) of Some (JObj d') \<Rightarrow> Some d' | _ \<Rightarrow> None)"

fun set_paths :: "(string \<times> jval) list \<Rightarrow> doc \<Rightarrow> doc option" where
  "set_paths [] d = Some d"
| "set_paths ((k, v) # kvs) d =
     (case set_field k v d of None \<Rightarrow> None | Some d' \<Rightarrow> set_paths kvs d')"

text \<open>\<open>set_fields\<close> is the assignment of top-level fields, also JavaScript's on an object.\<close>

fun set_fields :: "(string \<times> jval) list \<Rightarrow> doc \<Rightarrow> doc" where
  "set_fields [] d = d"
| "set_fields ((k, v) # kvs) d = set_fields kvs (AList.update k v d)"

text \<open>
  An update is rejected before any document is looked at when the argument of \<open>$inc\<close> is
  not a number, when a path of \<open>$set\<close> has an empty name or a name that starts with
  \<open>$\<close> (the positional operators, which no update of this service uses and which are
  not modelled), and when one path of \<open>$set\<close> is the beginning of another. On a
  document, \<open>$inc\<close> creates a missing field with the increment as its value and is a
  write error on a field that holds anything but a number; \<open>$set\<close> is a write error
  when it would change \<open>_id\<close>. A write error is \<open>None\<close>.
\<close>

definition valid_path :: "string list \<Rightarrow> bool" where
  "valid_path p = list_all (\<lambda>k. k \<noteq> [] \<and> hd k \<noteq> CHR ''$'') p"

definition conflict :: "string list list \<Rightarrow> bool" where
  "conflict ps = list_ex (\<lambda>p. list_ex (\<lambda>q. p \<noteq> q \<and> take (length p) q = p) ps) ps"

fun well_formed :: "update \<Rightarrow> bool" where
  "well_formed (Set kvs) =
     (list_all valid_path (map (path_of \<circ> fst) kvs) \<and> \<not> conflict (map (path_of \<circ> fst) kvs))"
| "well_formed (Inc k (JNum n)) = True"
| "well_formed (Inc k (JInf s)) = True"
| "well_formed (Inc k JNaN) = True"
| "well_formed (Inc k _) = False"

text \<open>
  The sum of two doubles is their exact sum rounded to the nearest double, a tie going
  to the double with the even mantissa. The doubles around a positive \<open>a\<close> are the
  multiples of \<open>ulp a\<close>, the power of two that brings \<open>a\<close> into the 53 bits of the
  mantissa and is at least \<open>2\<^sup>-\<^sup>1\<^sup>0\<^sup>7\<^sup>4\<close>; a sum that rounds to
  \<open>2\<^sup>1\<^sup>0\<^sup>2\<^sup>4\<close> or more is an infinity.
\<close>

definition round_even :: "rat \<Rightarrow> int" where
  "round_even x =
     (let f = \<lfloor>x\<rfloor>; r = x - of_int f
      in if r < 1 / 2 then f else if 1 / 2 < r then f + 1 else if even f then f else f + 1)"

fun halvings :: "nat \<Rightarrow> rat \<Rightarrow> nat" where
  "halvings 0 a = 0"
| "halvings (Suc k) a = (if a < 2 ^ 53 then 0 else Suc (halvings k (a / 2)))"

fun doublings :: "nat \<Rightarrow> rat \<Rightarrow> nat" where
  "doublings 0 a = 0"
| "doublings (Suc k) a = (if 2 ^ 52 \<le> a then 0 else Suc (doublings k (2 * a)))"

definition ulp :: "rat \<Rightarrow> rat" where
  "ulp a = (if 2 ^ 53 \<le> a then 2 ^ halvings 971 a else 1 / 2 ^ doublings 1074 a)"

definition round_double :: "rat \<Rightarrow> jval" where
  "round_double x =
     (let a = \<bar>x\<bar>; r = of_int (round_even (a / ulp a)) * ulp a
      in if 2 ^ 1024 \<le> r then JInf (0 < x) else JNum (if x < 0 then - r else r))"

fun inc_number :: "jval \<Rightarrow> jval \<Rightarrow> jval" where
  "inc_number (JNum m) (JNum n) = round_double (m + n)"
| "inc_number (JNum m) (JInf s) = JInf s"
| "inc_number (JInf s) (JNum n) = JInf s"
| "inc_number (JInf s) (JInf t) = (if s = t then JInf s else JNaN)"
| "inc_number _ _ = JNaN"

text \<open>The rationals that are doubles: rounding leaves them as they are.\<close>

definition is_double :: "rat \<Rightarrow> bool" where
  "is_double x = (round_double x = JNum x)"

fun apply_update :: "update \<Rightarrow> doc \<Rightarrow> doc option" where
  "apply_update (Set kvs) d =
     (case set_paths kvs d of
        None \<Rightarrow> None
      | Some d' \<Rightarrow> if fld d' ''_id'' = fld d ''_id'' then Some d' else None)"
| "apply_update (Inc k a) d =
     (case fld d k of
        None \<Rightarrow> Some (AList.update k a d)
      | Some (JNum m) \<Rightarrow> Some (AList.update k (inc_number (JNum m) a) d)
      | Some (JInf s) \<Rightarrow> Some (AList.update k (inc_number (JInf s) a) d)
      | Some JNaN \<Rightarrow> Some d
      | Some _ \<Rightarrow> None)"

subsection \<open>Collection operations\<close>

record write_result =
  coll :: "doc list"
  matchedCount :: nat
  modifiedCount :: nat

definition findOne :: "(doc \<Rightarrow> bool) \<Rightarrow> doc list \<Rightarrow> doc option" where
  "findOne flt ds = find flt ds"

definition countDocuments :: "(doc \<Rightarrow> bool) \<Rightarrow> doc list \<Rightarrow> nat" where
  "countDocuments flt ds = length (filter flt ds)"

text \<open>
  \<open>updateOne\<close> applies the update to the first document that matches the filter, as one
  operation of the store: the filter is evaluated on the document the update is applied
  to. \<open>modifiedCount\<close> is 0 when the update leaves the document as it was.
\<close>

fun update_first :: "(doc \<Rightarrow> bool) \<Rightarrow> update \<Rightarrow> doc list \<Rightarrow> write_result option" where
  "update_first flt u [] = Some \<lparr>coll = [], matchedCount = 0, modifiedCount = 0\<rparr>"
| "update_first flt u (d # ds) =
     (if flt d then
        (case apply_update u d of
           None \<Rightarrow> None
         | Some d' \<Rightarrow>
             Some \<lparr>coll = d' # ds, matchedCount = 1, modifiedCount = (if d' = d then 0 else 1)\<rparr>)
      else
        (case update_first flt u ds of
           None \<Rightarrow> None
         | Some r \<Rightarrow> Some (r\<lparr>coll := d # coll r\<rparr>)))"

definition updateOne :: "(doc \<Rightarrow> bool) \<Rightarrow> update \<Rightarrow> doc list \<Rightarrow> write_result option" where
  "updateOne flt u ds = (if well_formed u then update_first flt u ds else None)"

text \<open>
  \<open>insertOne\<close> keeps an \<open>_id\<close> the document already carries and otherwise gives it the
  ObjectId the driver generated; a duplicate \<open>_id\<close> is a write error.
\<close>

definition insertedId :: "oid \<Rightarrow> doc \<Rightarrow> jval" where
  "insertedId newId d = (case fld d ''_id'' of Some v \<Rightarrow> v | None \<Rightarrow> JId newId)"

definition insertOne :: "oid \<Rightarrow> doc \<Rightarrow> doc list \<Rightarrow> doc list option" where
  "insertOne newId d ds =
     (let i = insertedId newId d in
      if list_ex (id_eq i) ds then None
      else Some (ds @ [AList.update ''_id'' i d]))"

fun deleteOne :: "(doc \<Rightarrow> bool) \<Rightarrow> doc list \<Rightarrow> doc list" where
  "deleteOne flt [] = []"
| "deleteOne flt (d # ds) = (if flt d then ds else d # deleteOne flt ds)"

section \<open>The service state and its responses\<close>

record db =
  users :: "doc list"
  tickets :: "doc list"
  bookings :: "doc list"
  payments :: "doc list"

text \<open>
  \<open>Send\<close> is \<open>res.send(obj)\<close> with status 200, \<open>Fail c m\<close> is
  \<open>res.status(c).send({ message: m })\<close>, \<open>Redirect p\<close> is a redirect to the page \<open>p\<close>
  of the front end. \<open>NoResponse\<close> is a handler without \<open>try\<close> whose store operation
  threw: the request is never answered.
\<close>

datatype response =
    Send doc
  | Fail nat string
  | Redirect string
  | NoResponse


text \<open>
  The caller of a route behind \<open>verifyJWT\<close> is the e-mail address of the verified token
  (\<open>req.decoded.email\<close>), \<open>None\<close> when the token carries none. \<open>now\<close> is the value of
  \<open>new Date()\<close> and \<open>newId\<close> the ObjectId the driver generates for an inserted document.
\<close>

definition js_email :: "string option \<Rightarrow> jval option" where
  "js_email e = map_option JStr e"

section \<open>Bookings, reserve-at-creation revision (src/unnamed/part\_002)\<close>

record booking_req =
  rq_ticketId :: "idparam option"
  rq_quantity :: "rat option"
  rq_customerEmail :: "string option"

text \<open>
  The conditional write of \<open>POST /bookings\<close>:
  \<open>updateOne({ _id, quantity: { $gte: quantity } }, { $inc: { quantity: -quantity } })\<close>.
\<close>

definition p2_reserve :: "oid \<Rightarrow> rat \<Rightarrow> doc list \<Rightarrow> write_result option" where
  "p2_reserve ticketOid quantity ts =
     updateOne (\<lambda>d. by_id ticketOid d \<and> field_gte ''quantity'' quantity d)
       (Inc ''quantity'' (JNum (- quantity))) ts"

text \<open>
  The handler reads the ticket first and writes afterwards. \<open>p2_bookings_write\<close> is the
  part from the conditional write on; it gets the ticket that was read (for the
  booking's snapshot of vendor, title and price) and runs on the state at the time of
  the write.
\<close>

definition p2_bookings_write ::
  "nat \<Rightarrow> oid \<Rightarrow> oid \<Rightarrow> rat \<Rightarrow> string option \<Rightarrow> doc \<Rightarrow> db \<Rightarrow> response \<times> db" where
  "p2_bookings_write now newId ticketOid quantity customerEmail ticket s =
     (case p2_reserve ticketOid quantity (tickets s) of
        None \<Rightarrow> (Fail 500 ''Server error'', s)
      | Some reserve \<Rightarrow>
          let s1 = s\<lparr>tickets := coll reserve\<rparr> in
          if modifiedCount reserve = 0 then (Fail 400 ''Not enough tickets available'', s1)
          else
            let newBooking =
                  [(''ticketId'', stored (fld ticket ''_id'')),
                   (''vendorEmail'', stored (fld ticket ''vendorEmail'')),
                   (''customerEmail'', stored (js_email customerEmail)),
                   (''title'', stored (fld ticket ''title'')),
                   (''price'', stored (fld ticket ''price'')),
                   (''quantity'', JNum quantity),
                   (''status'', JStr ''pending''),
                   (''createdAt'', JDate now)]
            in (case insertOne newId newBooking (bookings s1) of
                  None \<Rightarrow> (Fail 500 ''Server error'', s1)
                | Some bs \<Rightarrow>
                    (Send [(''success'', JBool True),
                           (''bookingId'', insertedId newId newBooking)],
                     s1\<lparr>bookings := bs\<rparr>)))"

definition p2_post_bookings ::
  "string option \<Rightarrow> nat \<Rightarrow> oid \<Rightarrow> booking_req \<Rightarrow> db \<Rightarrow> response \<times> db" where
  "p2_post_bookings caller now newId req s =
     (if rq_customerEmail req \<noteq> caller then (Fail 403 ''Forbidden'', s)
      else
        (case (rq_ticketId req, rq_quantity req) of
           (Some ticketId, Some quantity) \<Rightarrow>
             if quantity = 0 \<or> quantity \<le> 0
             then (Fail 400 ''ticketId and valid quantity required'', s)
             else
               (case toObjectId ticketId of
                  None \<Rightarrow> (Fail 400 ''Invalid ticketId'', s)
                | Some ticketOid \<Rightarrow>
                    (case findOne (by_id ticketOid) (tickets s) of
                       None \<Rightarrow> (Fail 404 ''Ticket not found'', s)
                     | Some ticket \<Rightarrow>
                         if fld ticket ''verificationStatus'' \<noteq> Some (JStr ''approved'')
                         then (Fail 400 ''Ticket not approved'', s)
                         else p2_bookings_write now newId ticketOid quantity
                                (rq_customerEmail req) ticket s))
         | _ \<Rightarrow> (Fail 400 ''ticketId and valid quantity required'', s)))"

text \<open>\<open>PATCH /bookings/:id/accept\<close> and \<open>PATCH /bookings/:id/reject\<close>.\<close>

definition p2_bookings_accept :: "string option \<Rightarrow> nat \<Rightarrow> idparam \<Rightarrow> db \<Rightarrow> response \<times> db" where
  "p2_bookings_accept caller now idp s =
     (case toObjectId idp of
        None \<Rightarrow> (Fail 400 ''Invalid id'', s)
      | Some i \<Rightarrow>
          (case findOne (by_id i) (bookings s) of
             None \<Rightarrow> (Fail 404 ''Booking not found'', s)
           | Some booking \<Rightarrow>
               if fld booking ''vendorEmail'' \<noteq> js_email caller then (Fail 403 ''Forbidden'', s)
               else if fld booking ''status'' \<noteq> Some (JStr ''pending'')
               then (Fail 400 ''Only pending bookings can be accepted'', s)
               else
                 (case updateOne (by_id i)
                         (Set [(''status'', JStr ''accepted''), (''acceptedAt'', JDate now)])
                         (bookings s) of
                    None \<Rightarrow> (NoResponse, s)
                  | Some result \<Rightarrow>
                      (Send [(''success'', JBool True),
                             (''modifiedCount'', JNum (of_nat (modifiedCount result)))],
                       s\<lparr>bookings := coll result\<rparr>))))"

definition p2_bookings_reject :: "string option \<Rightarrow> nat \<Rightarrow> idparam \<Rightarrow> db \<Rightarrow> response \<times> db" where
  "p2_bookings_reject caller now idp s =
     (case toObjectId idp of
        None \<Rightarrow> (Fail 400 ''Invalid id'', s)
      | Some i \<Rightarrow>
          (case findOne (by_id i) (bookings s) of
             None \<Rightarrow> (Fail 404 ''Booking not found'', s)
           | Some booking \<Rightarrow>
               if fld booking ''vendorEmail'' \<noteq> js_email caller then (Fail 403 ''Forbidden'', s)
               else if fld booking ''status'' \<noteq> Some (JStr ''pending'')
               then (Fail 400 ''Only pending bookings can be rejected'', s)
               else
                 (case updateOne (id_eq (stored (fld booking ''ticketId'')))
                         (Inc ''quantity'' (stored (fld booking ''quantity''))) (tickets s) of
                    None \<Rightarrow> (NoResponse, s)
                  | Some released \<Rightarrow>
                      let s1 = s\<lparr>tickets := coll released\<rparr> in
                      (case updateOne (by_id i)
                              (Set [(''status'', JStr ''rejected''), (''rejectedAt'', JDate now)])
                              (bookings s1) of
                         None \<Rightarrow> (NoResponse, s1)
                       | Some result \<Rightarrow>
                           (Send [(''success'', JBool True)], s1\<lparr>bookings := coll result\<rparr>)))))"

text \<open>
  A handler waits for each operation of the store (\<open>await\<close>), and another request can
  be served while it waits. \<open>p2_reject_write\<close> is \<open>PATCH /bookings/:id/reject\<close> from
  its first write on, with the booking that the handler has read before; it runs on the
  state at the time of the write.
\<close>

definition p2_reject_write :: "nat \<Rightarrow> oid \<Rightarrow> doc \<Rightarrow> db \<Rightarrow> response \<times> db" where
  "p2_reject_write now i booking s =
     (case updateOne (id_eq (stored (fld booking ''ticketId'')))
             (Inc ''quantity'' (stored (fld booking ''quantity''))) (tickets s) of
        None \<Rightarrow> (NoResponse, s)
      | Some released \<Rightarrow>
          let s1 = s\<lparr>tickets := coll released\<rparr> in
          (case updateOne (by_id i)
                  (Set [(''status'', JStr ''rejected''), (''rejectedAt'', JDate now)])
                  (bookings s1) of
             None \<Rightarrow> (NoResponse, s1)
           | Some result \<Rightarrow>
               (Send [(''success'', JBool True)], s1\<lparr>bookings := coll result\<rparr>)))"

text \<open>
  \<open>GET /stripe/payment-cancelled\<close>: every path, the \<open>catch\<close> included, ends in the same
  redirect.
\<close>

definition p2_payment_cancelled :: "idparam \<Rightarrow> db \<Rightarrow> response \<times> db" where
  "p2_payment_cancelled idp s =
     (case toObjectId idp of
        None \<Rightarrow> (Redirect ''/payment-cancelled'', s)
      | Some bookingId \<Rightarrow>
          (case findOne (by_id bookingId) (bookings s) of
             None \<Rightarrow> (Redirect ''/payment-cancelled'', s)
           | Some booking \<Rightarrow>
               if fld booking ''status'' = Some (JStr ''accepted'') then
                 (case updateOne (id_eq (stored (fld booking ''ticketId'')))
                         (Inc ''quantity'' (stored (fld booking ''quantity''))) (tickets s) of
                    None \<Rightarrow> (Redirect ''/payment-cancelled'', s)
                  | Some released \<Rightarrow>
                      let s1 = s\<lparr>tickets := coll released\<rparr> in
                      (case updateOne (by_id bookingId) (Set [(''status'', JStr ''cancelled'')])
                              (bookings s1) of
                         None \<Rightarrow> (Redirect ''/payment-cancelled'', s1)
                       | Some result \<Rightarrow>
                           (Redirect ''/payment-cancelled'', s1\<lparr>bookings := coll result\<rparr>)))
               else (Redirect ''/payment-cancelled'', s)))"

section \<open>Payment verification\<close>

text \<open>
  What the handlers read of the checkout session that the payment provider returns for
  a session id. \<open>md_quantity\<close> is the integer that \<open>parseInt\<close> reads from
  \<open>metadata.quantity\<close>. The provider is a function from session ids to sessions; \<open>None\<close>
  is a \<open>retrieve\<close> that throws.
\<close>

record session =
  payment_status :: string
  md_bookingId :: idparam
  md_ticketId :: idparam
  md_quantity :: int
  payment_intent :: string
  amount_total :: rat
  currency :: string

text \<open>The filter \<open>{ transactionId: session.payment_intent }\<close> on payments.\<close>

abbreviation txn :: "session \<Rightarrow> doc \<Rightarrow> bool" where
  "txn x \<equiv> field_eq ''transactionId'' (JStr (payment_intent x))"

text \<open>\<open>POST /payments/verify\<close> (src/unnamed/part\_002).\<close>

definition p2_payments_verify ::
  "(string \<Rightarrow> session option) \<Rightarrow> nat \<Rightarrow> oid \<Rightarrow> string \<Rightarrow> db \<Rightarrow> response \<times> db" where
  "p2_payments_verify stripe now newId sessionId s =
     (case stripe sessionId of
        None \<Rightarrow> (Fail 500 ''Payment verification failed'', s)
      | Some session \<Rightarrow>
          if payment_status session \<noteq> ''paid'' then (Fail 400 ''Payment not completed'', s)
          else
            (case toObjectId (md_bookingId session) of
               None \<Rightarrow> (Fail 500 ''Payment verification failed'', s)
             | Some bookingId \<Rightarrow>
                 (case findOne (by_id bookingId) (bookings s) of
                    None \<Rightarrow> (Fail 404 ''Booking not found'', s)
                  | Some booking \<Rightarrow>
                      (case findOne (txn session) (payments s) of
                         Some exists \<Rightarrow> (Send [(''success'', JBool True)], s)
                       | None \<Rightarrow>
                           (case insertOne newId
                                   [(''bookingId'', JId bookingId),
                                    (''ticketId'', stored (fld booking ''ticketId'')),
                                    (''customerEmail'', stored (fld booking ''customerEmail'')),
                                    (''ticketTitle'', stored (fld booking ''title'')),
                                    (''amount'', JNum (amount_total session / 100)),
                                    (''quantity'', stored (fld booking ''quantity'')),
                                    (''currency'', JStr (currency session)),
                                    (''transactionId'', JStr (payment_intent session)),
                                    (''paidAt'', JDate now)]
                                   (payments s) of
                              None \<Rightarrow> (Fail 500 ''Payment verification failed'', s)
                            | Some ps \<Rightarrow>
                                let s1 = s\<lparr>payments := ps\<rparr> in
                                (case updateOne (by_id bookingId)
                                        (Set [(''status'', JStr ''paid''), (''paidAt'', JDate now)])
                                        (bookings s1) of
                                   None \<Rightarrow> (Fail 500 ''Payment verification failed'', s1)
                                 | Some result \<Rightarrow>
                                     (Send [(''success'', JBool True)],
                                      s1\<lparr>bookings := coll result\<rparr>)))))))"

text \<open>
  \<open>POST /payments/verify\<close> from its first write on, with the session, the booking id
  and the booking that the handler has read before.
\<close>

definition p2_verify_write ::
  "nat \<Rightarrow> oid \<Rightarrow> session \<Rightarrow> oid \<Rightarrow> doc \<Rightarrow> db \<Rightarrow> response \<times> db" where
  "p2_verify_write now newId session bookingId booking s =
     (case insertOne newId
             [(''bookingId'', JId bookingId),
              (''ticketId'', stored (fld booking ''ticketId'')),
              (''customerEmail'', stored (fld booking ''customerEmail'')),
              (''ticketTitle'', stored (fld booking ''title'')),
              (''amount'', JNum (amount_total session / 100)),
              (''quantity'', stored (fld booking ''quantity'')),
              (''currency'', JStr (currency session)),
              (''transactionId'', JStr (payment_intent session)),
              (''paidAt'', JDate now)]
             (payments s) of
        None \<Rightarrow> (Fail 500 ''Payment verification failed'', s)
      | Some ps \<Rightarrow>
          let s1 = s\<lparr>payments := ps\<rparr> in
          (case updateOne (by_id bookingId)
                  (Set [(''status'', JStr ''paid''), (''paidAt'', JDate now)])
                  (bookings s1) of
             None \<Rightarrow> (Fail 500 ''Payment verification failed'', s1)
           | Some result \<Rightarrow>
               (Send [(''success'', JBool True)], s1\<lparr>bookings := coll result\<rparr>)))"

text \<open>
  \<open>GET /stripe/payment-success\<close> (src/index.js). Its \<open>catch\<close> answers 500 with the
  message of the error that was thrown, written \<open>err.message\<close> here.
\<close>

definition ix_payment_success ::
  "(string \<Rightarrow> session option) \<Rightarrow> nat \<Rightarrow> oid \<Rightarrow> string \<Rightarrow> db \<Rightarrow> response \<times> db" where
  "ix_payment_success stripe now newId sessionId s =
     (case stripe sessionId of
        None \<Rightarrow> (Fail 500 ''err.message'', s)
      | Some session \<Rightarrow>
          if payment_status session \<noteq> ''paid'' then (Redirect ''/payment-failed'', s)
          else
            let bookingId = toObjectId (md_bookingId session);
                ticketId = toObjectId (md_ticketId session);
                quantity = md_quantity session;
                exists = findOne (txn session) (payments s)
            in
            (case findOne (id_is bookingId) (bookings s) of
               None \<Rightarrow> (Redirect ''/payment-failed'', s)
             | Some booking \<Rightarrow>
                 if exists \<noteq> None then (Redirect ''/payment-success'', s)
                 else
                   (case updateOne (id_is bookingId)
                           (Set [(''status'', JStr ''paid''), (''paidAt'', JDate now)])
                           (bookings s) of
                      None \<Rightarrow> (Fail 500 ''err.message'', s)
                    | Some paid \<Rightarrow>
                        let s1 = s\<lparr>bookings := coll paid\<rparr> in
                        (case updateOne
                                (\<lambda>d. id_is ticketId d
                                      \<and> field_gte ''quantity'' (of_int quantity) d)
                                (Inc ''quantity'' (JNum (- of_int quantity))) (tickets s1) of
                           None \<Rightarrow> (Fail 500 ''err.message'', s1)
                         | Some reduced \<Rightarrow>
                             let s2 = s1\<lparr>tickets := coll reduced\<rparr> in
                             (case insertOne newId
                                     [(''bookingId'', stored (map_option JId bookingId)),
                                      (''ticketId'', stored (map_option JId ticketId)),
                                      (''customerEmail'', stored (fld booking ''customerEmail'')),
                                      (''amount'', JNum (amount_total session / 100)),
                                      (''quantity'', stored (fld booking ''quantity'')),
                                      (''currency'', JStr (currency session)),
                                      (''transactionId'', JStr (payment_intent session)),
                                      (''paidAt'', JDate now)]
                                     (payments s2) of
                                None \<Rightarrow> (Fail 500 ''err.message'', s2)
                              | Some ps \<Rightarrow>
                                  (Redirect ''/payment-success'', s2\<lparr>payments := ps\<rparr>))))))"


text \<open>
  \<open>GET /stripe/payment-success\<close> from its first write on, with the session and the
  booking that the handler has read before.
\<close>

definition ix_success_write ::
  "nat \<Rightarrow> oid \<Rightarrow> session \<Rightarrow> doc \<Rightarrow> db \<Rightarrow> response \<times> db" where
  "ix_success_write now newId session booking s =
     (let bookingId = toObjectId (md_bookingId session);
          ticketId = toObjectId (md_ticketId session);
          quantity = md_quantity session
      in
      (case updateOne (id_is bookingId)
              (Set [(''status'', JStr ''paid''), (''paidAt'', JDate now)])
              (bookings s) of
         None \<Rightarrow> (Fail 500 ''err.message'', s)
       | Some paid \<Rightarrow>
           let s1 = s\<lparr>bookings := coll paid\<rparr> in
           (case updateOne
                   (\<lambda>d. id_is ticketId d \<and> field_gte ''quantity'' (of_int quantity) d)
                   (Inc ''quantity'' (JNum (- of_int quantity))) (tickets s1) of
              None \<Rightarrow> (Fail 500 ''err.message'', s1)
            | Some reduced \<Rightarrow>
                let s2 = s1\<lparr>tickets := coll reduced\<rparr> in
                (case insertOne newId
                        [(''bookingId'', stored (map_option JId bookingId)),
                         (''ticketId'', stored (map_option JId ticketId)),
                         (''customerEmail'', stored (fld booking ''customerEmail'')),
                         (''amount'', JNum (amount_total session / 100)),
                         (''quantity'', stored (fld booking ''quantity'')),
                         (''currency'', JStr (currency session)),
                         (''transactionId'', JStr (payment_intent session)),
                         (''paidAt'', JDate now)]
                        (payments s2) of
                   None \<Rightarrow> (Fail 500 ''err.message'', s2)
                 | Some ps \<Rightarrow>
                     (Redirect ''/payment-success'', s2\<lparr>payments := ps\<rparr>)))))"


section \<open>Bookings, pay-time-decrement revision (src/index.js)\<close>

text \<open>
  \<open>POST /bookings\<close> of src/index.js stores the request body itself as the booking, after
  overwriting the fields it takes from the ticket. \<open>bq_rest\<close> holds the fields of the
  body other than the three the handler reads.
\<close>

record ix_booking_req =
  bq_ticketId :: "idparam option"
  bq_quantity :: "rat option"
  bq_customerEmail :: "string option"
  bq_rest :: doc

definition ix_post_bookings ::
  "(jval \<Rightarrow> rat option) \<Rightarrow> string option \<Rightarrow> nat \<Rightarrow> oid \<Rightarrow> ix_booking_req \<Rightarrow> db
     \<Rightarrow> response \<times> db" where
  "ix_post_bookings tonum caller now newId booking s =
     (if bq_customerEmail booking \<noteq> caller then (Fail 403 ''Forbidden'', s)
      else
        (case (bq_ticketId booking, bq_quantity booking, bq_customerEmail booking) of
           (Some ticketId, Some quantity, Some customerEmail) \<Rightarrow>
             if quantity = 0 \<or> customerEmail = []
             then (Fail 400 ''ticketId, quantity and customerEmail required'', s)
             else
               (case toObjectId ticketId of
                  None \<Rightarrow> (Fail 400 ''invalid ticketId'', s)
                | Some ticketOid \<Rightarrow>
                    (case findOne (by_id ticketOid) (tickets s) of
                       None \<Rightarrow> (Fail 404 ''Ticket not found'', s)
                     | Some ticket \<Rightarrow>
                         if fld ticket ''verificationStatus'' \<noteq> Some (JStr ''approved'')
                         then (Fail 400 ''Ticket is not approved for booking'', s)
                         else if js_lt tonum (fld ticket ''quantity'') quantity
                         then (Fail 400 ''Not enough tickets available'', s)
                         else
                           let doc0 = (''quantity'', JNum quantity)
                                      # (''customerEmail'', JStr customerEmail)
                                      # bq_rest booking;
                               doc1 = set_fields
                                        [(''ticketId'', stored (fld ticket ''_id'')),
                                         (''vendorEmail'', stored (fld ticket ''vendorEmail'')),
                                         (''title'', stored (fld ticket ''title'')),
                                         (''price'', stored (fld ticket ''price'')),
                                         (''status'', JStr ''pending''),
                                         (''createdAt'', JDate now)] doc0
                           in (case insertOne newId doc1 (bookings s) of
                                 None \<Rightarrow> (Fail 500 ''Server error'', s)
                               | Some bs \<Rightarrow>
                                   (Send [(''success'', JBool True),
                                          (''bookingId'', insertedId newId doc1)],
                                    s\<lparr>bookings := bs\<rparr>))))
         | _ \<Rightarrow> (Fail 400 ''ticketId, quantity and customerEmail required'', s)))"

text \<open>
  \<open>PATCH /bookings/:id/accept\<close> and \<open>/reject\<close> of src/index.js put the status test into
  the filter of the write.
\<close>

definition ix_bookings_accept :: "string option \<Rightarrow> nat \<Rightarrow> idparam \<Rightarrow> db \<Rightarrow> response \<times> db" where
  "ix_bookings_accept caller now idp s =
     (case toObjectId idp of
        None \<Rightarrow> (Fail 400 ''Invalid id'', s)
      | Some i \<Rightarrow>
          (case findOne (by_id i) (bookings s) of
             None \<Rightarrow> (Fail 404 ''Booking not found'', s)
           | Some booking \<Rightarrow>
               if fld booking ''vendorEmail'' \<noteq> js_email caller then (Fail 403 ''Forbidden'', s)
               else
                 (case updateOne (\<lambda>d. by_id i d \<and> field_eq ''status'' (JStr ''pending'') d)
                         (Set [(''status'', JStr ''accepted''), (''acceptedAt'', JDate now)])
                         (bookings s) of
                    None \<Rightarrow> (NoResponse, s)
                  | Some result \<Rightarrow>
                      (Send [(''success'', JBool True),
                             (''modifiedCount'', JNum (of_nat (modifiedCount result)))],
                       s\<lparr>bookings := coll result\<rparr>))))"

definition ix_bookings_reject :: "string option \<Rightarrow> nat \<Rightarrow> idparam \<Rightarrow> db \<Rightarrow> response \<times> db" where
  "ix_bookings_reject caller now idp s =
     (case toObjectId idp of
        None \<Rightarrow> (Fail 400 ''Invalid id'', s)
      | Some i \<Rightarrow>
          (case findOne (by_id i) (bookings s) of
             None \<Rightarrow> (Fail 404 ''Booking not found'', s)
           | Some booking \<Rightarrow>
               if fld booking ''vendorEmail'' \<noteq> js_email caller then (Fail 403 ''Forbidden'', s)
               else
                 (case updateOne (\<lambda>d. by_id i d \<and> field_eq ''status'' (JStr ''pending'') d)
                         (Set [(''status'', JStr ''rejected''), (''rejectedAt'', JDate now)])
                         (bookings s) of
                    None \<Rightarrow> (NoResponse, s)
                  | Some result \<Rightarrow>
                      (Send [(''success'', JBool True),
                             (''modifiedCount'', JNum (of_nat (modifiedCount result)))],
                       s\<lparr>bookings := coll result\<rparr>))))"

section \<open>Tickets\<close>

text \<open>The \<open>verifyAdmin\<close> middleware, the same in both files: does the request go on?\<close>

definition verifyAdmin :: "string option \<Rightarrow> db \<Rightarrow> bool" where
  "verifyAdmin caller s =
     (case findOne (field_eq ''email'' (stored (js_email caller))) (users s) of
        None \<Rightarrow> False
      | Some user \<Rightarrow> fld user ''role'' = Some (JStr ''admin''))"

text \<open>
  \<open>PATCH /tickets/:id/advertise\<close>, the same text in src/index.js and
  src/unnamed/part\_002. \<open>advertised\<close> is the field of that name of the request body.
\<close>

definition approved_advertised :: "doc \<Rightarrow> bool" where
  "approved_advertised d =
     (field_eq ''verificationStatus'' (JStr ''approved'') d \<and> field_eq ''advertised'' (JBool True) d)"

definition advertise ::
  "string option \<Rightarrow> idparam \<Rightarrow> jval option \<Rightarrow> db \<Rightarrow> response \<times> db" where
  "advertise caller idp advertised s =
     (if \<not> verifyAdmin caller s then (Fail 403 ''Forbidden'', s)
      else
        (case advertised of
           Some (JBool adv) \<Rightarrow>
             if adv \<and> 6 \<le> countDocuments approved_advertised (tickets s)
             then (Fail 400 ''Cannot advertise more than 6 tickets'', s)
             else
               (case toObjectId idp of
                  None \<Rightarrow> (Fail 400 ''invalid id'', s)
                | Some oid \<Rightarrow>
                    (case updateOne (by_id oid) (Set [(''advertised'', JBool adv)]) (tickets s) of
                       None \<Rightarrow> (Fail 500 ''Server error'', s)
                     | Some result \<Rightarrow>
                         let s1 = s\<lparr>tickets := coll result\<rparr> in
                         if matchedCount result = 0 then (Fail 404 ''Ticket not found'', s1)
                         else (Send [(''success'', JBool True),
                                     (''modifiedCount'', JNum (of_nat (modifiedCount result)))],
                               s1)))
         | _ \<Rightarrow> (Fail 400 ''advertised must be boolean'', s)))"

text \<open>
  The vendor's routes on a ticket. The request body is a free-form document, and
  \<open>delete updatedData.k\<close> removes the key \<open>k\<close> from it.
\<close>

definition ix_patch_ticket :: "idparam \<Rightarrow> doc \<Rightarrow> db \<Rightarrow> response \<times> db" where
  "ix_patch_ticket idp body s =
     (let updatedData =
            AList.delete ''createdAt'' (AList.delete ''vendorName''
              (AList.delete ''vendorEmail'' (AList.delete ''verificationStatus'' body)))
      in
      (case toObjectId idp of
         None \<Rightarrow> (Fail 500 ''Server error'', s)
       | Some i \<Rightarrow>
           (case findOne (by_id i) (tickets s) of
              None \<Rightarrow> (Fail 404 ''Ticket not found'', s)
            | Some ticket \<Rightarrow>
                if fld ticket ''verificationStatus'' = Some (JStr ''rejected'')
                then (Fail 403 ''Rejected tickets cannot be updated'', s)
                else
                  (case updateOne (by_id i) (Set updatedData) (tickets s) of
                     None \<Rightarrow> (Fail 500 ''Server error'', s)
                   | Some result \<Rightarrow>
                       (Send [(''success'', JBool True),
                              (''modifiedCount'', JNum (of_nat (modifiedCount result)))],
                        s\<lparr>tickets := coll result\<rparr>)))))"

text \<open>
  The two adjustments \<open>PATCH /tickets/:id\<close> of src/unnamed/part\_002 makes to the update:
  \<open>if ("k" in u) { if (!Array.isArray(u.k)) u.k = [] }\<close> and
  \<open>if (u.k) u.k = Number(u.k)\<close>.
\<close>

definition array_or_empty :: "string \<Rightarrow> doc \<Rightarrow> doc" where
  "array_or_empty k u =
     (case fld u k of
        None \<Rightarrow> u
      | Some (JArr xs) \<Rightarrow> u
      | Some _ \<Rightarrow> AList.update k (JArr []) u)"

definition to_number :: "(jval \<Rightarrow> rat option) \<Rightarrow> string \<Rightarrow> doc \<Rightarrow> doc" where
  "to_number tonum k u =
     (if truthy (fld u k) then AList.update k (js_Number tonum (fld u k)) u else u)"

definition p2_patch_ticket ::
  "(jval \<Rightarrow> rat option) \<Rightarrow> string option \<Rightarrow> idparam \<Rightarrow> doc \<Rightarrow> db \<Rightarrow> response \<times> db" where
  "p2_patch_ticket tonum caller idp body s =
     (case toObjectId idp of
        None \<Rightarrow> (Fail 400 ''Invalid id'', s)
      | Some oid \<Rightarrow>
          let updatedData =
                AList.delete ''_id'' (AList.delete ''createdAt'' (AList.delete ''vendorName''
                  (AList.delete ''vendorEmail'' (AList.delete ''verificationStatus'' body))))
          in
          (case findOne (by_id oid) (tickets s) of
             None \<Rightarrow> (Fail 404 ''Ticket not found'', s)
           | Some ticket \<Rightarrow>
               if fld ticket ''vendorEmail'' \<noteq> js_email caller then (Fail 403 ''Forbidden'', s)
               else if fld ticket ''verificationStatus'' = Some (JStr ''rejected'')
               then (Fail 403 ''Rejected tickets cannot be updated'', s)
               else
                 let u1 = array_or_empty ''perks'' updatedData;
                     u2 = to_number tonum ''price'' u1;
                     u3 = to_number tonum ''quantity'' u2
                 in
                 (case updateOne (by_id oid) (Set u3) (tickets s) of
                    None \<Rightarrow> (Fail 500 ''Server error'', s)
                  | Some result \<Rightarrow>
                      (Send [(''success'', JBool True),
                             (''modifiedCount'', JNum (of_nat (modifiedCount result)))],
                       s\<lparr>tickets := coll result\<rparr>))))"

text \<open>\<open>PUT /tickets/:id\<close> exists in src/index.js only; it answers with the driver's result.\<close>

definition ix_put_ticket :: "string option \<Rightarrow> idparam \<Rightarrow> doc \<Rightarrow> db \<Rightarrow> response \<times> db" where
  "ix_put_ticket caller idp update s =
     (case toObjectId idp of
        None \<Rightarrow> (Fail 400 ''Invalid id'', s)
      | Some oid \<Rightarrow>
          (case findOne (by_id oid) (tickets s) of
             None \<Rightarrow> (Fail 404 ''Ticket not found'', s)
           | Some ticket \<Rightarrow>
               if fld ticket ''vendorEmail'' \<noteq> js_email caller then (Fail 403 ''Forbidden'', s)
               else
                 (case updateOne (by_id oid) (Set update) (tickets s) of
                    None \<Rightarrow> (NoResponse, s)
                  | Some result \<Rightarrow>
                      (Send [(''acknowledged'', JBool True),
                             (''modifiedCount'', JNum (of_nat (modifiedCount result))),
                             (''upsertedId'', JNull),
                             (''upsertedCount'', JNum 0),
                             (''matchedCount'', JNum (of_nat (matchedCount result)))],
                       s\<lparr>tickets := coll result\<rparr>))))"

text \<open>\<open>DELETE /tickets/:id\<close>, the same text in src/index.js and src/unnamed/part\_002.\<close>

definition delete_ticket :: "string option \<Rightarrow> idparam \<Rightarrow> db \<Rightarrow> response \<times> db" where
  "delete_ticket caller idp s =
     (case toObjectId idp of
        None \<Rightarrow> (Fail 400 ''Invalid id'', s)
      | Some i \<Rightarrow>
          (case findOne (by_id i) (tickets s) of
             None \<Rightarrow> (Fail 404 ''Ticket not found'', s)
           | Some ticket \<Rightarrow>
               if fld ticket ''vendorEmail'' \<noteq> js_email caller then (Fail 403 ''Forbidden'', s)
               else if fld ticket ''verificationStatus'' = Some (JStr ''rejected'')
               then (Fail 403 ''Rejected tickets cannot be deleted'', s)
               else (Send [(''acknowledged'', JBool True), (''deletedCount'', JNum 1)],
                     s\<lparr>tickets := deleteOne (by_id i) (tickets s)\<rparr>)))"


section \<open>Sequences of operations\<close>

text \<open>
  The operations on bookings of each revision, as data, and the state after a sequence
  of them. A quantity is fine when it is not a negative number; \<open>stock_ok\<close> asks that of
  every ticket and of every booking.
\<close>

datatype p2_op =
    P2Book "string option" nat oid booking_req
  | P2Accept "string option" nat idparam
  | P2Reject "string option" nat idparam
  | P2Cancel idparam
  | P2Verify nat oid string

fun p2_step :: "(string \<Rightarrow> session option) \<Rightarrow> p2_op \<Rightarrow> db \<Rightarrow> db" where
  "p2_step stripe (P2Book caller now newId req) s = snd (p2_post_bookings caller now newId req s)"
| "p2_step stripe (P2Accept caller now idp) s = snd (p2_bookings_accept caller now idp s)"
| "p2_step stripe (P2Reject caller now idp) s = snd (p2_bookings_reject caller now idp s)"
| "p2_step stripe (P2Cancel idp) s = snd (p2_payment_cancelled idp s)"
| "p2_step stripe (P2Verify now newId sid) s = snd (p2_payments_verify stripe now newId sid s)"

definition p2_run :: "(string \<Rightarrow> session option) \<Rightarrow> p2_op list \<Rightarrow> db \<Rightarrow> db" where
  "p2_run stripe ops s = fold (p2_step stripe) ops s"

datatype ix_op =
    IxBook "string option" nat oid ix_booking_req
  | IxAccept "string option" nat idparam
  | IxReject "string option" nat idparam
  | IxPay nat oid string

fun ix_step :: "(jval \<Rightarrow> rat option) \<Rightarrow> (string \<Rightarrow> session option) \<Rightarrow> ix_op \<Rightarrow> db \<Rightarrow> db" where
  "ix_step tonum stripe (IxBook caller now newId req) s
     = snd (ix_post_bookings tonum caller now newId req s)"
| "ix_step tonum stripe (IxAccept caller now idp) s = snd (ix_bookings_accept caller now idp s)"
| "ix_step tonum stripe (IxReject caller now idp) s = snd (ix_bookings_reject caller now idp s)"
| "ix_step tonum stripe (IxPay now newId sid) s = snd (ix_payment_success stripe now newId sid s)"

definition ix_run ::
  "(jval \<Rightarrow> rat option) \<Rightarrow> (string \<Rightarrow> session option) \<Rightarrow> ix_op list \<Rightarrow> db \<Rightarrow> db" where
  "ix_run tonum stripe ops s = fold (ix_step tonum stripe) ops s"

definition nonneg_quantity :: "doc \<Rightarrow> bool" where
  "nonneg_quantity d =
     (case fld d ''quantity'' of Some (JNum n) \<Rightarrow> 0 \<le> n | Some (JInf s) \<Rightarrow> s | _ \<Rightarrow> True)"

definition stock_ok :: "db \<Rightarrow> bool" where
  "stock_ok s = (list_all nonneg_quantity (tickets s) \<and> list_all nonneg_quantity (bookings s))"

section \<open>Example states\<close>

text \<open>
  Seven approved tickets with ids 0 to 6, the first \<open>n\<close> of them advertised, and one
  administrator.
\<close>

definition adv_db :: "nat \<Rightarrow> db" where
  "adv_db n =
     \<lparr>users = [[(''email'', JStr ''root@tixgo''), (''role'', JStr ''admin'')]],
      tickets = map (\<lambda>i. [(''_id'', JId i), (''verificationStatus'', JStr ''approved''),
                           (''advertised'', JBool (i < n))]) [0..<7],
      bookings = [], payments = []\<rparr>"

text \<open>
  One approved ticket with 5 places left, one accepted booking of 2 places on it
  (\<open>shop_b\<close>), no payment yet, and the provider's session \<open>cs_1\<close> that reports the
  booking as paid.
\<close>

definition shop_db :: db where
  "shop_db =
     \<lparr>users = [],
      tickets = [[(''_id'', JId 1), (''vendorEmail'', JStr ''v@tixgo''),
                  (''title'', JStr ''Dhaka-Sylhet''), (''price'', JNum 20), (''quantity'', JNum 5),
                  (''verificationStatus'', JStr ''approved''), (''advertised'', JBool False)]],
      bookings = [[(''_id'', JId 2), (''ticketId'', JId 1), (''vendorEmail'', JStr ''v@tixgo''),
                   (''customerEmail'', JStr ''c@tixgo''), (''title'', JStr ''Dhaka-Sylhet''),
                   (''price'', JNum 20), (''quantity'', JNum 2), (''status'', JStr ''accepted''),
                   (''createdAt'', JDate 1)]],
      payments = []\<rparr>"

definition shop_b :: doc where
  "shop_b = [(''_id'', JId 2), (''ticketId'', JId 1), (''vendorEmail'', JStr ''v@tixgo''),
             (''customerEmail'', JStr ''c@tixgo''), (''title'', JStr ''Dhaka-Sylhet''),
             (''price'', JNum 20), (''quantity'', JNum 2), (''status'', JStr ''accepted''),
             (''createdAt'', JDate 1)]"

definition sess1 :: session where
  "sess1 = \<lparr>payment_status = ''paid'', md_bookingId = Hex 2, md_ticketId = Hex 1,
            md_quantity = 2, payment_intent = ''pi_1'', amount_total = 4000,
            currency = ''usd''\<rparr>"

definition stripe1 :: "string \<Rightarrow> session option" where
  "stripe1 sid = (if sid = ''cs_1'' then Some sess1 else None)"

text \<open>
  Booking requests of the customer \<open>c@tixgo\<close> on ticket 1, for 1 place and for 2
  places, the latter in the form of each revision; a conversion to numbers that knows no
  string; and a state whose only ticket is approved and hidden.
\<close>

definition req1 :: booking_req where
  "req1 = \<lparr>rq_ticketId = Some (Hex 1), rq_quantity = Some 1,
           rq_customerEmail = Some ''c@tixgo''\<rparr>"

definition req2 :: booking_req where
  "req2 = \<lparr>rq_ticketId = Some (Hex 1), rq_quantity = Some 2,
           rq_customerEmail = Some ''c@tixgo''\<rparr>"

definition book2 :: ix_booking_req where
  "book2 = \<lparr>bq_ticketId = Some (Hex 1), bq_quantity = Some 2,
            bq_customerEmail = Some ''c@tixgo'', bq_rest = []\<rparr>"

definition no_tonum :: "jval \<Rightarrow> rat option" where
  "no_tonum v = None"

definition hidden_db :: db where
  "hidden_db =
     \<lparr>users = [],
      tickets = [[(''_id'', JId 1), (''vendorEmail'', JStr ''v@tixgo''),
                  (''title'', JStr ''Dhaka-Sylhet''), (''price'', JNum 20), (''quantity'', JNum 5),
                  (''verificationStatus'', JStr ''approved''), (''advertised'', JBool False),
                  (''hidden'', JBool True)]],
      bookings = [], payments = []\<rparr>"

text \<open>A state whose only ticket is approved and has no \<open>quantity\<close> field.\<close>

definition unstocked_db :: db where
  "unstocked_db =
     \<lparr>users = [],
      tickets = [[(''_id'', JId 1), (''vendorEmail'', JStr ''v@tixgo''),
                  (''title'', JStr ''Dhaka-Sylhet''), (''price'', JNum 20),
                  (''verificationStatus'', JStr ''approved''), (''advertised'', JBool False)]],
      bookings = [], payments = []\<rparr>"

text \<open>A state whose only ticket still waits for the administrator's verdict.\<close>

definition pending_db :: db where
  "pending_db =
     \<lparr>users = [],
      tickets = [[(''_id'', JId 1), (''vendorEmail'', JStr ''v@tixgo''),
                  (''title'', JStr ''Dhaka-Sylhet''), (''price'', JNum 20), (''quantity'', JNum 5),
                  (''verificationStatus'', JStr ''pending''), (''advertised'', JBool False)]],
      bookings = [], payments = []\<rparr>"

text \<open>
  One approved ticket with 3 places left and a pending booking that holds 2 more of
  them (\<open>held_b\<close>).
\<close>

definition held_b :: doc where
  "held_b = [(''_id'', JId 2), (''ticketId'', JId 1), (''vendorEmail'', JStr ''v@tixgo''),
             (''customerEmail'', JStr ''c@tixgo''), (''title'', JStr ''Dhaka-Sylhet''),
             (''price'', JNum 20), (''quantity'', JNum 2), (''status'', JStr ''pending''),
             (''createdAt'', JDate 1)]"

definition held_db :: db where
  "held_db =
     \<lparr>users = [],
      tickets = [[(''_id'', JId 1), (''vendorEmail'', JStr ''v@tixgo''),
                  (''title'', JStr ''Dhaka-Sylhet''), (''price'', JNum 20), (''quantity'', JNum 3),
                  (''verificationStatus'', JStr ''approved''), (''advertised'', JBool False)]],
      bookings = [[(''_id'', JId 2), (''ticketId'', JId 1), (''vendorEmail'', JStr ''v@tixgo''),
                   (''customerEmail'', JStr ''c@tixgo''), (''title'', JStr ''Dhaka-Sylhet''),
                   (''price'', JNum 20), (''quantity'', JNum 2), (''status'', JStr ''pending''),
                   (''createdAt'', JDate 1)]],
      payments = []\<rparr>"



text \<open>The state of \<open>shop_db\<close> with its booking cancelled and the 2 places given back.\<close>

definition cancelled_db :: db where
  "cancelled_db =
     \<lparr>users = [],
      tickets = [[(''_id'', JId 1), (''vendorEmail'', JStr ''v@tixgo''),
                  (''title'', JStr ''Dhaka-Sylhet''), (''price'', JNum 20), (''quantity'', JNum 7),
                  (''verificationStatus'', JStr ''approved''), (''advertised'', JBool False)]],
      bookings = [[(''_id'', JId 2), (''ticketId'', JId 1), (''vendorEmail'', JStr ''v@tixgo''),
                   (''customerEmail'', JStr ''c@tixgo''), (''title'', JStr ''Dhaka-Sylhet''),
                   (''price'', JNum 20), (''quantity'', JNum 2), (''status'', JStr ''cancelled''),
                   (''createdAt'', JDate 1)]],
      payments = []\<rparr>"

text \<open>A state with one approved ticket of \<open>n\<close> places and no booking.\<close>

definition stock_db :: "rat \<Rightarrow> db" where
  "stock_db n =
     \<lparr>users = [],
      tickets = [[(''_id'', JId 1), (''vendorEmail'', JStr ''v@tixgo''),
                  (''title'', JStr ''Dhaka-Sylhet''), (''price'', JNum 20), (''quantity'', JNum n),
                  (''verificationStatus'', JStr ''approved''), (''advertised'', JBool False)]],
      bookings = [], payments = []\<rparr>"

text \<open>
  A state whose only ticket was rejected by the administrator, and a request body with
  which its vendor asks for a new price and for the status \<open>approved\<close>.
\<close>

definition rejected_db :: db where
  "rejected_db =
     \<lparr>users = [],
      tickets = [[(''_id'', JId 1), (''vendorEmail'', JStr ''v@tixgo''),
                  (''title'', JStr ''Dhaka-Sylhet''), (''price'', JNum 20), (''quantity'', JNum 5),
                  (''verificationStatus'', JStr ''rejected''), (''advertised'', JBool False)]],
      bookings = [], payments = []\<rparr>"

definition body1 :: doc where
  "body1 = [(''price'', JNum 1), (''verificationStatus'', JStr ''approved''),
            (''vendorEmail'', JStr ''x@tixgo'')]"

text \<open>A request body whose key is a path into the field \<open>vendorName\<close>.\<close>

definition body2 :: doc where
  "body2 = [(''vendorName.alias'', JStr ''Other Lines'')]"

section \<open>Facts about the store\<close>

lemma fld_update: "fld (AList.update k v d) k' = (if k' = k then Some v else fld d k')"
  by (simp add: fld_def update_conv')

lemma fld_delete: "fld (AList.delete k d) k' = (if k' = k then None else fld d k')"
  by (simp add: fld_def delete_conv')

lemma fld_set_fields_other: "k \<notin> fst ` set kvs \<Longrightarrow> fld (set_fields kvs d) k = fld d k"
  by (induction kvs arbitrary: d) (auto simp: fld_update)

subsection \<open>Sums of doubles\<close>

lemma round_even_int [simp]: "round_even (of_int n) = n"
  by (simp add: round_even_def)

lemma round_even_zero [simp]: "round_even 0 = 0"
  by (simp add: round_even_def)

lemma round_even_nonneg: "0 \<le> x \<Longrightarrow> 0 \<le> round_even x"
  by (auto simp: round_even_def Let_def)

lemma round_even_half: "round_even (of_int n + 1 / 2) = (if even n then n else n + 1)"
proof -
  have f: "\<lfloor>(of_int n :: rat) + 1 / 2\<rfloor> = n" by (rule floor_unique) simp_all
  show ?thesis unfolding round_even_def Let_def f by simp
qed

lemma ulp_pos: "0 < ulp a"
  by (simp add: ulp_def)

lemma halvings_unfold:
  "halvings (numeral k) a = (if a < 2 ^ 53 then 0 else Suc (halvings (pred_numeral k) (a / 2)))"
  by (simp add: numeral_eq_Suc)

lemma ulp_2_53: "ulp 9007199254740992 = 2"
  by (simp add: ulp_def halvings_unfold)

text \<open>Whole numbers up to \<open>2\<^sup>5\<^sup>3\<close> are doubles, so a sum that is one of them is exact.\<close>

lemma round_double_whole [simp]:
  assumes "x \<in> \<int>" "\<bar>x\<bar> \<le> 2 ^ 53"
  shows "round_double x = JNum x"
proof -
  from assms(1) obtain n where n: "x = of_int n" by (auto elim: Ints_cases)
  have r: "of_int (round_even (\<bar>x\<bar> / ulp \<bar>x\<bar>)) * ulp \<bar>x\<bar> = \<bar>x\<bar>"
  proof (cases "\<bar>x\<bar> = 2 ^ 53")
    case True
    have "(9007199254740992::rat) / 2 = of_int 4503599627370496" by simp
    then have "round_even (9007199254740992 / 2) = 4503599627370496"
      by (simp only: round_even_int)
    with True show ?thesis by (simp add: ulp_2_53)
  next
    case False
    with assms(2) have lt: "\<bar>x\<bar> < 2 ^ 53" by simp
    define j where "j = doublings 1074 \<bar>x\<bar>"
    have u: "ulp \<bar>x\<bar> = 1 / 2 ^ j" using lt by (simp add: ulp_def j_def)
    have "\<bar>x\<bar> / ulp \<bar>x\<bar> = of_int (\<bar>n\<bar> * 2 ^ j)" unfolding u by (simp add: n)
    then have "round_even (\<bar>x\<bar> / ulp \<bar>x\<bar>) = \<bar>n\<bar> * 2 ^ j" by (simp only: round_even_int)
    then show ?thesis unfolding u by (simp add: n)
  qed
  have "(2::rat) ^ 53 < 2 ^ 1024" by (rule power_strict_increasing) simp_all
  with assms(2) have "\<not> (2::rat) ^ 1024 \<le> \<bar>x\<bar>" by linarith
  then show ?thesis unfolding round_double_def Let_def r by (simp add: abs_if del: power_numeral)
qed

text \<open>Rounding keeps the sign.\<close>

lemma round_double_nonneg:
  assumes "0 \<le> x"
  shows "round_double x = JInf True \<or> (\<exists>r\<ge>0. round_double x = JNum r)"
proof -
  let ?r = "of_int (round_even (\<bar>x\<bar> / ulp \<bar>x\<bar>)) * ulp \<bar>x\<bar>"
  have r0: "0 \<le> ?r" using ulp_pos[of "\<bar>x\<bar>"] round_even_nonneg[of "\<bar>x\<bar> / ulp \<bar>x\<bar>"]
    by (simp add: less_imp_le)
  show ?thesis
  proof (cases "2 ^ 1024 \<le> ?r")
    case True
    have "x \<noteq> 0"
    proof
      assume "x = 0"
      then have "?r = 0" by simp
      with True show False by (simp del: power_numeral)
    qed
    with assms True show ?thesis by (simp add: round_double_def Let_def del: power_numeral)
  next
    case False
    with assms r0 show ?thesis by (simp add: round_double_def Let_def del: power_numeral)
  qed
qed

text \<open>
  Between \<open>2\<^sup>5\<^sup>3\<close> and \<open>2\<^sup>5\<^sup>4\<close> the doubles are the even numbers:
  \<open>10\<^sup>1\<^sup>6 - 1\<close> is as far from \<open>10\<^sup>1\<^sup>6 - 2\<close> as from \<open>10\<^sup>1\<^sup>6\<close> and rounds
  to the latter, and \<open>2\<^sup>5\<^sup>3 + 1\<close> rounds to \<open>2\<^sup>5\<^sup>3\<close>.
\<close>

lemma round_double_1e16: "round_double 9999999999999999 = JNum 10000000000000000"
proof -
  have u: "ulp 9999999999999999 = 2" by (simp add: ulp_def halvings_unfold)
  have "(9999999999999999::rat) / 2 = of_int 4999999999999999 + 1 / 2" by simp
  then have "round_even (9999999999999999 / 2) = 5000000000000000"
    by (simp only: round_even_half) simp
  then show ?thesis by (simp add: round_double_def Let_def u)
qed

lemma round_double_2_53: "round_double 9007199254740993 = JNum 9007199254740992"
proof -
  have u: "ulp 9007199254740993 = 2" by (simp add: ulp_def halvings_unfold)
  have "(9007199254740993::rat) / 2 = of_int 4503599627370496 + 1 / 2" by simp
  then have "round_even (9007199254740993 / 2) = 4503599627370496"
    by (simp only: round_even_half) simp
  then show ?thesis by (simp add: round_double_def Let_def u)
qed

subsection \<open>Updates of top-level fields\<close>

lemma path_of_nonempty: "path_of k \<noteq> []"
  by (induction k) (auto split: list.splits)

lemma path_of_plain: "CHR ''.'' \<notin> set k \<Longrightarrow> path_of k = [k]"
  by (induction k) auto

lemma set_field_plain: "plain_key k \<Longrightarrow> set_field k v d = Some (AList.update k v d)"
  by (simp add: set_field_def plain_key_def path_of_plain)

lemma set_paths_plain:
  "list_all plain_key (map fst kvs) \<Longrightarrow> set_paths kvs d = Some (set_fields kvs d)"
  by (induction kvs arbitrary: d) (auto simp: set_field_plain)

lemma plain_key_Cons [simp]:
  "plain_key (c # cs) = (c \<noteq> CHR ''$'' \<and> c \<noteq> CHR ''.'' \<and> CHR ''.'' \<notin> set cs)"
  by (auto simp: plain_key_def)

lemma apply_Set_plain [simp]:
  "list_all plain_key (map fst kvs) \<Longrightarrow>
   apply_update (Set kvs) d =
     (let d' = set_fields kvs d in if fld d' ''_id'' = fld d ''_id'' then Some d' else None)"
  by (simp add: set_paths_plain)

lemma valid_path_plain: "plain_key k \<Longrightarrow> valid_path (path_of k)"
  by (simp add: plain_key_def path_of_plain valid_path_def)

lemma no_conflict_plain:
  assumes "list_all plain_key (map fst kvs)"
  shows "\<not> conflict (map (path_of \<circ> fst) kvs)"
proof -
  have one: "\<exists>k. p = [k]" if "p \<in> set (map (path_of \<circ> fst) kvs)" for p
    using that assms by (auto simp: list_all_iff plain_key_def path_of_plain)
  show ?thesis
  proof
    assume "conflict (map (path_of \<circ> fst) kvs)"
    then obtain p q where pq: "p \<in> set (map (path_of \<circ> fst) kvs)"
      "q \<in> set (map (path_of \<circ> fst) kvs)" "p \<noteq> q" "take (length p) q = p"
      unfolding conflict_def list_ex_iff by blast
    from one[OF pq(1)] one[OF pq(2)] pq(3,4) show False by auto
  qed
qed

lemma well_formed_Set_plain [simp]:
  "list_all plain_key (map fst kvs) \<Longrightarrow> well_formed (Set kvs)"
  using no_conflict_plain[of kvs]
  by (simp add: list_all_iff valid_path_plain)

declare apply_update.simps(1) [simp del]
declare well_formed.simps(1) [simp del]

lemma find_holds: "find P xs = Some x \<Longrightarrow> P x"
  by (induction xs) (auto split: if_splits)

lemma find_mem: "find P xs = Some x \<Longrightarrow> x \<in> set xs"
  by (induction xs) (auto split: if_splits)

lemma find_by_id_ex: "find (by_id t) ds = Some d \<Longrightarrow> list_ex (by_id t) ds"
  by (auto simp: list_ex_iff dest: find_holds find_mem)

lemma updateOne_Set:
  "list_all plain_key (map fst kvs) \<Longrightarrow>
   updateOne flt (Set kvs) ds = update_first flt (Set kvs) ds"
  by (simp add: updateOne_def)

lemma update_first_miss:
  "\<forall>d\<in>set ds. \<not> flt d \<Longrightarrow>
   update_first flt u ds = Some \<lparr>coll = ds, matchedCount = 0, modifiedCount = 0\<rparr>"
  by (induction ds) auto

lemma update_first_matched:
  "update_first flt u ds = Some r \<Longrightarrow> matchedCount r = (if list_ex flt ds then 1 else 0)"
  by (induction ds arbitrary: r) (auto split: option.splits if_splits)

lemma update_first_total:
  assumes "\<And>d. apply_update u d \<noteq> None"
  shows "\<exists>r. update_first flt u ds = Some r"
proof (induction ds)
  case Nil
  show ?case by simp
next
  case (Cons d ds)
  then obtain r where "update_first flt u ds = Some r" by blast
  moreover obtain d' where "apply_update u d = Some d'" using assms[of d] by auto
  ultimately show ?case by simp
qed

text \<open>A property of every document survives a write that keeps it on the written one.\<close>

lemma update_first_all:
  "update_first flt u ds = Some r \<Longrightarrow> list_all P ds \<Longrightarrow>
   (\<And>d d'. P d \<Longrightarrow> flt d \<Longrightarrow> apply_update u d = Some d' \<Longrightarrow> P d') \<Longrightarrow> list_all P (coll r)"
proof (induction ds arbitrary: r)
  case Nil
  then show ?case by auto
next
  case (Cons d ds)
  show ?case
  proof (cases "flt d")
    case True
    with Cons.prems show ?thesis by (auto split: option.splits)
  next
    case False
    with Cons.prems obtain r' where r': "update_first flt u ds = Some r'"
      and r: "r = r'\<lparr>coll := d # coll r'\<rparr>"
      by (auto split: option.splits)
    from Cons.IH[OF r'] Cons.prems(2,3) have "list_all P (coll r')" by auto
    with r Cons.prems(2) show ?thesis by simp
  qed
qed

text \<open>
  Looking a document up by its id after a write whose filter fixes the id \<open>t\<close>: the
  document found is the one found before, updated if the filter matched it.
\<close>

lemma update_first_find:
  assumes "update_first flt u ds = Some r" "\<And>d. flt d \<Longrightarrow> by_id t d"
    "\<And>d d'. apply_update u d = Some d' \<Longrightarrow> fld d' ''_id'' = fld d ''_id''"
  shows "find (by_id j) (coll r) =
     (case find (by_id j) ds of None \<Rightarrow> None
      | Some d \<Rightarrow> if flt d then apply_update u d else Some d)"
  using assms(1)
proof (induction ds arbitrary: r)
  case Nil
  then show ?case by auto
next
  case (Cons d ds)
  show ?case
  proof (cases "flt d")
    case True
    then obtain d' where d': "apply_update u d = Some d'" and r: "coll r = d' # ds"
      using Cons.prems(1) by (auto split: option.splits)
    have idd: "fld d' ''_id'' = fld d ''_id''" using assms(3)[OF d'] .
    have t: "by_id t d" using assms(2)[OF True] .
    show ?thesis
    proof (cases "j = t")
      case True
      with t idd r d' \<open>flt d\<close> show ?thesis by (simp add: by_id_def id_eq_def)
    next
      case False
      with t idd r have "\<not> by_id j d" "\<not> by_id j d'" by (auto simp: by_id_def id_eq_def)
      moreover have "\<And>e. find (by_id j) ds = Some e \<Longrightarrow> \<not> flt e"
      proof
        fix e assume "find (by_id j) ds = Some e" "flt e"
        then have "by_id j e" "by_id t e" using assms(2) by (auto dest: find_holds)
        with False show False by (simp add: by_id_def id_eq_def)
      qed
      ultimately show ?thesis using r by (auto split: option.splits)
    qed
  next
    case False
    with Cons.prems obtain r' where r': "update_first flt u ds = Some r'"
      and r: "coll r = d # coll r'"
      by (auto split: option.splits)
    from Cons.IH[OF r'] r False show ?thesis by (auto split: option.splits)
  qed
qed

lemma update_first_find_same:
  assumes "update_first flt u ds = Some r"
    and "\<And>d d'. flt d \<Longrightarrow> apply_update u d = Some d' \<Longrightarrow> flt d'"
  shows "find flt (coll r) = (case find flt ds of None \<Rightarrow> None | Some d \<Rightarrow> apply_update u d)"
  using assms(1)
proof (induction ds arbitrary: r)
  case Nil
  then show ?case by auto
next
  case (Cons d ds)
  show ?case
  proof (cases "flt d")
    case True
    then obtain d' where d': "apply_update u d = Some d'" and r: "coll r = d' # ds"
      using Cons.prems(1) by (auto split: option.splits)
    with True assms(2)[OF True d'] show ?thesis by simp
  next
    case False
    with Cons.prems obtain r' where r': "update_first flt u ds = Some r'"
      and r: "coll r = d # coll r'"
      by (auto split: option.splits)
    from Cons.IH[OF r'] r False show ?thesis by simp
  qed
qed

text \<open>The write hits the document that the lookup finds, when the filter matches it.\<close>

lemma update_first_hit:
  assumes "find P ds = Some d" "flt d" "\<And>e. flt e \<Longrightarrow> P e" "apply_update u d = Some d'"
  shows "\<exists>r. update_first flt u ds = Some r \<and> matchedCount r = 1
            \<and> modifiedCount r = (if d' = d then 0 else 1)"
  using assms(1)
proof (induction ds)
  case Nil
  then show ?case by simp
next
  case (Cons a ds)
  show ?case
  proof (cases "P a")
    case True
    with Cons.prems have "a = d" by simp
    with assms(2,4) show ?thesis by simp
  next
    case False
    then have "\<not> flt a" using assms(3) by blast
    moreover from False Cons.prems have "find P ds = Some d" by simp
    ultimately show ?thesis using Cons.IH by auto
  qed
qed

lemma findOne_None_count: "(findOne P ds = None) = (countDocuments P ds = 0)"
  by (auto simp: findOne_def countDocuments_def find_None_iff filter_empty_conv)

lemma insertOne_count:
  "insertOne newId d ds = Some ds' \<Longrightarrow> k \<noteq> ''_id'' \<Longrightarrow>
   countDocuments (field_eq k v) ds'
     = countDocuments (field_eq k v) ds + (if field_eq k v d then 1 else 0)"
  by (auto simp: insertOne_def Let_def countDocuments_def field_eq_def fld_update
      split: if_splits)

lemma id_is_Some: "id_is (Some t) = by_id t"
  by (simp add: id_is_def by_id_def stored_def fun_eq_iff)

lemma unique_ids_same:
  "unique_ids ds \<Longrightarrow> d \<in> set ds \<Longrightarrow> e \<in> set ds \<Longrightarrow> by_id t d \<Longrightarrow> by_id t e \<Longrightarrow> e = d"
proof -
  assume u: "unique_ids ds" and m: "d \<in> set ds" "e \<in> set ds" and i: "by_id t d" "by_id t e"
  from u have "inj_on (\<lambda>d. fld d ''_id'') (set ds)" by (simp add: unique_ids_def distinct_map)
  moreover from i have "fld e ''_id'' = fld d ''_id''" by (simp add: by_id_def id_eq_def)
  ultimately show "e = d" using m by (auto dest: inj_onD)
qed

text \<open>
  The conditional decrement \<open>updateOne({ _id: t, quantity: { $gte: q } },
  { $inc: { quantity: -q } })\<close> on a ticket whose quantity is the number \<open>n\<close>: the
  new quantity is the double nearest to \<open>n - q\<close>, and the write modifies nothing when
  that is \<open>n\<close> itself.
\<close>

lemma update_first_unmodified:
  "update_first flt u ds = Some r \<Longrightarrow> modifiedCount r = 0 \<Longrightarrow> coll r = ds"
  by (induction ds arbitrary: r) (auto split: option.splits if_splits)

lemma update_same: "fld d k = Some w \<Longrightarrow> (AList.update k v d = d) = (v = w)"
proof
  assume a: "fld d k = Some w" and "AList.update k v d = d"
  then have "fld (AList.update k v d) k = fld d k" by simp
  with a show "v = w" by (simp add: fld_update)
next
  assume "fld d k = Some w" and "v = w"
  then show "AList.update k v d = d" by (simp add: fld_def update_triv)
qed

lemma conditional_decrement:
  assumes d: "find (by_id t) ds = Some d" and n: "fld d ''quantity'' = Some (JNum n)"
    and u: "unique_ids ds"
  shows "\<exists>r. updateOne (\<lambda>d. by_id t d \<and> field_gte ''quantity'' q d)
                (Inc ''quantity'' (JNum (- q))) ds = Some r
            \<and> (if q \<le> n
                then find (by_id t) (coll r)
                       = Some (AList.update ''quantity'' (round_double (n - q)) d)
                     \<and> matchedCount r = 1
                     \<and> modifiedCount r = (if round_double (n - q) = JNum n then 0 else 1)
                else coll r = ds \<and> matchedCount r = 0 \<and> modifiedCount r = 0)"
proof (cases "q \<le> n")
  case True
  let ?flt = "\<lambda>d. by_id t d \<and> field_gte ''quantity'' q d"
  let ?u = "Inc ''quantity'' (JNum (- q))"
  let ?d' = "AList.update ''quantity'' (round_double (n - q)) d"
  have fd: "?flt d" using find_holds[OF d] n True by (simp add: field_gte_def)
  have ap: "apply_update ?u d = Some ?d'" using n by simp
  obtain r where r: "update_first ?flt ?u ds = Some r" and m: "matchedCount r = 1"
    and mo: "modifiedCount r = (if ?d' = d then 0 else 1)"
    using update_first_hit[of "by_id t" ds d ?flt ?u ?d', OF d fd _ ap] by auto
  have idp: "\<And>d d'. apply_update ?u d = Some d' \<Longrightarrow> fld d' ''_id'' = fld d ''_id''"
    by (auto simp: fld_update split: option.splits jval.splits)
  have f: "find (by_id t) (coll r) = Some ?d'"
    using update_first_find[OF r _ idp, of t t] d fd ap by simp
  have neq: "(?d' = d) = (round_double (n - q) = JNum n)" by (rule update_same[OF n])
  show ?thesis using True r m mo f neq by (simp add: updateOne_def)
next
  case False
  have "\<forall>e\<in>set ds. \<not> (by_id t e \<and> field_gte ''quantity'' q e)"
  proof
    fix e assume e: "e \<in> set ds"
    show "\<not> (by_id t e \<and> field_gte ''quantity'' q e)"
    proof
      assume a: "by_id t e \<and> field_gte ''quantity'' q e"
      then have "e = d" using unique_ids_same[OF u find_mem[OF d] e find_holds[OF d]] by simp
      with a n False show False by (simp add: field_gte_def)
    qed
  qed
  from update_first_miss[OF this] False show ?thesis by (simp add: updateOne_def)
qed

text \<open>Unfolding the store operations on a concrete state.\<close>

lemmas store_defs = findOne_def countDocuments_def field_eq_def fld_def stored_def
  js_email_def by_id_def id_eq_def id_is_def updateOne_def insertOne_def insertedId_def
  Let_def field_gte_def

section \<open>The advertisement slots\<close>

lemma adv_db_admin: "verifyAdmin (Some ''root@tixgo'') (adv_db n)"
  by (simp add: verifyAdmin_def adv_db_def findOne_def field_eq_def fld_def stored_def
      js_email_def)

lemma adv_db_count_5: "countDocuments approved_advertised (tickets (adv_db 5)) = 5"
  by (simp add: adv_db_def countDocuments_def approved_advertised_def field_eq_def fld_def
      upt_rec)

lemma adv_db_count_6: "countDocuments approved_advertised (tickets (adv_db 6)) = 6"
  by (simp add: adv_db_def countDocuments_def approved_advertised_def field_eq_def fld_def
      upt_rec)

lemma adv_db_ticket_5: "findOne (by_id 5) (tickets (adv_db n)) \<noteq> None"
  by (simp add: adv_db_def findOne_def by_id_def id_eq_def fld_def upt_rec)

text \<open>
  Claim C8. For a request of an administrator to the advertise toggle: turning
  \<open>advertised\<close> on is refused with "Cannot advertise more than 6 tickets" when 6 or more
  tickets are approved and advertised, whatever the ticket; with fewer than 6 it succeeds
  on an existing ticket and marks it advertised (so the 6th is admitted and the 7th
  refused); turning it off succeeds on an existing ticket whatever the count is.
\<close>

theorem advertise_slot_limit:
  assumes adm: "verifyAdmin caller s"
  shows "(6 \<le> countDocuments approved_advertised (tickets s) \<longrightarrow>
           advertise caller idp (Some (JBool True)) s
             = (Fail 400 ''Cannot advertise more than 6 tickets'', s))
       \<and> (countDocuments approved_advertised (tickets s) < 6
            \<and> findOne (by_id t) (tickets s) \<noteq> None \<longrightarrow>
           (\<exists>m s'. advertise caller (Hex t) (Some (JBool True)) s
                    = (Send [(''success'', JBool True), (''modifiedCount'', JNum m)], s')
                 \<and> (\<exists>d'. findOne (by_id t) (tickets s') = Some d'
                          \<and> fld d' ''advertised'' = Some (JBool True))))
       \<and> (findOne (by_id t) (tickets s) \<noteq> None \<longrightarrow>
           (\<exists>m s'. advertise caller (Hex t) (Some (JBool False)) s
                    = (Send [(''success'', JBool True), (''modifiedCount'', JNum m)], s')
                 \<and> (\<exists>d'. findOne (by_id t) (tickets s') = Some d'
                          \<and> fld d' ''advertised'' = Some (JBool False))))"
proof -
  have on: "advertise caller idp (Some (JBool True)) s
             = (Fail 400 ''Cannot advertise more than 6 tickets'', s)"
    if "6 \<le> countDocuments approved_advertised (tickets s)"
    using adm that by (simp add: advertise_def)
  have go: "\<exists>m s'. advertise caller (Hex t) (Some (JBool adv)) s
                    = (Send [(''success'', JBool True), (''modifiedCount'', JNum m)], s')
                 \<and> (\<exists>d'. findOne (by_id t) (tickets s') = Some d'
                          \<and> fld d' ''advertised'' = Some (JBool adv))"
    if ex: "findOne (by_id t) (tickets s) \<noteq> None"
      and cnt: "adv \<longrightarrow> countDocuments approved_advertised (tickets s) < 6" for adv
  proof -
    obtain d where d: "find (by_id t) (tickets s) = Some d"
      using ex by (auto simp: findOne_def)
    let ?u = "Set [(''advertised'', JBool adv)]"
    have tot: "\<And>d. apply_update ?u d \<noteq> None" by (simp add: Let_def fld_update)
    obtain r where r: "update_first (by_id t) ?u (tickets s) = Some r"
      using update_first_total[OF tot] by blast
    have m: "matchedCount r = 1"
      using update_first_matched[OF r] find_by_id_ex[OF d] by simp
    have f: "find (by_id t) (coll r) = Some (AList.update ''advertised'' (JBool adv) d)"
      using update_first_find[OF r, of t t] d find_holds[OF d]
      by (simp add: Let_def fld_update)
    show ?thesis
      using adm cnt r m f
      by (auto simp: advertise_def updateOne_Set findOne_def fld_update not_le)
  qed
  from on go[of True] go[of False] show ?thesis by blast
qed

theorem advertise_slot_limit_witness:
  "verifyAdmin (Some ''root@tixgo'') (adv_db 5)
   \<and> countDocuments approved_advertised (tickets (adv_db 5)) < 6
   \<and> findOne (by_id 5) (tickets (adv_db 5)) \<noteq> None
   \<and> (\<exists>m s'. advertise (Some ''root@tixgo'') (Hex 5) (Some (JBool True)) (adv_db 5)
                = (Send [(''success'', JBool True), (''modifiedCount'', JNum m)], s')
            \<and> (\<exists>d'. findOne (by_id 5) (tickets s') = Some d'
                     \<and> fld d' ''advertised'' = Some (JBool True)))
   \<and> (\<exists>m s'. advertise (Some ''root@tixgo'') (Hex 5) (Some (JBool False)) (adv_db 5)
                = (Send [(''success'', JBool True), (''modifiedCount'', JNum m)], s')
            \<and> (\<exists>d'. findOne (by_id 5) (tickets s') = Some d'
                     \<and> fld d' ''advertised'' = Some (JBool False)))
   \<and> verifyAdmin (Some ''root@tixgo'') (adv_db 6)
   \<and> 6 \<le> countDocuments approved_advertised (tickets (adv_db 6))
   \<and> advertise (Some ''root@tixgo'') (Hex 6) (Some (JBool True)) (adv_db 6)
       = (Fail 400 ''Cannot advertise more than 6 tickets'', adv_db 6)"
  using advertise_slot_limit[OF adv_db_admin, of 5 "Hex 5" 5]
    advertise_slot_limit[OF adv_db_admin, of 6 "Hex 6" 6]
    adv_db_admin[of 5] adv_db_admin[of 6] adv_db_count_5 adv_db_count_6 adv_db_ticket_5[of 5]
  by simp


section \<open>Verifying a payment twice\<close>

lemma p2_verify_tickets: "tickets (snd (p2_payments_verify stripe now newId sid s)) = tickets s"
  by (simp add: p2_payments_verify_def Let_def split: option.splits)

text \<open>
  After a successful verification the same session verifies again without a write, the
  payments of its transaction are one more than before only if there was none, and a
  first payment leaves the booking paid and stamped.
\<close>

lemma p2_verify_twice:
  assumes x: "stripe sid = Some x"
    and first: "p2_payments_verify stripe now newId sid s = (Send [(''success'', JBool True)], s1)"
  shows "p2_payments_verify stripe now' newId' sid s1 = (Send [(''success'', JBool True)], s1)"
    and "countDocuments (txn x) (payments s1) = max 1 (countDocuments (txn x) (payments s))"
    and "countDocuments (txn x) (payments s) = 0 \<Longrightarrow>
         \<exists>i b. toObjectId (md_bookingId x) = Some i \<and> findOne (by_id i) (bookings s1) = Some b
              \<and> fld b ''status'' = Some (JStr ''paid'') \<and> fld b ''paidAt'' = Some (JDate now)"
proof -
  from first x have paid: "payment_status x = ''paid''"
    by (auto simp: p2_payments_verify_def split: if_splits)
  from first x paid obtain i where i: "toObjectId (md_bookingId x) = Some i"
    by (auto simp: p2_payments_verify_def split: option.splits)
  from first x paid i obtain b where b: "findOne (by_id i) (bookings s) = Some b"
    by (auto simp: p2_payments_verify_def split: option.splits)
  let ?doc = "[(''bookingId'', JId i),
               (''ticketId'', stored (fld b ''ticketId'')),
               (''customerEmail'', stored (fld b ''customerEmail'')),
               (''ticketTitle'', stored (fld b ''title'')),
               (''amount'', JNum (amount_total x / 100)),
               (''quantity'', stored (fld b ''quantity'')),
               (''currency'', JStr (currency x)),
               (''transactionId'', JStr (payment_intent x)),
               (''paidAt'', JDate now)]"
  let ?u = "Set [(''status'', JStr ''paid''), (''paidAt'', JDate now)]"
  consider (dup) "findOne (txn x) (payments s) \<noteq> None" "s1 = s"
    | (new) ps r where "findOne (txn x) (payments s) = None"
        "insertOne newId ?doc (payments s) = Some ps"
        "update_first (by_id i) ?u (bookings s) = Some r"
        "s1 = s\<lparr>payments := ps, bookings := coll r\<rparr>"
    using first x paid i b
    by (auto simp: p2_payments_verify_def Let_def updateOne_Set split: option.splits)
  then have main: "findOne (txn x) (payments s1) \<noteq> None
      \<and> findOne (by_id i) (bookings s1) \<noteq> None
      \<and> countDocuments (txn x) (payments s1) = max 1 (countDocuments (txn x) (payments s))
      \<and> (countDocuments (txn x) (payments s) = 0 \<longrightarrow>
         (\<exists>b. findOne (by_id i) (bookings s1) = Some b
              \<and> fld b ''status'' = Some (JStr ''paid'') \<and> fld b ''paidAt'' = Some (JDate now)))"
  proof cases
    case dup
    then show ?thesis using b by (auto simp: findOne_None_count)
  next
    case new
    have cnt: "countDocuments (txn x) ps = countDocuments (txn x) (payments s) + 1"
      using insertOne_count[OF new(2), of "''transactionId''" "JStr (payment_intent x)"]
      by (simp add: field_eq_def fld_def)
    have pres: "\<And>d d'. by_id i d \<Longrightarrow> apply_update ?u d = Some d' \<Longrightarrow> by_id i d'"
      by (auto simp: Let_def fld_update by_id_def id_eq_def split: if_splits)
    have fb: "findOne (by_id i) (coll r) =
         Some (AList.update ''paidAt'' (JDate now) (AList.update ''status'' (JStr ''paid'') b))"
      using update_first_find_same[OF new(3) pres] b
      by (simp add: findOne_def Let_def fld_update)
    have c0: "countDocuments (txn x) (payments s) = 0"
      using new(1) by (simp add: findOne_None_count)
    have c1: "countDocuments (txn x) ps = 1" using cnt c0 by simp
    then have "findOne (txn x) ps \<noteq> None" by (simp add: findOne_None_count)
    then show ?thesis using new(4) c0 c1 fb by (simp add: fld_update)
  qed
  show "p2_payments_verify stripe now' newId' sid s1 = (Send [(''success'', JBool True)], s1)"
    using main x paid i by (auto simp: p2_payments_verify_def split: option.splits)
  show "countDocuments (txn x) (payments s1) = max 1 (countDocuments (txn x) (payments s))"
    using main by simp
  show "\<exists>i b. toObjectId (md_bookingId x) = Some i \<and> findOne (by_id i) (bookings s1) = Some b
              \<and> fld b ''status'' = Some (JStr ''paid'') \<and> fld b ''paidAt'' = Some (JDate now)"
    if "countDocuments (txn x) (payments s) = 0"
    using main that i by simp
qed

lemma ix_success_twice:
  assumes x: "stripe sid = Some x"
    and first: "ix_payment_success stripe now newId sid s = (Redirect ''/payment-success'', s1)"
  shows "ix_payment_success stripe now' newId' sid s1 = (Redirect ''/payment-success'', s1)"
    and "countDocuments (txn x) (payments s1) = max 1 (countDocuments (txn x) (payments s))"
    and "countDocuments (txn x) (payments s) = 0 \<Longrightarrow>
         \<exists>b. findOne (id_is (toObjectId (md_bookingId x))) (bookings s1) = Some b
              \<and> fld b ''status'' = Some (JStr ''paid'') \<and> fld b ''paidAt'' = Some (JDate now)"
    and "countDocuments (txn x) (payments s) = 0 \<Longrightarrow>
         \<exists>r. updateOne (\<lambda>d. id_is (toObjectId (md_ticketId x)) d
                               \<and> field_gte ''quantity'' (of_int (md_quantity x)) d)
                (Inc ''quantity'' (JNum (- of_int (md_quantity x)))) (tickets s) = Some r
             \<and> tickets s1 = coll r"
proof -
  let ?i = "toObjectId (md_bookingId x)"
  let ?t = "toObjectId (md_ticketId x)"
  from first x have paid: "payment_status x = ''paid''"
    by (auto simp: ix_payment_success_def split: if_splits)
  from first x paid obtain b where b: "findOne (id_is ?i) (bookings s) = Some b"
    by (auto simp: ix_payment_success_def Let_def split: option.splits)
  let ?doc = "[(''bookingId'', stored (map_option JId ?i)),
               (''ticketId'', stored (map_option JId ?t)),
               (''customerEmail'', stored (fld b ''customerEmail'')),
               (''amount'', JNum (amount_total x / 100)),
               (''quantity'', stored (fld b ''quantity'')),
               (''currency'', JStr (currency x)),
               (''transactionId'', JStr (payment_intent x)),
               (''paidAt'', JDate now)]"
  let ?u = "Set [(''status'', JStr ''paid''), (''paidAt'', JDate now)]"
  consider (dup) "findOne (txn x) (payments s) \<noteq> None" "s1 = s"
    | (new) ps r red where "findOne (txn x) (payments s) = None"
        "insertOne newId ?doc (payments s) = Some ps"
        "update_first (id_is ?i) ?u (bookings s) = Some r"
        "s1 = s\<lparr>bookings := coll r, tickets := coll red, payments := ps\<rparr>"
        "updateOne (\<lambda>d. id_is ?t d \<and> field_gte ''quantity'' (of_int (md_quantity x)) d)
           (Inc ''quantity'' (JNum (- of_int (md_quantity x)))) (tickets s) = Some red"
    using first x paid b
    by (auto simp: ix_payment_success_def Let_def updateOne_Set split: option.splits if_splits)
  then have main: "findOne (txn x) (payments s1) \<noteq> None
      \<and> findOne (id_is ?i) (bookings s1) \<noteq> None
      \<and> countDocuments (txn x) (payments s1) = max 1 (countDocuments (txn x) (payments s))
      \<and> (countDocuments (txn x) (payments s) = 0 \<longrightarrow>
         (\<exists>b. findOne (id_is ?i) (bookings s1) = Some b
              \<and> fld b ''status'' = Some (JStr ''paid'') \<and> fld b ''paidAt'' = Some (JDate now))
         \<and> (\<exists>r. updateOne (\<lambda>d. id_is ?t d \<and> field_gte ''quantity'' (of_int (md_quantity x)) d)
                (Inc ''quantity'' (JNum (- of_int (md_quantity x)))) (tickets s) = Some r
             \<and> tickets s1 = coll r))"
  proof cases
    case dup
    then show ?thesis using b by (auto simp: findOne_None_count)
  next
    case new
    have cnt: "countDocuments (txn x) ps = countDocuments (txn x) (payments s) + 1"
      using insertOne_count[OF new(2), of "''transactionId''" "JStr (payment_intent x)"]
      by (simp add: field_eq_def fld_def)
    have pres: "\<And>d d'. id_is ?i d \<Longrightarrow> apply_update ?u d = Some d' \<Longrightarrow> id_is ?i d'"
      by (auto simp: Let_def fld_update id_is_def id_eq_def split: if_splits)
    have fb: "findOne (id_is ?i) (coll r) =
         Some (AList.update ''paidAt'' (JDate now) (AList.update ''status'' (JStr ''paid'') b))"
      using update_first_find_same[OF new(3) pres] b
      by (simp add: findOne_def Let_def fld_update)
    have c0: "countDocuments (txn x) (payments s) = 0"
      using new(1) by (simp add: findOne_None_count)
    have c1: "countDocuments (txn x) ps = 1" using cnt c0 by simp
    then have "findOne (txn x) ps \<noteq> None" by (simp add: findOne_None_count)
    then show ?thesis using new(4,5) c0 c1 fb by (simp add: fld_update)
  qed
  show "ix_payment_success stripe now' newId' sid s1 = (Redirect ''/payment-success'', s1)"
    using main x paid by (auto simp: ix_payment_success_def Let_def split: option.splits)
  show "countDocuments (txn x) (payments s1) = max 1 (countDocuments (txn x) (payments s))"
    using main by simp
  show "\<exists>b. findOne (id_is ?i) (bookings s1) = Some b
              \<and> fld b ''status'' = Some (JStr ''paid'') \<and> fld b ''paidAt'' = Some (JDate now)"
    if "countDocuments (txn x) (payments s) = 0"
    using main that by simp
  show "\<exists>r. updateOne (\<lambda>d. id_is ?t d \<and> field_gte ''quantity'' (of_int (md_quantity x)) d)
                (Inc ''quantity'' (JNum (- of_int (md_quantity x)))) (tickets s) = Some r
             \<and> tickets s1 = coll r"
    if "countDocuments (txn x) (payments s) = 0"
    using main that by simp
qed

lemma shop_p2_verify:
  "fst (p2_payments_verify stripe1 10 7 ''cs_1'' shop_db) = Send [(''success'', JBool True)]"
  by (simp add: p2_payments_verify_def stripe1_def sess1_def shop_db_def store_defs)

lemma shop_ix_success:
  "fst (ix_payment_success stripe1 10 7 ''cs_1'' shop_db) = Redirect ''/payment-success''"
  by (simp add: ix_payment_success_def stripe1_def sess1_def shop_db_def store_defs)

lemma shop_no_payment: "countDocuments (txn sess1) (payments shop_db) = 0"
  by (simp add: shop_db_def countDocuments_def)

text \<open>
  Deliveries handled one after the other. Two verifications of the same checkout
  session, hence with the same external transaction id, the second one started when the
  first one has answered success: the second answers success and writes nothing; if at most one payment carried the
  transaction id before, exactly one does afterwards; and if none did, the first
  verification is the one that leaves the booking \<open>paid\<close>, stamped with its own time.
  This holds for \<open>POST /payments/verify\<close> of src/unnamed/part\_002 and for
  \<open>GET /stripe/payment-success\<close> of src/index.js.
\<close>

theorem verify_same_transaction_once:
  assumes x: "stripe sid = Some x"
  shows "(p2_payments_verify stripe now newId sid s = (Send [(''success'', JBool True)], sa) \<longrightarrow>
            p2_payments_verify stripe now' newId' sid sa = (Send [(''success'', JBool True)], sa)
          \<and> (countDocuments (txn x) (payments s) \<le> 1 \<longrightarrow>
               countDocuments (txn x) (payments sa) = 1)
          \<and> (countDocuments (txn x) (payments s) = 0 \<longrightarrow>
               (\<exists>i b. toObjectId (md_bookingId x) = Some i
                    \<and> findOne (by_id i) (bookings sa) = Some b
                    \<and> fld b ''status'' = Some (JStr ''paid'')
                    \<and> fld b ''paidAt'' = Some (JDate now))))
       \<and> (ix_payment_success stripe now newId sid s = (Redirect ''/payment-success'', sb) \<longrightarrow>
            ix_payment_success stripe now' newId' sid sb = (Redirect ''/payment-success'', sb)
          \<and> (countDocuments (txn x) (payments s) \<le> 1 \<longrightarrow>
               countDocuments (txn x) (payments sb) = 1)
          \<and> (countDocuments (txn x) (payments s) = 0 \<longrightarrow>
               (\<exists>b. findOne (id_is (toObjectId (md_bookingId x))) (bookings sb) = Some b
                    \<and> fld b ''status'' = Some (JStr ''paid'')
                    \<and> fld b ''paidAt'' = Some (JDate now))))"
proof (intro conjI impI)
  assume f: "p2_payments_verify stripe now newId sid s = (Send [(''success'', JBool True)], sa)"
  show "p2_payments_verify stripe now' newId' sid sa = (Send [(''success'', JBool True)], sa)"
    using p2_verify_twice(1)[OF x f] .
  show "countDocuments (txn x) (payments sa) = 1"
    if "countDocuments (txn x) (payments s) \<le> 1"
    using p2_verify_twice(2)[OF x f] that by simp
  show "\<exists>i b. toObjectId (md_bookingId x) = Some i \<and> findOne (by_id i) (bookings sa) = Some b
          \<and> fld b ''status'' = Some (JStr ''paid'') \<and> fld b ''paidAt'' = Some (JDate now)"
    if "countDocuments (txn x) (payments s) = 0"
    using p2_verify_twice(3)[OF x f that] .
next
  assume f: "ix_payment_success stripe now newId sid s = (Redirect ''/payment-success'', sb)"
  show "ix_payment_success stripe now' newId' sid sb = (Redirect ''/payment-success'', sb)"
    using ix_success_twice(1)[OF x f] .
  show "countDocuments (txn x) (payments sb) = 1"
    if "countDocuments (txn x) (payments s) \<le> 1"
    using ix_success_twice(2)[OF x f] that by simp
  show "\<exists>b. findOne (id_is (toObjectId (md_bookingId x))) (bookings sb) = Some b
          \<and> fld b ''status'' = Some (JStr ''paid'') \<and> fld b ''paidAt'' = Some (JDate now)"
    if "countDocuments (txn x) (payments s) = 0"
    using ix_success_twice(3)[OF x f that] .
qed

theorem verify_same_transaction_once_witness:
  "stripe1 ''cs_1'' = Some sess1
   \<and> countDocuments (txn sess1) (payments shop_db) = 0
   \<and> fst (p2_payments_verify stripe1 10 7 ''cs_1'' shop_db) = Send [(''success'', JBool True)]
   \<and> p2_payments_verify stripe1 11 8 ''cs_1'' (snd (p2_payments_verify stripe1 10 7 ''cs_1'' shop_db))
       = (Send [(''success'', JBool True)], snd (p2_payments_verify stripe1 10 7 ''cs_1'' shop_db))
   \<and> countDocuments (txn sess1)
        (payments (snd (p2_payments_verify stripe1 10 7 ''cs_1'' shop_db))) = 1
   \<and> fst (ix_payment_success stripe1 10 7 ''cs_1'' shop_db) = Redirect ''/payment-success''
   \<and> ix_payment_success stripe1 11 8 ''cs_1'' (snd (ix_payment_success stripe1 10 7 ''cs_1'' shop_db))
       = (Redirect ''/payment-success'', snd (ix_payment_success stripe1 10 7 ''cs_1'' shop_db))
   \<and> countDocuments (txn sess1)
        (payments (snd (ix_payment_success stripe1 10 7 ''cs_1'' shop_db))) = 1"
proof -
  have x: "stripe1 ''cs_1'' = Some sess1" by (simp add: stripe1_def)
  have p: "p2_payments_verify stripe1 10 7 ''cs_1'' shop_db
           = (Send [(''success'', JBool True)], snd (p2_payments_verify stripe1 10 7 ''cs_1'' shop_db))"
    using shop_p2_verify by (simp add: prod_eq_iff)
  have i: "ix_payment_success stripe1 10 7 ''cs_1'' shop_db
           = (Redirect ''/payment-success'', snd (ix_payment_success stripe1 10 7 ''cs_1'' shop_db))"
    using shop_ix_success by (simp add: prod_eq_iff)
  show ?thesis
    using verify_same_transaction_once[where stripe = stripe1 and sid = "''cs_1''"
        and x = sess1 and now = 10 and newId = 7 and s = shop_db and now' = 11 and newId' = 8
        and sa = "snd (p2_payments_verify stripe1 10 7 ''cs_1'' shop_db)"
        and sb = "snd (ix_payment_success stripe1 10 7 ''cs_1'' shop_db)"]
      x p i shop_no_payment shop_p2_verify shop_ix_success
    by simp
qed


section \<open>Deliveries that overlap\<close>

text \<open>
  The guard of both handlers is a read. Run right after its reads, a delivery is its
  write part on what it has read.
\<close>

lemma p2_verify_split:
  assumes "stripe sid = Some x" "payment_status x = ''paid''"
    "toObjectId (md_bookingId x) = Some i" "findOne (by_id i) (bookings s) = Some b"
    "findOne (txn x) (payments s) = None"
  shows "p2_payments_verify stripe now newId sid s = p2_verify_write now newId x i b s"
  using assms by (simp add: p2_payments_verify_def p2_verify_write_def)

lemma ix_success_split:
  assumes "stripe sid = Some x" "payment_status x = ''paid''"
    "findOne (id_is (toObjectId (md_bookingId x))) (bookings s) = Some b"
    "findOne (txn x) (payments s) = None"
  shows "ix_payment_success stripe now newId sid s = ix_success_write now newId x b s"
  using assms by (simp add: ix_payment_success_def ix_success_write_def Let_def)

text \<open>
  Claim C1 fails for two deliveries of one session that overlap. On \<open>shop_db\<close> both
  read the booking and find no payment of the transaction \<open>pi_1\<close> before either has
  written; then each runs its write part, the second one on the state that the first one
  left. Both answer success and two payments carry the transaction id; in
  src/unnamed/part\_002 the booking is stamped \<open>paidAt\<close> a second time, and in
  src/index.js the ticket is decremented twice, from 5 to 1. The second copy of the
  handler in src/unnamed/part\_002 has the guard under the comment "Prevent duplicate
  payment" and the decrement under "Reduce ticket quantity ONCE (HERE ONLY)"; the
  unique index on \<open>transactionId\<close> that would make the second insert fail is commented
  out in src/unnamed/part\_002 and absent from src/index.js.
\<close>

theorem overlapping_verifications_pay_twice:
  "stripe1 ''cs_1'' = Some sess1 \<and> payment_status sess1 = ''paid''
   \<and> toObjectId (md_bookingId sess1) = Some 2
   \<and> findOne (by_id 2) (bookings shop_db) = Some shop_b
   \<and> findOne (txn sess1) (payments shop_db) = None
   \<and> p2_payments_verify stripe1 10 7 ''cs_1'' shop_db = p2_verify_write 10 7 sess1 2 shop_b shop_db
   \<and> fst (p2_verify_write 10 7 sess1 2 shop_b shop_db) = Send [(''success'', JBool True)]
   \<and> fst (p2_verify_write 11 8 sess1 2 shop_b (snd (p2_verify_write 10 7 sess1 2 shop_b shop_db)))
       = Send [(''success'', JBool True)]
   \<and> countDocuments (txn sess1)
        (payments (snd (p2_verify_write 11 8 sess1 2 shop_b
                          (snd (p2_verify_write 10 7 sess1 2 shop_b shop_db))))) = 2
   \<and> map (\<lambda>d. fld d ''paidAt'')
        (bookings (snd (p2_verify_write 10 7 sess1 2 shop_b shop_db))) = [Some (JDate 10)]
   \<and> map (\<lambda>d. fld d ''paidAt'')
        (bookings (snd (p2_verify_write 11 8 sess1 2 shop_b
                          (snd (p2_verify_write 10 7 sess1 2 shop_b shop_db))))) = [Some (JDate 11)]
   \<and> ix_payment_success stripe1 10 7 ''cs_1'' shop_db = ix_success_write 10 7 sess1 shop_b shop_db
   \<and> fst (ix_success_write 10 7 sess1 shop_b shop_db) = Redirect ''/payment-success''
   \<and> fst (ix_success_write 11 8 sess1 shop_b (snd (ix_success_write 10 7 sess1 shop_b shop_db)))
       = Redirect ''/payment-success''
   \<and> countDocuments (txn sess1)
        (payments (snd (ix_success_write 11 8 sess1 shop_b
                          (snd (ix_success_write 10 7 sess1 shop_b shop_db))))) = 2
   \<and> map (\<lambda>d. fld d ''quantity'')
        (tickets (snd (ix_success_write 11 8 sess1 shop_b
                         (snd (ix_success_write 10 7 sess1 shop_b shop_db))))) = [Some (JNum 1)]"
  by (simp add: p2_payments_verify_def p2_verify_write_def ix_payment_success_def
      ix_success_write_def stripe1_def sess1_def shop_db_def shop_b_def store_defs)


section \<open>Finalization and the stock\<close>

lemma ix_success_quantity:
  assumes x: "stripe sid = Some x"
    and first: "ix_payment_success stripe now newId sid s = (Redirect ''/payment-success'', sb)"
    and fresh: "countDocuments (txn x) (payments s) = 0"
    and t: "md_ticketId x = Hex t"
    and u: "unique_ids (tickets s)"
    and d: "findOne (by_id t) (tickets s) = Some d"
    and n: "fld d ''quantity'' = Some (JNum n)"
  shows "\<exists>d'. findOne (by_id t) (tickets sb) = Some d'
           \<and> fld d' ''quantity''
               = Some (if of_int (md_quantity x) \<le> n
                       then round_double (n - of_int (md_quantity x)) else JNum n)"
proof -
  let ?q = "of_int (md_quantity x) :: rat"
  let ?flt = "\<lambda>d. by_id t d \<and> field_gte ''quantity'' ?q d"
  let ?u = "Inc ''quantity'' (JNum (- ?q))"
  from ix_success_twice(4)[OF x first fresh] t
  obtain r where r: "updateOne ?flt ?u (tickets s) = Some r" and sb: "tickets sb = coll r"
    by (auto simp: id_is_Some)
  from d have d': "find (by_id t) (tickets s) = Some d" by (simp add: findOne_def)
  from conditional_decrement[OF d' n u, of ?q] r
  have "if ?q \<le> n
        then find (by_id t) (coll r) = Some (AList.update ''quantity'' (round_double (n - ?q)) d)
        else coll r = tickets s"
    by (auto split: if_splits)
  then show ?thesis using sb d' n by (auto simp: findOne_def fld_update split: if_splits)
qed

text \<open>
  Claim C7 as stated fails on src/index.js: there the payment that finalizes the booking
  of \<open>shop_db\<close> takes the ticket's quantity from 5 to 3.
\<close>

theorem finalize_keeps_stock_counterexample:
  "fst (ix_payment_success stripe1 10 7 ''cs_1'' shop_db) = Redirect ''/payment-success''
   \<and> findOne (by_id 1) (tickets shop_db)
       = Some [(''_id'', JId 1), (''vendorEmail'', JStr ''v@tixgo''),
               (''title'', JStr ''Dhaka-Sylhet''), (''price'', JNum 20), (''quantity'', JNum 5),
               (''verificationStatus'', JStr ''approved''), (''advertised'', JBool False)]
   \<and> findOne (by_id 1) (tickets (snd (ix_payment_success stripe1 10 7 ''cs_1'' shop_db)))
       = Some [(''_id'', JId 1), (''vendorEmail'', JStr ''v@tixgo''),
               (''title'', JStr ''Dhaka-Sylhet''), (''price'', JNum 20), (''quantity'', JNum 3),
               (''verificationStatus'', JStr ''approved''), (''advertised'', JBool False)]"
  by (simp add: ix_payment_success_def stripe1_def sess1_def shop_db_def store_defs)

text \<open>
  Claim C7, amended. A verification that finalizes a booking (the first one of its
  transaction, answering success) sets the booking's status to \<open>paid\<close> and stamps
  \<open>paidAt\<close>. \<open>POST /payments/verify\<close> of src/unnamed/part\_002, where the stock was
  reserved when the booking was created, never changes the tickets. \<open>GET
  /stripe/payment-success\<close> of src/index.js, where creating a booking reserves nothing,
  also applies the conditional decrement to the session's ticket: a quantity \<open>n\<close> that
  is at least the session's quantity \<open>q\<close> becomes the double nearest to \<open>n - q\<close>
  (which is \<open>n - q\<close> itself whenever that is a double, as it is for whole numbers up to
  \<open>2\<^sup>5\<^sup>3\<close>, \<open>round_double_whole\<close>), and a smaller quantity stays as it is.
\<close>

theorem finalize_paid_stock:
  "tickets (snd (p2_payments_verify stripe now newId sid s)) = tickets s
   \<and> (stripe sid = Some x \<and> countDocuments (txn x) (payments s) = 0 \<longrightarrow>
        (p2_payments_verify stripe now newId sid s = (Send [(''success'', JBool True)], sa) \<longrightarrow>
           (\<exists>i b. toObjectId (md_bookingId x) = Some i
                \<and> findOne (by_id i) (bookings sa) = Some b
                \<and> fld b ''status'' = Some (JStr ''paid'')
                \<and> fld b ''paidAt'' = Some (JDate now)))
      \<and> (ix_payment_success stripe now newId sid s = (Redirect ''/payment-success'', sb) \<longrightarrow>
           (\<exists>b. findOne (id_is (toObjectId (md_bookingId x))) (bookings sb) = Some b
                \<and> fld b ''status'' = Some (JStr ''paid'')
                \<and> fld b ''paidAt'' = Some (JDate now))
         \<and> (md_ticketId x = Hex t \<and> unique_ids (tickets s)
              \<and> findOne (by_id t) (tickets s) = Some d \<and> fld d ''quantity'' = Some (JNum n) \<longrightarrow>
             (\<exists>d'. findOne (by_id t) (tickets sb) = Some d'
                  \<and> fld d' ''quantity''
                      = Some (if of_int (md_quantity x) \<le> n
                              then round_double (n - of_int (md_quantity x)) else JNum n)))))"
proof (intro conjI impI)
  show "tickets (snd (p2_payments_verify stripe now newId sid s)) = tickets s"
    by (rule p2_verify_tickets)
next
  assume h: "stripe sid = Some x \<and> countDocuments (txn x) (payments s) = 0"
    and f: "p2_payments_verify stripe now newId sid s = (Send [(''success'', JBool True)], sa)"
  from h have x: "stripe sid = Some x" and c: "countDocuments (txn x) (payments s) = 0"
    by simp_all
  show "\<exists>i b. toObjectId (md_bookingId x) = Some i \<and> findOne (by_id i) (bookings sa) = Some b
          \<and> fld b ''status'' = Some (JStr ''paid'') \<and> fld b ''paidAt'' = Some (JDate now)"
    using p2_verify_twice(3)[OF x f c] .
next
  assume h: "stripe sid = Some x \<and> countDocuments (txn x) (payments s) = 0"
    and f: "ix_payment_success stripe now newId sid s = (Redirect ''/payment-success'', sb)"
  from h have x: "stripe sid = Some x" and c: "countDocuments (txn x) (payments s) = 0"
    by simp_all
  show "\<exists>b. findOne (id_is (toObjectId (md_bookingId x))) (bookings sb) = Some b
          \<and> fld b ''status'' = Some (JStr ''paid'') \<and> fld b ''paidAt'' = Some (JDate now)"
    using ix_success_twice(3)[OF x f c] .
  show "\<exists>d'. findOne (by_id t) (tickets sb) = Some d'
          \<and> fld d' ''quantity''
              = Some (if of_int (md_quantity x) \<le> n
                      then round_double (n - of_int (md_quantity x)) else JNum n)"
    if "md_ticketId x = Hex t \<and> unique_ids (tickets s)
        \<and> findOne (by_id t) (tickets s) = Some d \<and> fld d ''quantity'' = Some (JNum n)"
    using ix_success_quantity[OF x f c, of t d n] that by simp
qed

lemma shop_ticket:
  "findOne (by_id 1) (tickets shop_db)
     = Some [(''_id'', JId 1), (''vendorEmail'', JStr ''v@tixgo''),
             (''title'', JStr ''Dhaka-Sylhet''), (''price'', JNum 20), (''quantity'', JNum 5),
             (''verificationStatus'', JStr ''approved''), (''advertised'', JBool False)]"
  by (simp add: shop_db_def store_defs)

lemma shop_unique: "unique_ids (tickets shop_db)"
  by (simp add: shop_db_def unique_ids_def)

theorem finalize_paid_stock_witness:
  "stripe1 ''cs_1'' = Some sess1 \<and> countDocuments (txn sess1) (payments shop_db) = 0
   \<and> fst (p2_payments_verify stripe1 10 7 ''cs_1'' shop_db) = Send [(''success'', JBool True)]
   \<and> tickets (snd (p2_payments_verify stripe1 10 7 ''cs_1'' shop_db)) = tickets shop_db
   \<and> (\<exists>b. findOne (by_id 2) (bookings (snd (p2_payments_verify stripe1 10 7 ''cs_1'' shop_db)))
              = Some b
          \<and> fld b ''status'' = Some (JStr ''paid'') \<and> fld b ''paidAt'' = Some (JDate 10))
   \<and> fst (ix_payment_success stripe1 10 7 ''cs_1'' shop_db) = Redirect ''/payment-success''
   \<and> md_ticketId sess1 = Hex 1 \<and> unique_ids (tickets shop_db)
   \<and> (\<exists>d'. findOne (by_id 1) (tickets (snd (ix_payment_success stripe1 10 7 ''cs_1'' shop_db)))
              = Some d'
           \<and> fld d' ''quantity'' = Some (JNum 3))"
proof -
  have x: "stripe1 ''cs_1'' = Some sess1" by (simp add: stripe1_def)
  have p: "p2_payments_verify stripe1 10 7 ''cs_1'' shop_db
           = (Send [(''success'', JBool True)], snd (p2_payments_verify stripe1 10 7 ''cs_1'' shop_db))"
    using shop_p2_verify by (simp add: prod_eq_iff)
  have i: "ix_payment_success stripe1 10 7 ''cs_1'' shop_db
           = (Redirect ''/payment-success'', snd (ix_payment_success stripe1 10 7 ''cs_1'' shop_db))"
    using shop_ix_success by (simp add: prod_eq_iff)
  have m: "md_ticketId sess1 = Hex 1" "md_bookingId sess1 = Hex 2" "md_quantity sess1 = 2"
    by (simp_all add: sess1_def)
  have q: "fld [(''_id'', JId 1), (''vendorEmail'', JStr ''v@tixgo''),
             (''title'', JStr ''Dhaka-Sylhet''), (''price'', JNum 20), (''quantity'', JNum 5),
             (''verificationStatus'', JStr ''approved''), (''advertised'', JBool False)]
             ''quantity'' = Some (JNum 5)"
    by (simp add: fld_def)
  show ?thesis
    using finalize_paid_stock[where stripe = stripe1 and sid = "''cs_1''"
        and x = sess1 and now = 10 and newId = 7 and s = shop_db and t = 1 and n = 5
        and d = "[(''_id'', JId 1), (''vendorEmail'', JStr ''v@tixgo''),
             (''title'', JStr ''Dhaka-Sylhet''), (''price'', JNum 20), (''quantity'', JNum 5),
             (''verificationStatus'', JStr ''approved''), (''advertised'', JBool False)]"
        and sa = "snd (p2_payments_verify stripe1 10 7 ''cs_1'' shop_db)"
        and sb = "snd (ix_payment_success stripe1 10 7 ''cs_1'' shop_db)"]
      x p i m q shop_no_payment shop_p2_verify shop_ix_success shop_ticket shop_unique
    by simp
qed


section \<open>Reserving stock\<close>

lemma ix_post_bookings_tickets:
  "tickets (snd (ix_post_bookings tonum caller now newId req s)) = tickets s"
  by (simp add: ix_post_bookings_def Let_def split: option.splits prod.splits)

lemma update_first_modified:
  "update_first flt u ds = Some r \<Longrightarrow> modifiedCount r \<noteq> 0 \<Longrightarrow> \<exists>d\<in>set ds. flt d"
  by (induction ds arbitrary: r) (auto split: option.splits if_splits)

text \<open>
  The write part of \<open>POST /bookings\<close> on a state in which ticket \<open>t\<close> has the quantity
  \<open>n\<close>, whatever ticket document \<open>snap\<close> the handler had read before.
\<close>

lemma p2_write_effect:
  assumes u: "unique_ids (tickets s)" and d: "findOne (by_id t) (tickets s) = Some d"
    and n: "fld d ''quantity'' = Some (JNum n)" and q: "0 < q"
  shows "q \<le> n \<Longrightarrow> round_double (n - q) \<noteq> JNum n \<Longrightarrow>
           (\<exists>d'. findOne (by_id t) (tickets (snd (p2_bookings_write now newId t q ce snap s)))
                   = Some d'
                \<and> fld d' ''quantity'' = Some (round_double (n - q)))
           \<and> fst (p2_bookings_write now newId t q ce snap s)
               = (if list_ex (id_eq (JId newId)) (bookings s) then Fail 500 ''Server error''
                  else Send [(''success'', JBool True), (''bookingId'', JId newId)])"
    and "n < q \<or> round_double (n - q) = JNum n \<Longrightarrow>
           p2_bookings_write now newId t q ce snap s
             = (Fail 400 ''Not enough tickets available'', s)"
proof -
  from d have d': "find (by_id t) (tickets s) = Some d" by (simp add: findOne_def)
  from conditional_decrement[OF d' n u, of q]
  obtain r where r: "p2_reserve t q (tickets s) = Some r"
    and e: "if q \<le> n
            then find (by_id t) (coll r)
                   = Some (AList.update ''quantity'' (round_double (n - q)) d)
                 \<and> matchedCount r = 1
                 \<and> modifiedCount r = (if round_double (n - q) = JNum n then 0 else 1)
            else coll r = tickets s \<and> matchedCount r = 0 \<and> modifiedCount r = 0"
    by (auto simp: p2_reserve_def)
  show "(\<exists>d'. findOne (by_id t) (tickets (snd (p2_bookings_write now newId t q ce snap s)))
                = Some d'
             \<and> fld d' ''quantity'' = Some (round_double (n - q)))
        \<and> fst (p2_bookings_write now newId t q ce snap s)
            = (if list_ex (id_eq (JId newId)) (bookings s) then Fail 500 ''Server error''
               else Send [(''success'', JBool True), (''bookingId'', JId newId)])"
    if "q \<le> n" "round_double (n - q) \<noteq> JNum n"
    using that r e q
    by (simp add: p2_bookings_write_def Let_def findOne_def fld_update insertOne_def
        insertedId_def fld_def update_conv')
  show "p2_bookings_write now newId t q ce snap s
          = (Fail 400 ''Not enough tickets available'', s)"
    if a: "n < q \<or> round_double (n - q) = JNum n"
  proof -
    from a e have m: "modifiedCount r = 0" by (auto split: if_splits)
    from r have "update_first (\<lambda>d. by_id t d \<and> field_gte ''quantity'' q d)
                   (Inc ''quantity'' (JNum (- q))) (tickets s) = Some r"
      by (simp add: p2_reserve_def updateOne_def)
    from update_first_unmodified[OF this m] have "coll r = tickets s" .
    with r m show ?thesis by (simp add: p2_bookings_write_def Let_def)
  qed
qed

lemma stock_ticket:
  "findOne (by_id 1) (tickets (stock_db n))
     = Some [(''_id'', JId 1), (''vendorEmail'', JStr ''v@tixgo''),
             (''title'', JStr ''Dhaka-Sylhet''), (''price'', JNum 20), (''quantity'', JNum n),
             (''verificationStatus'', JStr ''approved''), (''advertised'', JBool False)]"
  by (simp add: stock_db_def store_defs)

text \<open>
  Claim C3 as stated fails. On src/index.js \<open>POST /bookings\<close> accepts the request for
  2 of the 5 places of \<open>shop_db\<close> and leaves the ticket's quantity at 5. On
  src/unnamed/part\_002 a ticket with \<open>10\<^sup>1\<^sup>6\<close> places has enough for the request of
  one place, but the double nearest to \<open>10\<^sup>1\<^sup>6 - 1\<close> is \<open>10\<^sup>1\<^sup>6\<close>: the write modifies
  nothing and the request is answered "Not enough tickets available".
\<close>

theorem reserve_decrements_counterexample:
  "fst (ix_post_bookings no_tonum (Some ''c@tixgo'') 10 9 book2 shop_db)
     = Send [(''success'', JBool True), (''bookingId'', JId 9)]
   \<and> findOne (by_id 1)
        (tickets (snd (ix_post_bookings no_tonum (Some ''c@tixgo'') 10 9 book2 shop_db)))
     = Some [(''_id'', JId 1), (''vendorEmail'', JStr ''v@tixgo''),
             (''title'', JStr ''Dhaka-Sylhet''), (''price'', JNum 20), (''quantity'', JNum 5),
             (''verificationStatus'', JStr ''approved''), (''advertised'', JBool False)]
   \<and> findOne (by_id 1) (tickets (stock_db 10000000000000000))
     = Some [(''_id'', JId 1), (''vendorEmail'', JStr ''v@tixgo''),
             (''title'', JStr ''Dhaka-Sylhet''), (''price'', JNum 20),
             (''quantity'', JNum 10000000000000000),
             (''verificationStatus'', JStr ''approved''), (''advertised'', JBool False)]
   \<and> p2_post_bookings (Some ''c@tixgo'') 10 9 req1 (stock_db 10000000000000000)
     = (Fail 400 ''Not enough tickets available'', stock_db 10000000000000000)"
  by (simp add: ix_post_bookings_def book2_def shop_db_def store_defs js_lt_def list_ex_iff
      p2_post_bookings_def p2_bookings_write_def p2_reserve_def req1_def stock_db_def
      round_double_1e16)

text \<open>
  Claim C3, amended. In \<open>POST /bookings\<close> of src/unnamed/part\_002 the reserve of \<open>q\<close>
  units is the one conditional write \<open>p2_reserve\<close>: run on a state in which the ticket's
  quantity is \<open>n\<close>, whatever the handler read of the ticket before (\<open>snap\<close>), it sets the
  quantity to the double nearest to \<open>n - q\<close> when \<open>q \<le> n\<close>; the request is answered
  "Not enough tickets available" and changes nothing when \<open>n < q\<close>, and also when the
  double nearest to \<open>n - q\<close> is \<open>n\<close> itself. (The double nearest to \<open>n - q\<close> is \<open>n - q\<close>
  whenever that is a double, as it is for whole numbers up to \<open>2\<^sup>5\<^sup>3\<close>,
  \<open>round_double_whole\<close>.) \<open>POST /bookings\<close> of src/index.js compares the requested
  quantity with the ticket it has read and never changes a ticket.
\<close>

theorem reserve_conditional_write:
  "(unique_ids (tickets s) \<and> findOne (by_id t) (tickets s) = Some d
      \<and> fld d ''quantity'' = Some (JNum n) \<and> 0 < q \<longrightarrow>
       (q \<le> n \<and> round_double (n - q) \<noteq> JNum n \<longrightarrow>
          (\<exists>d'. findOne (by_id t) (tickets (snd (p2_bookings_write now newId t q ce snap s)))
                  = Some d'
               \<and> fld d' ''quantity'' = Some (round_double (n - q)))
          \<and> fst (p2_bookings_write now newId t q ce snap s)
               \<noteq> Fail 400 ''Not enough tickets available'')
     \<and> (n < q \<or> round_double (n - q) = JNum n \<longrightarrow>
          p2_bookings_write now newId t q ce snap s
            = (Fail 400 ''Not enough tickets available'', s)))
   \<and> tickets (snd (ix_post_bookings tonum caller now newId breq s)) = tickets s"
proof (intro conjI impI)
  assume h: "unique_ids (tickets s) \<and> findOne (by_id t) (tickets s) = Some d
      \<and> fld d ''quantity'' = Some (JNum n) \<and> 0 < q"
  then have u: "unique_ids (tickets s)" and d: "findOne (by_id t) (tickets s) = Some d"
    and n: "fld d ''quantity'' = Some (JNum n)" and q: "0 < q"
    by simp_all
  show "\<exists>d'. findOne (by_id t) (tickets (snd (p2_bookings_write now newId t q ce snap s)))
                = Some d'
             \<and> fld d' ''quantity'' = Some (round_double (n - q))"
    if "q \<le> n \<and> round_double (n - q) \<noteq> JNum n"
    using p2_write_effect(1)[OF u d n q] that by simp
  show "fst (p2_bookings_write now newId t q ce snap s)
          \<noteq> Fail 400 ''Not enough tickets available''"
    if "q \<le> n \<and> round_double (n - q) \<noteq> JNum n"
    using p2_write_effect(1)[OF u d n q, of now newId ce snap] that by (simp split: if_splits)
  show "p2_bookings_write now newId t q ce snap s
          = (Fail 400 ''Not enough tickets available'', s)"
    if "n < q \<or> round_double (n - q) = JNum n"
    using p2_write_effect(2)[OF u d n q that] .
next
  show "tickets (snd (ix_post_bookings tonum caller now newId breq s)) = tickets s"
    by (rule ix_post_bookings_tickets)
qed

theorem reserve_conditional_write_witness:
  "unique_ids (tickets shop_db)
   \<and> (\<exists>d'. findOne (by_id 1)
               (tickets (snd (p2_bookings_write 10 9 1 2 (Some ''c@tixgo'') [] shop_db)))
             = Some d'
          \<and> fld d' ''quantity'' = Some (JNum 3))
   \<and> p2_bookings_write 10 9 1 6 (Some ''c@tixgo'') [] shop_db
       = (Fail 400 ''Not enough tickets available'', shop_db)"
proof -
  have q: "fld [(''_id'', JId 1), (''vendorEmail'', JStr ''v@tixgo''),
             (''title'', JStr ''Dhaka-Sylhet''), (''price'', JNum 20), (''quantity'', JNum 5),
             (''verificationStatus'', JStr ''approved''), (''advertised'', JBool False)]
             ''quantity'' = Some (JNum 5)"
    by (simp add: fld_def)
  show ?thesis
    using reserve_conditional_write[where s = shop_db and t = 1 and n = 5 and q = 2
        and now = 10 and newId = 9 and ce = "Some ''c@tixgo''" and snap = "[]"
        and d = "[(''_id'', JId 1), (''vendorEmail'', JStr ''v@tixgo''),
             (''title'', JStr ''Dhaka-Sylhet''), (''price'', JNum 20), (''quantity'', JNum 5),
             (''verificationStatus'', JStr ''approved''), (''advertised'', JBool False)]"]
      reserve_conditional_write[where s = shop_db and t = 1 and n = 5 and q = 6
        and now = 10 and newId = 9 and ce = "Some ''c@tixgo''" and snap = "[]"
        and d = "[(''_id'', JId 1), (''vendorEmail'', JStr ''v@tixgo''),
             (''title'', JStr ''Dhaka-Sylhet''), (''price'', JNum 20), (''quantity'', JNum 5),
             (''verificationStatus'', JStr ''approved''), (''advertised'', JBool False)]"]
      q shop_ticket shop_unique
    by simp
qed


section \<open>Creating a booking\<close>

lemma update_first_applied:
  "update_first flt u ds = Some r \<Longrightarrow> modifiedCount r \<noteq> 0 \<Longrightarrow>
   \<exists>d\<in>set ds. flt d \<and> apply_update u d \<noteq> None"
  by (induction ds arbitrary: r) (auto split: option.splits if_splits)

text \<open>
  A conditional decrement that went through was made on a quantity that is a number
  and at least \<open>q\<close>: the filter also matches an array with such an element, but
  \<open>$inc\<close> on an array is a write error.
\<close>

lemma decrement_applied:
  assumes "field_gte ''quantity'' q d" "apply_update (Inc ''quantity'' a) d \<noteq> None"
  shows "\<exists>v. fld d ''quantity'' = Some v \<and> num_gte q v"
  using assms by (auto simp: field_gte_def split: option.splits jval.splits)

lemma p2_write_send:
  assumes "fst (p2_bookings_write now newId t q ce snap s) = Send x"
  shows "\<exists>d\<in>set (tickets s). by_id t d \<and> (\<exists>v. fld d ''quantity'' = Some v \<and> num_gte q v)"
proof -
  from assms obtain r where r: "p2_reserve t q (tickets s) = Some r"
    and m: "modifiedCount r \<noteq> 0"
    by (auto simp: p2_bookings_write_def Let_def split: option.splits if_splits)
  from r have "update_first (\<lambda>d. by_id t d \<and> field_gte ''quantity'' q d)
                 (Inc ''quantity'' (JNum (- q))) (tickets s) = Some r"
    by (simp add: p2_reserve_def updateOne_def)
  from update_first_applied[OF this m] obtain d where d: "d \<in> set (tickets s)" "by_id t d"
    "field_gte ''quantity'' q d" "apply_update (Inc ''quantity'' (JNum (- q))) d \<noteq> None"
    by blast
  from decrement_applied[OF d(3,4)] d(1,2) show ?thesis by blast
qed

lemma p2_post_bookings_send:
  assumes "fst (p2_post_bookings caller now newId req s) = Send x"
  shows "rq_customerEmail req = caller
       \<and> (\<exists>t q ticket. rq_ticketId req = Some (Hex t) \<and> rq_quantity req = Some q \<and> 0 < q
             \<and> findOne (by_id t) (tickets s) = Some ticket
             \<and> fld ticket ''verificationStatus'' = Some (JStr ''approved'')
             \<and> (unique_ids (tickets s) \<longrightarrow>
                  (\<exists>v. fld ticket ''quantity'' = Some v \<and> num_gte q v)))"
proof -
  from assms have c: "rq_customerEmail req = caller"
    by (auto simp: p2_post_bookings_def split: if_splits)
  from assms c obtain tid q where tq: "rq_ticketId req = Some tid" "rq_quantity req = Some q"
    by (auto simp: p2_post_bookings_def split: option.splits)
  from assms c tq have q: "0 < q"
    by (auto simp: p2_post_bookings_def split: if_splits)
  from assms c tq q obtain t where t: "tid = Hex t"
    by (cases tid) (auto simp: p2_post_bookings_def)
  from assms c tq q t obtain ticket where k: "findOne (by_id t) (tickets s) = Some ticket"
    by (auto simp: p2_post_bookings_def split: option.splits)
  from assms c tq q t k have a: "fld ticket ''verificationStatus'' = Some (JStr ''approved'')"
    and w: "fst (p2_bookings_write now newId t q (rq_customerEmail req) ticket s) = Send x"
    by (auto simp: p2_post_bookings_def split: if_splits)
  from p2_write_send[OF w] obtain d where d: "d \<in> set (tickets s)" "by_id t d"
    "\<exists>v. fld d ''quantity'' = Some v \<and> num_gte q v" by blast
  have "\<exists>v. fld ticket ''quantity'' = Some v \<and> num_gte q v" if u: "unique_ids (tickets s)"
  proof -
    from k have f: "find (by_id t) (tickets s) = Some ticket" by (simp add: findOne_def)
    from unique_ids_same[OF u find_mem[OF f] d(1) find_holds[OF f] d(2)] d(3)
    show ?thesis by simp
  qed
  with c tq q t k a show ?thesis by simp
qed

lemma ix_post_bookings_send:
  assumes "fst (ix_post_bookings tonum caller now newId breq s) = Send x"
  shows "bq_customerEmail breq = caller
       \<and> (\<exists>t q ticket. bq_ticketId breq = Some (Hex t) \<and> bq_quantity breq = Some q
             \<and> findOne (by_id t) (tickets s) = Some ticket
             \<and> fld ticket ''verificationStatus'' = Some (JStr ''approved'')
             \<and> \<not> js_lt tonum (fld ticket ''quantity'') q
             \<and> (\<forall>n. fld ticket ''quantity'' = Some (JNum n) \<longrightarrow> q \<le> n))"
proof -
  from assms have c: "bq_customerEmail breq = caller"
    by (auto simp: ix_post_bookings_def split: if_splits)
  from assms c obtain tid q e where tq: "bq_ticketId breq = Some tid"
    "bq_quantity breq = Some q" "bq_customerEmail breq = Some e"
    by (auto simp: ix_post_bookings_def split: option.splits)
  from assms c tq have q: "q \<noteq> 0" "e \<noteq> []"
    by (auto simp: ix_post_bookings_def split: if_splits)
  from assms c tq q obtain t where t: "tid = Hex t"
    by (cases tid) (auto simp: ix_post_bookings_def)
  from assms c tq q t obtain ticket where k: "findOne (by_id t) (tickets s) = Some ticket"
    by (auto simp: ix_post_bookings_def split: option.splits)
  from assms c tq q t k have "fld ticket ''verificationStatus'' = Some (JStr ''approved'')"
    "\<not> js_lt tonum (fld ticket ''quantity'') q"
    by (auto simp: ix_post_bookings_def split: if_splits)
  moreover from this(2) have "\<forall>n. fld ticket ''quantity'' = Some (JNum n) \<longrightarrow> q \<le> n"
    by (auto simp: js_lt_def)
  ultimately show ?thesis using c tq t k by simp
qed

text \<open>
  Claim C4 as stated fails: the only ticket of \<open>hidden_db\<close> is approved and hidden, and
  \<open>POST /bookings\<close> of src/unnamed/part\_002 books 2 of its places. And the only ticket
  of \<open>unstocked_db\<close> has no quantity at all: \<open>ticket.quantity < quantity\<close> is false of
  it, and \<open>POST /bookings\<close> of src/index.js books 2 places on it.
\<close>

theorem booking_needs_visible_ticket_counterexample:
  "fst (p2_post_bookings (Some ''c@tixgo'') 10 9 req2 hidden_db)
     = Send [(''success'', JBool True), (''bookingId'', JId 9)]
   \<and> findOne (by_id 1) (tickets hidden_db)
     = Some [(''_id'', JId 1), (''vendorEmail'', JStr ''v@tixgo''),
             (''title'', JStr ''Dhaka-Sylhet''), (''price'', JNum 20), (''quantity'', JNum 5),
             (''verificationStatus'', JStr ''approved''), (''advertised'', JBool False),
             (''hidden'', JBool True)]
   \<and> fst (ix_post_bookings no_tonum (Some ''c@tixgo'') 10 9 book2 unstocked_db)
     = Send [(''success'', JBool True), (''bookingId'', JId 9)]
   \<and> findOne (by_id 1) (tickets unstocked_db)
     = Some [(''_id'', JId 1), (''vendorEmail'', JStr ''v@tixgo''),
             (''title'', JStr ''Dhaka-Sylhet''), (''price'', JNum 20),
             (''verificationStatus'', JStr ''approved''), (''advertised'', JBool False)]"
  by (simp add: p2_post_bookings_def p2_bookings_write_def p2_reserve_def req2_def
      hidden_db_def store_defs ix_post_bookings_def book2_def unstocked_db_def js_lt_def
      list_ex_iff)

text \<open>
  Claim C4, amended. \<open>POST /bookings\<close> succeeds only if the caller is the request's
  \<open>customerEmail\<close>, the ticket exists and its \<open>verificationStatus\<close> is \<open>approved\<close>; the
  ticket's \<open>hidden\<close> field is not looked at. In src/unnamed/part\_002 it succeeds only
  if, moreover, the requested quantity is positive and the ticket's quantity is a number
  that is at least the requested one; in src/index.js only if the requested quantity
  does not exceed the ticket's quantity when that is a number. The checks are made in
  this order: 403 "Forbidden" when the caller differs from \<open>customerEmail\<close>; then, for
  a request with a well-formed ticket id and a positive quantity, 404 "Ticket not
  found" when the ticket is absent, 400 "Ticket not approved" when it is not approved,
  400 "Not enough tickets available" when the quantity exceeds the ticket's; otherwise
  the booking is made, in src/unnamed/part\_002 provided that the decrement changes the
  ticket's quantity (claim C3). The first conjuncts are src/unnamed/part\_002, the last
  ones src/index.js.
\<close>

theorem booking_creation_checks:
  "(fst (p2_post_bookings caller now newId req s) = Send x \<longrightarrow>
      rq_customerEmail req = caller
      \<and> (\<exists>t q ticket. rq_ticketId req = Some (Hex t) \<and> rq_quantity req = Some q \<and> 0 < q
            \<and> findOne (by_id t) (tickets s) = Some ticket
            \<and> fld ticket ''verificationStatus'' = Some (JStr ''approved'')
            \<and> (unique_ids (tickets s) \<longrightarrow>
                 (\<exists>v. fld ticket ''quantity'' = Some v \<and> num_gte q v))))
   \<and> (rq_customerEmail req \<noteq> caller \<longrightarrow>
        p2_post_bookings caller now newId req s = (Fail 403 ''Forbidden'', s))
   \<and> (rq_customerEmail req = caller \<and> rq_ticketId req = Some (Hex t)
        \<and> rq_quantity req = Some q \<and> 0 < q \<longrightarrow>
        (findOne (by_id t) (tickets s) = None \<longrightarrow>
           p2_post_bookings caller now newId req s = (Fail 404 ''Ticket not found'', s))
      \<and> (findOne (by_id t) (tickets s) = Some ticket \<longrightarrow>
           (fld ticket ''verificationStatus'' \<noteq> Some (JStr ''approved'') \<longrightarrow>
              p2_post_bookings caller now newId req s = (Fail 400 ''Ticket not approved'', s))
         \<and> (fld ticket ''verificationStatus'' = Some (JStr ''approved'')
              \<and> unique_ids (tickets s) \<and> fld ticket ''quantity'' = Some (JNum n) \<longrightarrow>
              (n < q \<longrightarrow>
                 p2_post_bookings caller now newId req s
                   = (Fail 400 ''Not enough tickets available'', s))
            \<and> (q \<le> n \<and> round_double (n - q) \<noteq> JNum n
                 \<and> \<not> list_ex (id_eq (JId newId)) (bookings s) \<longrightarrow>
                 fst (p2_post_bookings caller now newId req s)
                   = Send [(''success'', JBool True), (''bookingId'', JId newId)]))))
   \<and> (fst (ix_post_bookings tonum caller now newId breq s) = Send x \<longrightarrow>
        bq_customerEmail breq = caller
        \<and> (\<exists>t q ticket. bq_ticketId breq = Some (Hex t) \<and> bq_quantity breq = Some q
              \<and> findOne (by_id t) (tickets s) = Some ticket
              \<and> fld ticket ''verificationStatus'' = Some (JStr ''approved'')
              \<and> \<not> js_lt tonum (fld ticket ''quantity'') q
              \<and> (\<forall>n. fld ticket ''quantity'' = Some (JNum n) \<longrightarrow> q \<le> n)))
   \<and> (bq_customerEmail breq \<noteq> caller \<longrightarrow>
        ix_post_bookings tonum caller now newId breq s = (Fail 403 ''Forbidden'', s))
   \<and> (bq_customerEmail breq = caller \<and> caller = Some e \<and> e \<noteq> []
        \<and> bq_ticketId breq = Some (Hex t) \<and> bq_quantity breq = Some q \<and> 0 < q \<longrightarrow>
        (findOne (by_id t) (tickets s) = None \<longrightarrow>
           ix_post_bookings tonum caller now newId breq s = (Fail 404 ''Ticket not found'', s))
      \<and> (findOne (by_id t) (tickets s) = Some ticket \<longrightarrow>
           (fld ticket ''verificationStatus'' \<noteq> Some (JStr ''approved'') \<longrightarrow>
              ix_post_bookings tonum caller now newId breq s
                = (Fail 400 ''Ticket is not approved for booking'', s))
         \<and> (fld ticket ''verificationStatus'' = Some (JStr ''approved'')
              \<and> fld ticket ''quantity'' = Some (JNum n) \<longrightarrow>
              (n < q \<longrightarrow>
                 ix_post_bookings tonum caller now newId breq s
                   = (Fail 400 ''Not enough tickets available'', s))
            \<and> (q \<le> n \<and> fld (bq_rest breq) ''_id'' = None
                 \<and> \<not> list_ex (id_eq (JId newId)) (bookings s) \<longrightarrow>
                 fst (ix_post_bookings tonum caller now newId breq s)
                   = Send [(''success'', JBool True), (''bookingId'', JId newId)]))))"
proof (intro conjI impI)
  show "rq_customerEmail req = caller"
    if "fst (p2_post_bookings caller now newId req s) = Send x"
    using p2_post_bookings_send[OF that] by simp
  show "\<exists>t q ticket. rq_ticketId req = Some (Hex t) \<and> rq_quantity req = Some q \<and> 0 < q
            \<and> findOne (by_id t) (tickets s) = Some ticket
            \<and> fld ticket ''verificationStatus'' = Some (JStr ''approved'')
            \<and> (unique_ids (tickets s) \<longrightarrow>
                 (\<exists>v. fld ticket ''quantity'' = Some v \<and> num_gte q v))"
    if "fst (p2_post_bookings caller now newId req s) = Send x"
    using p2_post_bookings_send[OF that] by simp
  show "p2_post_bookings caller now newId req s = (Fail 403 ''Forbidden'', s)"
    if "rq_customerEmail req \<noteq> caller"
    using that by (simp add: p2_post_bookings_def)
  show "bq_customerEmail breq = caller"
    if "fst (ix_post_bookings tonum caller now newId breq s) = Send x"
    using ix_post_bookings_send[OF that] by simp
  show "\<exists>t q ticket. bq_ticketId breq = Some (Hex t) \<and> bq_quantity breq = Some q
              \<and> findOne (by_id t) (tickets s) = Some ticket
              \<and> fld ticket ''verificationStatus'' = Some (JStr ''approved'')
              \<and> \<not> js_lt tonum (fld ticket ''quantity'') q
              \<and> (\<forall>n. fld ticket ''quantity'' = Some (JNum n) \<longrightarrow> q \<le> n)"
    if "fst (ix_post_bookings tonum caller now newId breq s) = Send x"
    using ix_post_bookings_send[OF that] by simp
  show "ix_post_bookings tonum caller now newId breq s = (Fail 403 ''Forbidden'', s)"
    if "bq_customerEmail breq \<noteq> caller"
    using that by (simp add: ix_post_bookings_def)
next
  assume h: "rq_customerEmail req = caller \<and> rq_ticketId req = Some (Hex t)
        \<and> rq_quantity req = Some q \<and> 0 < q"
  show "p2_post_bookings caller now newId req s = (Fail 404 ''Ticket not found'', s)"
    if "findOne (by_id t) (tickets s) = None"
    using h that by (simp add: p2_post_bookings_def)
  show "p2_post_bookings caller now newId req s = (Fail 400 ''Ticket not approved'', s)"
    if "findOne (by_id t) (tickets s) = Some ticket"
      "fld ticket ''verificationStatus'' \<noteq> Some (JStr ''approved'')"
    using h that by (simp add: p2_post_bookings_def)
  show "p2_post_bookings caller now newId req s
          = (Fail 400 ''Not enough tickets available'', s)"
    if k: "findOne (by_id t) (tickets s) = Some ticket"
      and a: "fld ticket ''verificationStatus'' = Some (JStr ''approved'')
              \<and> unique_ids (tickets s) \<and> fld ticket ''quantity'' = Some (JNum n)"
      and l: "n < q"
  proof -
    from a have u: "unique_ids (tickets s)" and n: "fld ticket ''quantity'' = Some (JNum n)"
      by simp_all
    from h have q: "0 < q" by simp
    from l have l': "n < q \<or> round_double (n - q) = JNum n" by simp
    show ?thesis
      using h k a p2_write_effect(2)[OF u k n q l'] by (simp add: p2_post_bookings_def)
  qed
  show "fst (p2_post_bookings caller now newId req s)
          = Send [(''success'', JBool True), (''bookingId'', JId newId)]"
    if k: "findOne (by_id t) (tickets s) = Some ticket"
      and a: "fld ticket ''verificationStatus'' = Some (JStr ''approved'')
              \<and> unique_ids (tickets s) \<and> fld ticket ''quantity'' = Some (JNum n)"
      and l: "q \<le> n \<and> round_double (n - q) \<noteq> JNum n
              \<and> \<not> list_ex (id_eq (JId newId)) (bookings s)"
  proof -
    from a have u: "unique_ids (tickets s)" and n: "fld ticket ''quantity'' = Some (JNum n)"
      by simp_all
    from h have q: "0 < q" by simp
    from l have l': "q \<le> n" and e: "round_double (n - q) \<noteq> JNum n" by simp_all
    show ?thesis
      using h k a l
        p2_write_effect(1)[OF u k n q l' e, of now newId "rq_customerEmail req" ticket]
      by (simp add: p2_post_bookings_def)
  qed
next
  assume h: "bq_customerEmail breq = caller \<and> caller = Some e \<and> e \<noteq> []
        \<and> bq_ticketId breq = Some (Hex t) \<and> bq_quantity breq = Some q \<and> 0 < q"
  show "ix_post_bookings tonum caller now newId breq s = (Fail 404 ''Ticket not found'', s)"
    if "findOne (by_id t) (tickets s) = None"
    using h that by (auto simp: ix_post_bookings_def)
  show "ix_post_bookings tonum caller now newId breq s
          = (Fail 400 ''Ticket is not approved for booking'', s)"
    if "findOne (by_id t) (tickets s) = Some ticket"
      "fld ticket ''verificationStatus'' \<noteq> Some (JStr ''approved'')"
    using h that by (auto simp: ix_post_bookings_def)
  show "ix_post_bookings tonum caller now newId breq s
          = (Fail 400 ''Not enough tickets available'', s)"
    if "findOne (by_id t) (tickets s) = Some ticket"
      "fld ticket ''verificationStatus'' = Some (JStr ''approved'')
       \<and> fld ticket ''quantity'' = Some (JNum n)"
      "n < q"
    using h that by (auto simp: ix_post_bookings_def js_lt_def)
  show "fst (ix_post_bookings tonum caller now newId breq s)
          = Send [(''success'', JBool True), (''bookingId'', JId newId)]"
    if "findOne (by_id t) (tickets s) = Some ticket"
      "fld ticket ''verificationStatus'' = Some (JStr ''approved'')
       \<and> fld ticket ''quantity'' = Some (JNum n)"
      "q \<le> n \<and> fld (bq_rest breq) ''_id'' = None
       \<and> \<not> list_ex (id_eq (JId newId)) (bookings s)"
    using h that
    by (auto simp: ix_post_bookings_def js_lt_def Let_def insertOne_def insertedId_def
        fld_update fld_def update_conv')
qed


lemma pending_ticket:
  "findOne (by_id 1) (tickets pending_db)
     = Some [(''_id'', JId 1), (''vendorEmail'', JStr ''v@tixgo''),
             (''title'', JStr ''Dhaka-Sylhet''), (''price'', JNum 20), (''quantity'', JNum 5),
             (''verificationStatus'', JStr ''pending''), (''advertised'', JBool False)]"
  by (simp add: pending_db_def store_defs)

lemma shop_no_ticket_7: "findOne (by_id 7) (tickets shop_db) = None"
  by (simp add: shop_db_def store_defs)

lemma shop_no_booking_9: "\<not> list_ex (id_eq (JId 9)) (bookings shop_db)"
  by (simp add: shop_db_def store_defs)

theorem booking_creation_checks_witness:
  "p2_post_bookings (Some ''x@tixgo'') 10 9 req2 shop_db = (Fail 403 ''Forbidden'', shop_db)
   \<and> p2_post_bookings (Some ''c@tixgo'') 10 9 (req2\<lparr>rq_ticketId := Some (Hex 7)\<rparr>) shop_db
       = (Fail 404 ''Ticket not found'', shop_db)
   \<and> p2_post_bookings (Some ''c@tixgo'') 10 9 req2 pending_db
       = (Fail 400 ''Ticket not approved'', pending_db)
   \<and> p2_post_bookings (Some ''c@tixgo'') 10 9 (req2\<lparr>rq_quantity := Some 6\<rparr>) shop_db
       = (Fail 400 ''Not enough tickets available'', shop_db)
   \<and> fst (p2_post_bookings (Some ''c@tixgo'') 10 9 req2 shop_db)
       = Send [(''success'', JBool True), (''bookingId'', JId 9)]
   \<and> ix_post_bookings no_tonum (Some ''x@tixgo'') 10 9 book2 shop_db
       = (Fail 403 ''Forbidden'', shop_db)
   \<and> ix_post_bookings no_tonum (Some ''c@tixgo'') 10 9 (book2\<lparr>bq_ticketId := Some (Hex 7)\<rparr>)
        shop_db
       = (Fail 404 ''Ticket not found'', shop_db)
   \<and> ix_post_bookings no_tonum (Some ''c@tixgo'') 10 9 book2 pending_db
       = (Fail 400 ''Ticket is not approved for booking'', pending_db)
   \<and> ix_post_bookings no_tonum (Some ''c@tixgo'') 10 9 (book2\<lparr>bq_quantity := Some 6\<rparr>) shop_db
       = (Fail 400 ''Not enough tickets available'', shop_db)
   \<and> fst (ix_post_bookings no_tonum (Some ''c@tixgo'') 10 9 book2 shop_db)
       = Send [(''success'', JBool True), (''bookingId'', JId 9)]"
proof -
  let ?shop = "[(''_id'', JId 1), (''vendorEmail'', JStr ''v@tixgo''),
             (''title'', JStr ''Dhaka-Sylhet''), (''price'', JNum 20), (''quantity'', JNum 5),
             (''verificationStatus'', JStr ''approved''), (''advertised'', JBool False)]"
  let ?pend = "[(''_id'', JId 1), (''vendorEmail'', JStr ''v@tixgo''),
             (''title'', JStr ''Dhaka-Sylhet''), (''price'', JNum 20), (''quantity'', JNum 5),
             (''verificationStatus'', JStr ''pending''), (''advertised'', JBool False)]"
  have f: "fld ?shop ''quantity'' = Some (JNum 5)"
    "fld ?shop ''verificationStatus'' = Some (JStr ''approved'')"
    "fld ?pend ''verificationStatus'' = Some (JStr ''pending'')"
    by (simp_all add: fld_def)
  have r: "rq_customerEmail req2 = Some ''c@tixgo''" "rq_ticketId req2 = Some (Hex 1)"
    "rq_quantity req2 = Some 2" "bq_customerEmail book2 = Some ''c@tixgo''"
    "bq_ticketId book2 = Some (Hex 1)" "bq_quantity book2 = Some 2" "bq_rest book2 = []"
    by (simp_all add: req2_def book2_def)
  note T = booking_creation_checks[where tonum = no_tonum and now = 10 and newId = 9
      and e = "''c@tixgo''"]
  show ?thesis
    using
      T[where caller = "Some ''x@tixgo''" and req = req2 and breq = book2 and s = shop_db]
      T[where caller = "Some ''c@tixgo''" and req = "req2\<lparr>rq_ticketId := Some (Hex 7)\<rparr>"
          and breq = "book2\<lparr>bq_ticketId := Some (Hex 7)\<rparr>" and s = shop_db and t = 7
          and q = 2]
      T[where caller = "Some ''c@tixgo''" and req = req2 and breq = book2 and s = pending_db
          and t = 1 and q = 2 and ticket = ?pend]
      T[where caller = "Some ''c@tixgo''" and req = "req2\<lparr>rq_quantity := Some 6\<rparr>"
          and breq = "book2\<lparr>bq_quantity := Some 6\<rparr>" and s = shop_db and t = 1 and q = 6
          and ticket = ?shop and n = 5]
      T[where caller = "Some ''c@tixgo''" and req = req2 and breq = book2 and s = shop_db
          and t = 1 and q = 2 and ticket = ?shop and n = 5]
      f r shop_ticket shop_unique pending_ticket shop_no_ticket_7 shop_no_booking_9
    by (simp add: fld_def)
qed


section \<open>Rejecting a booking\<close>

lemma find_append1:
  "find P (xs @ [x]) = (case find P xs of None \<Rightarrow> (if P x then Some x else None) | Some y \<Rightarrow> Some y)"
  by (induction xs) auto

lemma insertOne_find:
  assumes "insertOne newId d ds = Some ds'" "insertedId newId d = JId j"
  shows "find (by_id j) ds' = Some (AList.update ''_id'' (JId j) d)"
proof -
  from assms have n: "\<not> list_ex (id_eq (JId j)) ds" and e: "ds' = ds @ [AList.update ''_id'' (JId j) d]"
    by (auto simp: insertOne_def Let_def split: if_splits)
  from n have "find (by_id j) ds = None"
    by (auto simp: find_None_iff list_ex_iff by_id_def)
  with e show ?thesis by (simp add: find_append1 by_id_def id_eq_def fld_update)
qed

lemma by_id_update: "k \<noteq> ''_id'' \<Longrightarrow> by_id i (AList.update k v d) = by_id i d"
  by (simp add: by_id_def id_eq_def fld_update)

lemma p2_reject_pending:
  assumes b: "findOne (by_id j) (bookings s) = Some b"
    and v: "fld b ''vendorEmail'' = js_email caller"
    and p: "fld b ''status'' = Some (JStr ''pending'')"
    and t: "fld b ''ticketId'' = Some (JId t)"
    and q: "fld b ''quantity'' = Some (JNum q)"
    and d: "findOne (by_id t) (tickets s) = Some d"
    and n: "fld d ''quantity'' = Some (JNum n)"
  shows "\<exists>s'. p2_bookings_reject caller now (Hex j) s = (Send [(''success'', JBool True)], s')
           \<and> findOne (by_id j) (bookings s')
               = Some (AList.update ''rejectedAt'' (JDate now)
                        (AList.update ''status'' (JStr ''rejected'') b))
           \<and> findOne (by_id t) (tickets s')
               = Some (AList.update ''quantity'' (round_double (n + q)) d)"
proof -
  let ?inc = "Inc ''quantity'' (JNum q)"
  let ?set = "Set [(''status'', JStr ''rejected''), (''rejectedAt'', JDate now)]"
  from d have d': "find (by_id t) (tickets s) = Some d" by (simp add: findOne_def)
  from b have b': "find (by_id j) (bookings s) = Some b" by (simp add: findOne_def)
  have ap: "apply_update ?inc d = Some (AList.update ''quantity'' (round_double (n + q)) d)"
    using n by simp
  obtain r where r: "update_first (by_id t) ?inc (tickets s) = Some r"
    using update_first_hit[of "by_id t" "tickets s" d "by_id t" ?inc, OF d' find_holds[OF d'] _ ap]
    by auto
  have pres: "\<And>d d'. by_id t d \<Longrightarrow> apply_update ?inc d = Some d' \<Longrightarrow> by_id t d'"
    by (auto simp: by_id_update split: option.splits jval.splits)
  have fr: "find (by_id t) (coll r) = Some (AList.update ''quantity'' (round_double (n + q)) d)"
    using update_first_find_same[OF r pres] d' ap by simp
  have ap2: "apply_update ?set b
      = Some (AList.update ''rejectedAt'' (JDate now) (AList.update ''status'' (JStr ''rejected'') b))"
    by (simp add: Let_def fld_update)
  obtain r2 where r2: "update_first (by_id j) ?set (bookings s) = Some r2"
    using update_first_hit[of "by_id j" "bookings s" b "by_id j" ?set, OF b' find_holds[OF b'] _ ap2]
    by auto
  have pres2: "\<And>d d'. by_id j d \<Longrightarrow> apply_update ?set d = Some d' \<Longrightarrow> by_id j d'"
    by (auto simp: Let_def by_id_update split: if_splits)
  have fr2: "find (by_id j) (coll r2)
      = Some (AList.update ''rejectedAt'' (JDate now) (AList.update ''status'' (JStr ''rejected'') b))"
    using update_first_find_same[OF r2 pres2] b' ap2 by simp
  have ide: "id_eq (JId t) = by_id t" by (simp add: by_id_def fun_eq_iff)
  show ?thesis
    using b v p t q r r2 fr fr2
    by (simp add: p2_bookings_reject_def stored_def ide updateOne_def findOne_def)
qed


lemma fld_Cons: "fld ((k, v) # d) k' = (if k' = k then Some v else fld d k')"
  by (simp add: fld_def)

lemma apply_Set2:
  "plain_key k1 \<Longrightarrow> plain_key k2 \<Longrightarrow> k1 \<noteq> ''_id'' \<Longrightarrow> k2 \<noteq> ''_id'' \<Longrightarrow>
   apply_update (Set [(k1, v1), (k2, v2)]) d = Some (AList.update k2 v2 (AList.update k1 v1 d))"
  by (simp add: Let_def fld_update)

lemma apply_Set_id: "apply_update (Set kvs) d = Some d' \<Longrightarrow> fld d' ''_id'' = fld d ''_id''"
  by (auto simp: apply_update.simps(1) split: option.splits if_splits)

lemma set2_changes:
  assumes "k1 \<noteq> k2" "fld d k1 \<noteq> Some v1"
  shows "AList.update k2 v2 (AList.update k1 v1 d) \<noteq> d"
proof
  assume "AList.update k2 v2 (AList.update k1 v1 d) = d"
  then have "fld (AList.update k2 v2 (AList.update k1 v1 d)) k1 = fld d k1" by simp
  with assms show False by (simp add: fld_update)
qed

lemma update_back: "map_of d k = Some v \<Longrightarrow> AList.update k v (AList.update k w d) = d"
  by (simp add: update_last update_triv)

lemma p2_write_success:
  assumes ok: "p2_bookings_write now newId t q ce snap s = (Send x, s1)"
    and u: "unique_ids (tickets s)" and d: "findOne (by_id t) (tickets s) = Some d"
    and n: "fld d ''quantity'' = Some (JNum n)"
  shows "x = [(''success'', JBool True), (''bookingId'', JId newId)]
       \<and> findOne (by_id t) (tickets s1) = Some (AList.update ''quantity'' (round_double (n - q)) d)
       \<and> findOne (by_id newId) (bookings s1)
           = Some [(''ticketId'', stored (fld snap ''_id'')),
                   (''vendorEmail'', stored (fld snap ''vendorEmail'')),
                   (''customerEmail'', stored (js_email ce)),
                   (''title'', stored (fld snap ''title'')),
                   (''price'', stored (fld snap ''price'')),
                   (''quantity'', JNum q),
                   (''status'', JStr ''pending''),
                   (''createdAt'', JDate now),
                   (''_id'', JId newId)]"
proof -
  let ?nb = "[(''ticketId'', stored (fld snap ''_id'')),
                   (''vendorEmail'', stored (fld snap ''vendorEmail'')),
                   (''customerEmail'', stored (js_email ce)),
                   (''title'', stored (fld snap ''title'')),
                   (''price'', stored (fld snap ''price'')),
                   (''quantity'', JNum q),
                   (''status'', JStr ''pending''),
                   (''createdAt'', JDate now)]"
  from d have d': "find (by_id t) (tickets s) = Some d" by (simp add: findOne_def)
  from conditional_decrement[OF d' n u, of q]
  obtain r where r: "p2_reserve t q (tickets s) = Some r"
    and e: "if q \<le> n
            then find (by_id t) (coll r) = Some (AList.update ''quantity'' (round_double (n - q)) d)
                 \<and> matchedCount r = 1 \<and> modifiedCount r = (if round_double (n - q) = JNum n then 0 else 1)
            else coll r = tickets s \<and> matchedCount r = 0 \<and> modifiedCount r = 0"
    by (auto simp: p2_reserve_def)
  from ok r have m: "modifiedCount r \<noteq> 0"
    by (auto simp: p2_bookings_write_def Let_def split: if_splits)
  with e have f: "find (by_id t) (coll r) = Some (AList.update ''quantity'' (round_double (n - q)) d)"
    by (auto split: if_splits)
  from ok r m obtain bs where bs: "insertOne newId ?nb (bookings s) = Some bs"
    and s1: "s1 = s\<lparr>tickets := coll r, bookings := bs\<rparr>"
    and x: "x = [(''success'', JBool True), (''bookingId'', insertedId newId ?nb)]"
    by (auto simp: p2_bookings_write_def Let_def split: option.splits)
  have i: "insertedId newId ?nb = JId newId" by (simp add: insertedId_def fld_def)
  from insertOne_find[OF bs i] have "find (by_id newId) bs = Some (AList.update ''_id'' (JId newId) ?nb)" .
  then show ?thesis using f s1 x i by (simp add: findOne_def)
qed


lemma p2_book_then_reject:
  assumes u: "unique_ids (tickets s0)" and d: "findOne (by_id t) (tickets s0) = Some d0"
    and n: "fld d0 ''quantity'' = Some (JNum n)"
    and v: "fld d0 ''vendorEmail'' = Some (JStr v)"
    and tid: "rq_ticketId req = Some (Hex t)"
    and rq: "rq_quantity req = Some q"
    and dn: "is_double n" and dq: "is_double (n - q)"
    and ok: "p2_post_bookings caller now newId req s0 = (Send x, s1)"
  shows "x = [(''success'', JBool True), (''bookingId'', JId newId)]
       \<and> (\<exists>s2. p2_bookings_reject (Some v) now' (Hex newId) s1
                  = (Send [(''success'', JBool True)], s2)
              \<and> (\<exists>b. findOne (by_id newId) (bookings s2) = Some b
                      \<and> fld b ''status'' = Some (JStr ''rejected'')
                      \<and> fld b ''rejectedAt'' = Some (JDate now'))
              \<and> findOne (by_id t) (tickets s2) = Some d0)"
proof -
  from ok have f: "fst (p2_post_bookings caller now newId req s0) = Send x" by simp
  from p2_post_bookings_send[OF f] tid d rq have q: "rq_quantity req = Some q" "0 < q"
    and c: "rq_customerEmail req = caller"
    and a: "fld d0 ''verificationStatus'' = Some (JStr ''approved'')"
    by auto
  from dn dq have e: "round_double n = JNum n" "round_double (n - q) = JNum (n - q)"
    by (simp_all add: is_double_def)
  from ok tid q c d a
  have w: "p2_bookings_write now newId t q (rq_customerEmail req) d0 s0 = (Send x, s1)"
    by (simp add: p2_post_bookings_def)
  let ?b = "[(''ticketId'', stored (fld d0 ''_id'')),
             (''vendorEmail'', stored (fld d0 ''vendorEmail'')),
             (''customerEmail'', stored (js_email (rq_customerEmail req))),
             (''title'', stored (fld d0 ''title'')),
             (''price'', stored (fld d0 ''price'')),
             (''quantity'', JNum q),
             (''status'', JStr ''pending''),
             (''createdAt'', JDate now),
             (''_id'', JId newId)]"
  let ?d1 = "AList.update ''quantity'' (JNum (n - q)) d0"
  from p2_write_success[OF w u d n] e(2)
  have x: "x = [(''success'', JBool True), (''bookingId'', JId newId)]"
    and t1: "findOne (by_id t) (tickets s1) = Some ?d1"
    and b1: "findOne (by_id newId) (bookings s1) = Some ?b"
    by simp_all
  from d have "by_id t d0" by (auto simp: findOne_def dest: find_holds)
  then have i0: "fld d0 ''_id'' = Some (JId t)" by (simp add: by_id_def id_eq_def)
  have bv: "fld ?b ''vendorEmail'' = js_email (Some v)"
    and bp: "fld ?b ''status'' = Some (JStr ''pending'')"
    and bt: "fld ?b ''ticketId'' = Some (JId t)"
    and bq: "fld ?b ''quantity'' = Some (JNum q)"
    using v i0 by (simp_all add: fld_def stored_def js_email_def)
  have n1: "fld ?d1 ''quantity'' = Some (JNum (n - q))" by (simp add: fld_update)
  from p2_reject_pending[OF b1 bv bp bt bq t1 n1, of now']
  obtain s2 where r: "p2_bookings_reject (Some v) now' (Hex newId) s1
                  = (Send [(''success'', JBool True)], s2)"
    and b2: "findOne (by_id newId) (bookings s2)
               = Some (AList.update ''rejectedAt'' (JDate now')
                        (AList.update ''status'' (JStr ''rejected'') ?b))"
    and t2: "findOne (by_id t) (tickets s2)
               = Some (AList.update ''quantity'' (round_double (n - q + q)) ?d1)"
    by blast
  have "AList.update ''quantity'' (round_double (n - q + q)) ?d1 = d0"
    using n e(1) by (simp add: update_last update_triv fld_def)
  with t2 have "findOne (by_id t) (tickets s2) = Some d0" by simp
  with x r b2 show ?thesis by (simp add: fld_update fld_Cons)
qed

lemma pending_write:
  assumes b: "find (by_id j) bs = Some b" and k: "k \<noteq> ''_id''" "k \<noteq> ''status''"
    and st: "st \<noteq> ''pending''" and pk: "plain_key k"
  shows "fld b ''status'' = Some (JStr ''pending'') \<Longrightarrow>
         \<exists>r. update_first (\<lambda>d. by_id j d \<and> field_eq ''status'' (JStr ''pending'') d)
               (Set [(''status'', JStr st), (k, v)]) bs = Some r
           \<and> modifiedCount r = 1
           \<and> find (by_id j) (coll r)
               = Some (AList.update k v (AList.update ''status'' (JStr st) b))"
    and "unique_ids bs \<Longrightarrow> \<not> field_eq ''status'' (JStr ''pending'') b \<Longrightarrow>
         update_first (\<lambda>d. by_id j d \<and> field_eq ''status'' (JStr ''pending'') d)
               (Set [(''status'', JStr st), (k, v)]) bs
           = Some \<lparr>coll = bs, matchedCount = 0, modifiedCount = 0\<rparr>"
proof -
  let ?flt = "\<lambda>d. by_id j d \<and> field_eq ''status'' (JStr ''pending'') d"
  let ?set = "Set [(''status'', JStr st), (k, v)]"
  let ?b' = "AList.update k v (AList.update ''status'' (JStr st) b)"
  show "\<exists>r. update_first ?flt ?set bs = Some r \<and> modifiedCount r = 1
           \<and> find (by_id j) (coll r) = Some ?b'"
    if p: "fld b ''status'' = Some (JStr ''pending'')"
  proof -
    have fl: "?flt b" using find_holds[OF b] p by (simp add: field_eq_def)
    have ap: "apply_update ?set b = Some ?b'" using k pk by (intro apply_Set2) simp_all
    have ne: "?b' \<noteq> b" using p k st by (intro set2_changes) auto
    obtain r where r: "update_first ?flt ?set bs = Some r" and m: "modifiedCount r = 1"
      using update_first_hit[of "by_id j" bs b ?flt ?set ?b', OF b fl _ ap] ne by auto
    have idp: "\<And>d d'. apply_update ?set d = Some d' \<Longrightarrow> fld d' ''_id'' = fld d ''_id''"
      by (rule apply_Set_id)
    have "find (by_id j) (coll r) = Some ?b'"
      using update_first_find[OF r _ idp, of j j] b fl ap by simp
    with r m show ?thesis by blast
  qed
  show "update_first ?flt ?set bs = Some \<lparr>coll = bs, matchedCount = 0, modifiedCount = 0\<rparr>"
    if u: "unique_ids bs" and np: "\<not> field_eq ''status'' (JStr ''pending'') b"
  proof (rule update_first_miss, rule ballI)
    fix e assume e: "e \<in> set bs"
    show "\<not> ?flt e"
    proof
      assume a: "?flt e"
      then have "e = b" using unique_ids_same[OF u find_mem[OF b] e find_holds[OF b]] by simp
      with a np show False by simp
    qed
  qed
qed

lemma ix_reject_pending:
  assumes b: "findOne (by_id j) (bookings s) = Some b"
    and v: "fld b ''vendorEmail'' = js_email caller"
    and p: "fld b ''status'' = Some (JStr ''pending'')"
  shows "\<exists>s'. ix_bookings_reject caller now (Hex j) s
                 = (Send [(''success'', JBool True), (''modifiedCount'', JNum 1)], s')
             \<and> findOne (by_id j) (bookings s')
                 = Some (AList.update ''rejectedAt'' (JDate now)
                          (AList.update ''status'' (JStr ''rejected'') b))
             \<and> tickets s' = tickets s"
proof -
  from b have b': "find (by_id j) (bookings s) = Some b" by (simp add: findOne_def)
  from pending_write(1)[OF b' _ _ _ _ p, of "''rejectedAt''" "''rejected''" "JDate now"]
  obtain r where "update_first (\<lambda>d. by_id j d \<and> field_eq ''status'' (JStr ''pending'') d)
               (Set [(''status'', JStr ''rejected''), (''rejectedAt'', JDate now)]) (bookings s) = Some r"
    "modifiedCount r = 1"
    "find (by_id j) (coll r)
       = Some (AList.update ''rejectedAt'' (JDate now) (AList.update ''status'' (JStr ''rejected'') b))"
    by auto
  then show ?thesis using b v
    by (simp add: ix_bookings_reject_def updateOne_def findOne_def)
qed

lemma ix_book_then_reject:
  assumes d: "findOne (by_id t) (tickets s0) = Some d0"
    and v: "fld d0 ''vendorEmail'' = Some (JStr v)"
    and tid: "bq_ticketId breq = Some (Hex t)"
    and ok: "ix_post_bookings tonum caller now newId breq s0
               = (Send [(''success'', JBool True), (''bookingId'', JId j)], s1)"
  shows "\<exists>s2. ix_bookings_reject (Some v) now' (Hex j) s1
                  = (Send [(''success'', JBool True), (''modifiedCount'', JNum 1)], s2)
              \<and> (\<exists>b. findOne (by_id j) (bookings s2) = Some b
                      \<and> fld b ''status'' = Some (JStr ''rejected'')
                      \<and> fld b ''rejectedAt'' = Some (JDate now'))
              \<and> tickets s2 = tickets s0"
proof -
  from ok have f: "fst (ix_post_bookings tonum caller now newId breq s0)
                     = Send [(''success'', JBool True), (''bookingId'', JId j)]" by simp
  from ix_post_bookings_send[OF f] tid d obtain q where q: "bq_quantity breq = Some q"
    and c: "bq_customerEmail breq = caller"
    and a: "fld d0 ''verificationStatus'' = Some (JStr ''approved'')"
    and l: "\<not> js_lt tonum (fld d0 ''quantity'') q"
    by auto
  from ok c obtain e where e: "bq_customerEmail breq = Some e"
    by (auto simp: ix_post_bookings_def split: option.splits if_splits)
  from ok c e q tid have z: "q \<noteq> 0" "e \<noteq> []"
    by (auto simp: ix_post_bookings_def split: if_splits)
  let ?doc1 = "set_fields
                [(''ticketId'', stored (fld d0 ''_id'')),
                 (''vendorEmail'', stored (fld d0 ''vendorEmail'')),
                 (''title'', stored (fld d0 ''title'')),
                 (''price'', stored (fld d0 ''price'')),
                 (''status'', JStr ''pending''),
                 (''createdAt'', JDate now)]
                ((''quantity'', JNum q) # (''customerEmail'', JStr e) # bq_rest breq)"
  from ok c e q tid z d a l obtain bs where bs: "insertOne newId ?doc1 (bookings s0) = Some bs"
    and s1: "s1 = s0\<lparr>bookings := bs\<rparr>" and i: "insertedId newId ?doc1 = JId j"
    by (auto simp: ix_post_bookings_def Let_def split: option.splits if_splits)
  let ?b = "AList.update ''_id'' (JId j) ?doc1"
  from insertOne_find[OF bs i] s1 have fb: "findOne (by_id j) (bookings s1) = Some ?b"
    by (simp add: findOne_def)
  have bv: "fld ?b ''vendorEmail'' = js_email (Some v)"
    and bp: "fld ?b ''status'' = Some (JStr ''pending'')"
    using v by (simp_all add: fld_update fld_Cons stored_def js_email_def)
  from ix_reject_pending[OF fb bv bp, of now'] s1 show ?thesis
    by (auto simp: fld_update fld_Cons)
qed

lemma held_booking:
  "findOne (by_id 2) (bookings held_db)
     = Some [(''_id'', JId 2), (''ticketId'', JId 1), (''vendorEmail'', JStr ''v@tixgo''),
             (''customerEmail'', JStr ''c@tixgo''), (''title'', JStr ''Dhaka-Sylhet''),
             (''price'', JNum 20), (''quantity'', JNum 2), (''status'', JStr ''pending''),
             (''createdAt'', JDate 1)]"
  by (simp add: held_db_def store_defs)

lemma held_ticket:
  "findOne (by_id 1) (tickets held_db)
     = Some [(''_id'', JId 1), (''vendorEmail'', JStr ''v@tixgo''),
             (''title'', JStr ''Dhaka-Sylhet''), (''price'', JNum 20), (''quantity'', JNum 3),
             (''verificationStatus'', JStr ''approved''), (''advertised'', JBool False)]"
  by (simp add: held_db_def store_defs)

lemma shop_p2_book:
  "fst (p2_post_bookings (Some ''c@tixgo'') 10 9 req2 shop_db)
     = Send [(''success'', JBool True), (''bookingId'', JId 9)]"
  by (simp add: p2_post_bookings_def p2_bookings_write_def p2_reserve_def req2_def
      shop_db_def store_defs)

lemma shop_ix_book:
  "fst (ix_post_bookings no_tonum (Some ''c@tixgo'') 10 9 book2 shop_db)
     = Send [(''success'', JBool True), (''bookingId'', JId 9)]"
  by (simp add: ix_post_bookings_def book2_def shop_db_def store_defs js_lt_def list_ex_iff)

text \<open>
  Run right after its reads, a rejection of a pending booking by its vendor is its write
  part on the booking it has read.
\<close>

lemma p2_reject_split:
  assumes "findOne (by_id i) (bookings s) = Some b" "fld b ''vendorEmail'' = js_email caller"
    "fld b ''status'' = Some (JStr ''pending'')"
  shows "p2_bookings_reject caller now (Hex i) s = p2_reject_write now i b s"
  using assms by (simp add: p2_bookings_reject_def p2_reject_write_def)

text \<open>
  Claim C6 as stated fails on src/unnamed/part\_002. The ticket of the first state has
  \<open>2\<^sup>5\<^sup>3 + 2\<close> places. Booking one of them leaves \<open>2\<^sup>5\<^sup>3\<close>, the double nearest to
  \<open>2\<^sup>5\<^sup>3 + 1\<close>, and the rejection of that booking, which adds the place again, leaves
  \<open>2\<^sup>5\<^sup>3\<close> for the same reason: the quantity is not the one before the booking. And
  two rejections of the pending booking of \<open>held_db\<close> that overlap, both having read
  the booking as pending before either writes, add its 2 places to the ticket twice:
  the ticket had 5 places before the booking, 3 with it, and has 7 in the end.
\<close>

theorem reject_restores_quantity_counterexample:
  "map (\<lambda>d. fld d ''quantity'') (tickets (stock_db 9007199254740994))
     = [Some (JNum 9007199254740994)]
   \<and> fst (p2_post_bookings (Some ''c@tixgo'') 10 9 req1 (stock_db 9007199254740994))
     = Send [(''success'', JBool True), (''bookingId'', JId 9)]
   \<and> map (\<lambda>d. fld d ''quantity'')
        (tickets (snd (p2_post_bookings (Some ''c@tixgo'') 10 9 req1 (stock_db 9007199254740994))))
     = [Some (JNum 9007199254740992)]
   \<and> fst (p2_bookings_reject (Some ''v@tixgo'') 11 (Hex 9)
             (snd (p2_post_bookings (Some ''c@tixgo'') 10 9 req1 (stock_db 9007199254740994))))
     = Send [(''success'', JBool True)]
   \<and> map (\<lambda>d. fld d ''status'')
        (bookings (snd (p2_bookings_reject (Some ''v@tixgo'') 11 (Hex 9)
           (snd (p2_post_bookings (Some ''c@tixgo'') 10 9 req1 (stock_db 9007199254740994))))))
     = [Some (JStr ''rejected'')]
   \<and> map (\<lambda>d. fld d ''quantity'')
        (tickets (snd (p2_bookings_reject (Some ''v@tixgo'') 11 (Hex 9)
           (snd (p2_post_bookings (Some ''c@tixgo'') 10 9 req1 (stock_db 9007199254740994))))))
     = [Some (JNum 9007199254740992)]
   \<and> findOne (by_id 2) (bookings held_db) = Some held_b
   \<and> p2_bookings_reject (Some ''v@tixgo'') 11 (Hex 2) held_db = p2_reject_write 11 2 held_b held_db
   \<and> map (\<lambda>d. fld d ''quantity'') (tickets held_db) = [Some (JNum 3)]
   \<and> fst (p2_reject_write 11 2 held_b held_db) = Send [(''success'', JBool True)]
   \<and> fst (p2_reject_write 12 2 held_b (snd (p2_reject_write 11 2 held_b held_db)))
       = Send [(''success'', JBool True)]
   \<and> map (\<lambda>d. fld d ''quantity'')
        (tickets (snd (p2_reject_write 12 2 held_b (snd (p2_reject_write 11 2 held_b held_db)))))
       = [Some (JNum 7)]"
  by (simp add: p2_post_bookings_def p2_bookings_write_def p2_reserve_def p2_bookings_reject_def
      p2_reject_write_def req1_def stock_db_def held_db_def held_b_def store_defs
      round_double_2_53)

text \<open>
  Claim C6, amended. A pending booking that its vendor rejects, the request being served
  from its read to its writes with no other write in between, gets the status
  \<open>rejected\<close> and the stamp \<open>rejectedAt\<close>. In src/unnamed/part\_002 the rejection adds
  the booking's quantity \<open>q\<close> to its ticket's quantity \<open>n\<close>, which becomes the double
  nearest to \<open>n + q\<close>; a booking that is created and then rejected leaves the ticket
  document as it was before the booking when the quantity \<open>n\<close> before the booking and
  the quantity \<open>n - q\<close> that the booking leaves are doubles (as whole numbers up to
  \<open>2\<^sup>5\<^sup>3\<close> are). In src/index.js, where creating a booking takes nothing from the
  ticket, the rejection leaves the tickets alone, and the ticket is again as it was
  before the booking.
\<close>

theorem reject_releases_stock:
  "(findOne (by_id j) (bookings s) = Some b \<and> fld b ''vendorEmail'' = js_email caller
      \<and> fld b ''status'' = Some (JStr ''pending'') \<and> fld b ''ticketId'' = Some (JId t)
      \<and> fld b ''quantity'' = Some (JNum q) \<and> findOne (by_id t) (tickets s) = Some d
      \<and> fld d ''quantity'' = Some (JNum n) \<longrightarrow>
      (\<exists>s'. p2_bookings_reject caller now (Hex j) s = (Send [(''success'', JBool True)], s')
           \<and> (\<exists>b'. findOne (by_id j) (bookings s') = Some b'
                   \<and> fld b' ''status'' = Some (JStr ''rejected'')
                   \<and> fld b' ''rejectedAt'' = Some (JDate now))
           \<and> (\<exists>d'. findOne (by_id t) (tickets s') = Some d'
                   \<and> fld d' ''quantity'' = Some (round_double (n + q)))))
   \<and> (unique_ids (tickets si) \<and> findOne (by_id t) (tickets si) = Some di
        \<and> fld di ''quantity'' = Some (JNum n) \<and> fld di ''vendorEmail'' = Some (JStr v)
        \<and> rq_ticketId req = Some (Hex t) \<and> rq_quantity req = Some q
        \<and> is_double n \<and> is_double (n - q)
        \<and> p2_post_bookings caller now newId req si = (Send x, sa) \<longrightarrow>
        x = [(''success'', JBool True), (''bookingId'', JId newId)]
        \<and> (\<exists>s2. p2_bookings_reject (Some v) now' (Hex newId) sa
                   = (Send [(''success'', JBool True)], s2)
               \<and> (\<exists>b'. findOne (by_id newId) (bookings s2) = Some b'
                       \<and> fld b' ''status'' = Some (JStr ''rejected'')
                       \<and> fld b' ''rejectedAt'' = Some (JDate now'))
               \<and> findOne (by_id t) (tickets s2) = Some di))
   \<and> (findOne (by_id j) (bookings s) = Some b \<and> fld b ''vendorEmail'' = js_email caller
        \<and> fld b ''status'' = Some (JStr ''pending'') \<longrightarrow>
        (\<exists>s'. ix_bookings_reject caller now (Hex j) s
                 = (Send [(''success'', JBool True), (''modifiedCount'', JNum 1)], s')
             \<and> (\<exists>b'. findOne (by_id j) (bookings s') = Some b'
                     \<and> fld b' ''status'' = Some (JStr ''rejected'')
                     \<and> fld b' ''rejectedAt'' = Some (JDate now))
             \<and> tickets s' = tickets s))
   \<and> (findOne (by_id t) (tickets si) = Some di \<and> fld di ''vendorEmail'' = Some (JStr v)
        \<and> bq_ticketId breq = Some (Hex t)
        \<and> ix_post_bookings tonum caller now newId breq si
             = (Send [(''success'', JBool True), (''bookingId'', JId j)], sb) \<longrightarrow>
        (\<exists>s2. ix_bookings_reject (Some v) now' (Hex j) sb
                 = (Send [(''success'', JBool True), (''modifiedCount'', JNum 1)], s2)
             \<and> (\<exists>b'. findOne (by_id j) (bookings s2) = Some b'
                     \<and> fld b' ''status'' = Some (JStr ''rejected'')
                     \<and> fld b' ''rejectedAt'' = Some (JDate now'))
             \<and> tickets s2 = tickets si))"
proof (intro conjI impI)
  assume h: "findOne (by_id j) (bookings s) = Some b \<and> fld b ''vendorEmail'' = js_email caller
      \<and> fld b ''status'' = Some (JStr ''pending'') \<and> fld b ''ticketId'' = Some (JId t)
      \<and> fld b ''quantity'' = Some (JNum q) \<and> findOne (by_id t) (tickets s) = Some d
      \<and> fld d ''quantity'' = Some (JNum n)"
  then have "\<exists>s'. p2_bookings_reject caller now (Hex j) s = (Send [(''success'', JBool True)], s')
           \<and> findOne (by_id j) (bookings s')
               = Some (AList.update ''rejectedAt'' (JDate now)
                        (AList.update ''status'' (JStr ''rejected'') b))
           \<and> findOne (by_id t) (tickets s')
               = Some (AList.update ''quantity'' (round_double (n + q)) d)"
    by (intro p2_reject_pending) simp_all
  then show "\<exists>s'. p2_bookings_reject caller now (Hex j) s = (Send [(''success'', JBool True)], s')
           \<and> (\<exists>b'. findOne (by_id j) (bookings s') = Some b'
                   \<and> fld b' ''status'' = Some (JStr ''rejected'')
                   \<and> fld b' ''rejectedAt'' = Some (JDate now))
           \<and> (\<exists>d'. findOne (by_id t) (tickets s') = Some d'
                   \<and> fld d' ''quantity'' = Some (round_double (n + q)))"
    by (auto simp: fld_update)
next
  assume h: "unique_ids (tickets si) \<and> findOne (by_id t) (tickets si) = Some di
        \<and> fld di ''quantity'' = Some (JNum n) \<and> fld di ''vendorEmail'' = Some (JStr v)
        \<and> rq_ticketId req = Some (Hex t) \<and> rq_quantity req = Some q
        \<and> is_double n \<and> is_double (n - q)
        \<and> p2_post_bookings caller now newId req si = (Send x, sa)"
  then have r: "x = [(''success'', JBool True), (''bookingId'', JId newId)]
       \<and> (\<exists>s2. p2_bookings_reject (Some v) now' (Hex newId) sa
                  = (Send [(''success'', JBool True)], s2)
              \<and> (\<exists>b. findOne (by_id newId) (bookings s2) = Some b
                      \<and> fld b ''status'' = Some (JStr ''rejected'')
                      \<and> fld b ''rejectedAt'' = Some (JDate now'))
              \<and> findOne (by_id t) (tickets s2) = Some di)"
    by (intro p2_book_then_reject[where n = n and q = q and req = req and caller = caller
          and now = now and ?s0.0 = si]) simp_all
  from r show "x = [(''success'', JBool True), (''bookingId'', JId newId)]" by simp
  from r show "\<exists>s2. p2_bookings_reject (Some v) now' (Hex newId) sa
                   = (Send [(''success'', JBool True)], s2)
               \<and> (\<exists>b'. findOne (by_id newId) (bookings s2) = Some b'
                       \<and> fld b' ''status'' = Some (JStr ''rejected'')
                       \<and> fld b' ''rejectedAt'' = Some (JDate now'))
               \<and> findOne (by_id t) (tickets s2) = Some di" by simp
next
  assume h: "findOne (by_id j) (bookings s) = Some b \<and> fld b ''vendorEmail'' = js_email caller
        \<and> fld b ''status'' = Some (JStr ''pending'')"
  then have "\<exists>s'. ix_bookings_reject caller now (Hex j) s
                 = (Send [(''success'', JBool True), (''modifiedCount'', JNum 1)], s')
             \<and> findOne (by_id j) (bookings s')
                 = Some (AList.update ''rejectedAt'' (JDate now)
                          (AList.update ''status'' (JStr ''rejected'') b))
             \<and> tickets s' = tickets s"
    by (intro ix_reject_pending) simp_all
  then show "\<exists>s'. ix_bookings_reject caller now (Hex j) s
                 = (Send [(''success'', JBool True), (''modifiedCount'', JNum 1)], s')
             \<and> (\<exists>b'. findOne (by_id j) (bookings s') = Some b'
                     \<and> fld b' ''status'' = Some (JStr ''rejected'')
                     \<and> fld b' ''rejectedAt'' = Some (JDate now))
             \<and> tickets s' = tickets s"
    by (auto simp: fld_update)
next
  assume h: "findOne (by_id t) (tickets si) = Some di \<and> fld di ''vendorEmail'' = Some (JStr v)
        \<and> bq_ticketId breq = Some (Hex t)
        \<and> ix_post_bookings tonum caller now newId breq si
             = (Send [(''success'', JBool True), (''bookingId'', JId j)], sb)"
  then show "\<exists>s2. ix_bookings_reject (Some v) now' (Hex j) sb
                 = (Send [(''success'', JBool True), (''modifiedCount'', JNum 1)], s2)
             \<and> (\<exists>b'. findOne (by_id j) (bookings s2) = Some b'
                     \<and> fld b' ''status'' = Some (JStr ''rejected'')
                     \<and> fld b' ''rejectedAt'' = Some (JDate now'))
             \<and> tickets s2 = tickets si"
    by (intro ix_book_then_reject[where tonum = tonum and caller = caller and now = now
          and newId = newId and breq = breq and t = t and ?d0.0 = di]) simp_all
qed


theorem reject_releases_stock_witness:
  "(\<exists>s'. p2_bookings_reject (Some ''v@tixgo'') 11 (Hex 2) held_db
            = (Send [(''success'', JBool True)], s')
        \<and> (\<exists>b'. findOne (by_id 2) (bookings s') = Some b'
                \<and> fld b' ''status'' = Some (JStr ''rejected'')
                \<and> fld b' ''rejectedAt'' = Some (JDate 11))
        \<and> (\<exists>d'. findOne (by_id 1) (tickets s') = Some d'
                \<and> fld d' ''quantity'' = Some (JNum 5)))
   \<and> (\<exists>s2. p2_bookings_reject (Some ''v@tixgo'') 11 (Hex 9)
               (snd (p2_post_bookings (Some ''c@tixgo'') 10 9 req2 shop_db))
            = (Send [(''success'', JBool True)], s2)
        \<and> (\<exists>b'. findOne (by_id 9) (bookings s2) = Some b'
                \<and> fld b' ''status'' = Some (JStr ''rejected'')
                \<and> fld b' ''rejectedAt'' = Some (JDate 11))
        \<and> findOne (by_id 1) (tickets s2) = findOne (by_id 1) (tickets shop_db))
   \<and> (\<exists>s'. ix_bookings_reject (Some ''v@tixgo'') 11 (Hex 2) held_db
            = (Send [(''success'', JBool True), (''modifiedCount'', JNum 1)], s')
        \<and> (\<exists>b'. findOne (by_id 2) (bookings s') = Some b'
                \<and> fld b' ''status'' = Some (JStr ''rejected'')
                \<and> fld b' ''rejectedAt'' = Some (JDate 11))
        \<and> tickets s' = tickets held_db)
   \<and> (\<exists>s2. ix_bookings_reject (Some ''v@tixgo'') 11 (Hex 9)
               (snd (ix_post_bookings no_tonum (Some ''c@tixgo'') 10 9 book2 shop_db))
            = (Send [(''success'', JBool True), (''modifiedCount'', JNum 1)], s2)
        \<and> (\<exists>b'. findOne (by_id 9) (bookings s2) = Some b'
                \<and> fld b' ''status'' = Some (JStr ''rejected'')
                \<and> fld b' ''rejectedAt'' = Some (JDate 11))
        \<and> tickets s2 = tickets shop_db)"
proof -
  let ?hb = "[(''_id'', JId 2), (''ticketId'', JId 1), (''vendorEmail'', JStr ''v@tixgo''),
             (''customerEmail'', JStr ''c@tixgo''), (''title'', JStr ''Dhaka-Sylhet''),
             (''price'', JNum 20), (''quantity'', JNum 2), (''status'', JStr ''pending''),
             (''createdAt'', JDate 1)]"
  let ?ht = "[(''_id'', JId 1), (''vendorEmail'', JStr ''v@tixgo''),
             (''title'', JStr ''Dhaka-Sylhet''), (''price'', JNum 20), (''quantity'', JNum 3),
             (''verificationStatus'', JStr ''approved''), (''advertised'', JBool False)]"
  let ?st = "[(''_id'', JId 1), (''vendorEmail'', JStr ''v@tixgo''),
             (''title'', JStr ''Dhaka-Sylhet''), (''price'', JNum 20), (''quantity'', JNum 5),
             (''verificationStatus'', JStr ''approved''), (''advertised'', JBool False)]"
  have f: "fld ?hb ''vendorEmail'' = js_email (Some ''v@tixgo'')"
    "fld ?hb ''status'' = Some (JStr ''pending'')" "fld ?hb ''ticketId'' = Some (JId 1)"
    "fld ?hb ''quantity'' = Some (JNum 2)" "fld ?ht ''quantity'' = Some (JNum 3)"
    "fld ?st ''quantity'' = Some (JNum 5)" "fld ?st ''vendorEmail'' = Some (JStr ''v@tixgo'')"
    by (simp_all add: fld_def js_email_def)
  have r: "rq_ticketId req2 = Some (Hex 1)" "bq_ticketId book2 = Some (Hex 1)"
    "rq_quantity req2 = Some 2" "is_double 5" "is_double (5 - 2)"
    by (simp_all add: req2_def book2_def is_double_def)
  have p: "p2_post_bookings (Some ''c@tixgo'') 10 9 req2 shop_db
           = (Send [(''success'', JBool True), (''bookingId'', JId 9)],
              snd (p2_post_bookings (Some ''c@tixgo'') 10 9 req2 shop_db))"
    using shop_p2_book by (simp add: prod_eq_iff)
  have i: "ix_post_bookings no_tonum (Some ''c@tixgo'') 10 9 book2 shop_db
           = (Send [(''success'', JBool True), (''bookingId'', JId 9)],
              snd (ix_post_bookings no_tonum (Some ''c@tixgo'') 10 9 book2 shop_db))"
    using shop_ix_book by (simp add: prod_eq_iff)
  show ?thesis
    using
      reject_releases_stock[where j = 2 and s = held_db and b = ?hb
        and caller = "Some ''v@tixgo''" and t = 1 and q = 2 and d = ?ht and n = 3 and now = 11]
      reject_releases_stock[where t = 1 and n = 5 and q = 2 and caller = "Some ''c@tixgo''"
        and now = 10 and si = shop_db and di = ?st and v = "''v@tixgo''" and req = req2 and breq = book2
        and j = 9
        and sa = "snd (p2_post_bookings (Some ''c@tixgo'') 10 9 req2 shop_db)"
        and sb = "snd (ix_post_bookings no_tonum (Some ''c@tixgo'') 10 9 book2 shop_db)"
        and x = "[(''success'', JBool True), (''bookingId'', JId 9)]" and newId = 9
        and now' = 11 and tonum = no_tonum]
      f r p i held_booking held_ticket shop_ticket shop_unique
    by simp
qed


section \<open>The booking life cycle\<close>


lemma field_eq_str: "fld d k = Some (JStr a) \<Longrightarrow> field_eq k (JStr a) d"
  by (simp add: field_eq_def)


















text \<open>
  The finalization itself does not look at the booking's status: the session \<open>cs_1\<close>,
  paid after the booking was cancelled and its places given back, takes the booking from
  \<open>cancelled\<close> to \<open>paid\<close>.
\<close>

lemma p2_verify_from_cancelled:
  "fst (p2_payments_verify stripe1 10 7 ''cs_1'' cancelled_db) = Send [(''success'', JBool True)]
   \<and> findOne (by_id 2) (bookings (snd (p2_payments_verify stripe1 10 7 ''cs_1'' cancelled_db)))
     = Some [(''_id'', JId 2), (''ticketId'', JId 1), (''vendorEmail'', JStr ''v@tixgo''),
             (''customerEmail'', JStr ''c@tixgo''), (''title'', JStr ''Dhaka-Sylhet''),
             (''price'', JNum 20), (''quantity'', JNum 2), (''status'', JStr ''paid''),
             (''createdAt'', JDate 1), (''paidAt'', JDate 10)]"
  by (simp add: p2_payments_verify_def stripe1_def sess1_def cancelled_db_def store_defs)





section \<open>The quantity of a ticket is never negative\<close>

lemma nonneg_cong: "fld d' ''quantity'' = fld d ''quantity'' \<Longrightarrow> nonneg_quantity d' = nonneg_quantity d"
  by (simp add: nonneg_quantity_def)

lemma nonneg_Set:
  "list_all plain_key (map fst kvs) \<Longrightarrow>
   ''quantity'' \<notin> fst ` set kvs \<Longrightarrow> apply_update (Set kvs) d = Some d' \<Longrightarrow>
   nonneg_quantity d \<Longrightarrow> nonneg_quantity d'"
  by (auto simp: Let_def nonneg_quantity_def fld_set_fields_other split: if_splits)

lemma round_double_sum:
  "0 \<le> m \<Longrightarrow> 0 \<le> n \<Longrightarrow> round_double (m + n) = JNum r \<Longrightarrow> 0 \<le> r"
  "0 \<le> m \<Longrightarrow> 0 \<le> n \<Longrightarrow> round_double (m + n) = JInf s \<Longrightarrow> s"
  using round_double_nonneg[of "m + n"] by auto

lemma round_double_diff:
  "q \<le> n \<Longrightarrow> round_double (n - q) = JNum r \<Longrightarrow> 0 \<le> r"
  "q \<le> n \<Longrightarrow> round_double (n - q) = JInf s \<Longrightarrow> s"
  using round_double_nonneg[of "n - q"] by auto

lemma nonneg_release:
  assumes "nonneg_quantity b" "apply_update (Inc ''quantity'' (stored (fld b ''quantity''))) d = Some d'"
    "well_formed (Inc ''quantity'' (stored (fld b ''quantity'')))" "nonneg_quantity d"
  shows "nonneg_quantity d'"
  using assms
  by (cases "fld b ''quantity''"; cases "stored (fld b ''quantity'')")
     (auto simp: nonneg_quantity_def stored_def fld_update split: option.splits jval.splits
        dest: round_double_sum)

lemma nonneg_reserve:
  assumes "field_gte ''quantity'' q d" "apply_update (Inc ''quantity'' (JNum (- q))) d = Some d'"
  shows "nonneg_quantity d'"
  using assms
  by (auto simp: nonneg_quantity_def field_gte_def fld_update split: option.splits jval.splits
      dest: round_double_diff)

lemma updateOne_all:
  "updateOne flt u ds = Some r \<Longrightarrow> list_all P ds \<Longrightarrow>
   (\<And>d d'. P d \<Longrightarrow> flt d \<Longrightarrow> well_formed u \<Longrightarrow> apply_update u d = Some d' \<Longrightarrow> P d') \<Longrightarrow>
   list_all P (coll r)"
  by (cases "well_formed u") (auto simp: updateOne_def intro: update_first_all)

lemma insertOne_all:
  "insertOne newId d ds = Some ds' \<Longrightarrow> list_all P ds \<Longrightarrow> P (AList.update ''_id'' (insertedId newId d) d) \<Longrightarrow>
   list_all P ds'"
  by (auto simp: insertOne_def Let_def split: if_splits)


lemma p2_write_ok:
  assumes ok: "stock_ok s" and q: "0 \<le> q"
  shows "stock_ok (snd (p2_bookings_write now newId t q ce snap s))"
proof (cases "p2_reserve t q (tickets s)")
  case None
  then show ?thesis using ok by (simp add: p2_bookings_write_def)
next
  case (Some r)
  from ok have tk: "list_all nonneg_quantity (tickets s)" by (simp add: stock_ok_def)
  have t: "list_all nonneg_quantity (coll r)"
    by (rule updateOne_all[OF Some[unfolded p2_reserve_def] tk]) (auto intro: nonneg_reserve)
  let ?nb = "[(''ticketId'', stored (fld snap ''_id'')),
              (''vendorEmail'', stored (fld snap ''vendorEmail'')),
              (''customerEmail'', stored (js_email ce)),
              (''title'', stored (fld snap ''title'')),
              (''price'', stored (fld snap ''price'')),
              (''quantity'', JNum q),
              (''status'', JStr ''pending''),
              (''createdAt'', JDate now)]"
  have nb: "nonneg_quantity (AList.update ''_id'' (insertedId newId ?nb) ?nb)"
    using q by (simp add: nonneg_quantity_def fld_update fld_Cons)
  have b: "list_all nonneg_quantity bs" if "insertOne newId ?nb (bookings s) = Some bs" for bs
    using that ok nb by (auto simp: stock_ok_def intro: insertOne_all)
  show ?thesis using Some t b ok
    by (auto simp: p2_bookings_write_def Let_def stock_ok_def split: option.splits)
qed

lemma p2_book_ok: "stock_ok s \<Longrightarrow> stock_ok (snd (p2_post_bookings caller now newId req s))"
  by (auto simp: p2_post_bookings_def p2_write_ok split: option.splits idparam.splits)

lemma set_status_ok:
  assumes "updateOne flt (Set kvs) bs = Some r" "''quantity'' \<notin> fst ` set kvs"
    "list_all nonneg_quantity bs" "list_all plain_key (map fst kvs)"
  shows "list_all nonneg_quantity (coll r)"
  by (rule updateOne_all[OF assms(1,3)]) (auto intro: nonneg_Set[OF assms(4,2)])

lemma set2_status_ok:
  assumes "updateOne flt (Set [(''status'', v), (k, w)]) bs = Some r" "k \<noteq> ''quantity''"
    "list_all nonneg_quantity bs" "plain_key k"
  shows "list_all nonneg_quantity (coll r)"
  using assms(2,4) by (intro set_status_ok[OF assms(1) _ assms(3)]) auto

lemma set1_status_ok:
  assumes "updateOne flt (Set [(''status'', v)]) bs = Some r" "list_all nonneg_quantity bs"
  shows "list_all nonneg_quantity (coll r)"
  by (intro set_status_ok[OF assms(1) _ assms(2)]) auto

lemma p2_accept_ok: "stock_ok s \<Longrightarrow> stock_ok (snd (p2_bookings_accept caller now idp s))"
  by (auto simp: p2_bookings_accept_def stock_ok_def split: option.splits
      intro: set2_status_ok)

lemma release_ok:
  assumes "updateOne flt (Inc ''quantity'' (stored (fld b ''quantity''))) ts = Some r"
    "nonneg_quantity b" "list_all nonneg_quantity ts"
  shows "list_all nonneg_quantity (coll r)"
  by (rule updateOne_all[OF assms(1,3)]) (auto intro: nonneg_release[OF assms(2)])

lemma findOne_all: "findOne flt ds = Some d \<Longrightarrow> list_all P ds \<Longrightarrow> P d"
  by (auto simp: findOne_def list_all_iff dest: find_mem)

lemma p2_reject_ok:
  assumes ok: "stock_ok s"
  shows "stock_ok (snd (p2_bookings_reject caller now idp s))"
proof -
  have "stock_ok s'"
    if "findOne (by_id i) (bookings s) = Some b"
      "updateOne (id_eq (stored (fld b ''ticketId''))) (Inc ''quantity'' (stored (fld b ''quantity'')))
         (tickets s) = Some r"
      "s' = s\<lparr>tickets := coll r\<rparr> \<or>
       (\<exists>r2. updateOne (by_id i) (Set [(''status'', JStr ''rejected''), (''rejectedAt'', JDate now)])
                (bookings s) = Some r2 \<and> s' = s\<lparr>tickets := coll r, bookings := coll r2\<rparr>)"
    for i b r s'
  proof -
    from that(1) ok have "nonneg_quantity b" by (auto simp: stock_ok_def intro: findOne_all)
    from release_ok[OF that(2) this] ok have "list_all nonneg_quantity (coll r)"
      by (simp add: stock_ok_def)
    have "list_all nonneg_quantity (coll r2)"
      if "updateOne (by_id i) (Set [(''status'', JStr ''rejected''), (''rejectedAt'', JDate now)])
            (bookings s) = Some r2" for r2
      using ok by (intro set2_status_ok[OF that]) (simp_all add: stock_ok_def)
    with \<open>list_all nonneg_quantity (coll r)\<close> that(3) ok show ?thesis
      by (auto simp: stock_ok_def)
  qed
  then show ?thesis using ok
    by (auto simp: p2_bookings_reject_def Let_def split: option.splits)
qed


lemma p2_cancel_ok:
  assumes ok: "stock_ok s"
  shows "stock_ok (snd (p2_payment_cancelled idp s))"
proof -
  have "stock_ok s'"
    if "findOne (by_id i) (bookings s) = Some b"
      "updateOne (id_eq (stored (fld b ''ticketId''))) (Inc ''quantity'' (stored (fld b ''quantity'')))
         (tickets s) = Some r"
      "s' = s\<lparr>tickets := coll r\<rparr> \<or>
       (\<exists>r2. updateOne (by_id i) (Set [(''status'', JStr ''cancelled'')])
                (bookings s) = Some r2 \<and> s' = s\<lparr>tickets := coll r, bookings := coll r2\<rparr>)"
    for i b r s'
  proof -
    from that(1) ok have "nonneg_quantity b" by (auto simp: stock_ok_def intro: findOne_all)
    from release_ok[OF that(2) this] ok have "list_all nonneg_quantity (coll r)"
      by (simp add: stock_ok_def)
    with that(3) ok show ?thesis
      by (auto simp: stock_ok_def intro: set1_status_ok)
  qed
  then show ?thesis using ok
    by (auto simp: p2_payment_cancelled_def Let_def split: option.splits)
qed

lemma p2_verify_ok:
  assumes ok: "stock_ok s"
  shows "stock_ok (snd (p2_payments_verify stripe now newId sid s))"
proof -
  have t: "tickets (snd (p2_payments_verify stripe now newId sid s)) = tickets s"
    by (rule p2_verify_tickets)
  have "list_all nonneg_quantity (bookings (snd (p2_payments_verify stripe now newId sid s)))"
    using ok
    by (auto simp: p2_payments_verify_def Let_def stock_ok_def split: option.splits
        intro: set2_status_ok)
  with t ok show ?thesis by (simp add: stock_ok_def)
qed

lemma p2_step_ok: "stock_ok s \<Longrightarrow> stock_ok (p2_step stripe op s)"
  by (cases op) (simp_all add: p2_book_ok p2_accept_ok p2_reject_ok p2_cancel_ok p2_verify_ok)

lemma p2_run_ok: "stock_ok s \<Longrightarrow> stock_ok (p2_run stripe ops s)"
  unfolding p2_run_def by (induction ops arbitrary: s) (simp_all add: p2_step_ok)

lemma ix_accept_tickets: "tickets (snd (ix_bookings_accept caller now idp s)) = tickets s"
  by (simp add: ix_bookings_accept_def split: option.splits)

lemma ix_reject_tickets: "tickets (snd (ix_bookings_reject caller now idp s)) = tickets s"
  by (simp add: ix_bookings_reject_def split: option.splits)

lemma ix_pay_ok:
  assumes ok: "list_all nonneg_quantity (tickets s)"
  shows "list_all nonneg_quantity (tickets (snd (ix_payment_success stripe now newId sid s)))"
proof -
  have "list_all nonneg_quantity (coll r)"
    if "updateOne (\<lambda>d. id_is t d \<and> field_gte ''quantity'' q d)
          (Inc ''quantity'' (JNum (- q))) (tickets s) = Some r" for t q r
    by (rule updateOne_all[OF that ok]) (auto intro: nonneg_reserve)
  then show ?thesis using ok
    by (auto simp: ix_payment_success_def Let_def split: option.splits)
qed

lemma ix_step_ok:
  "list_all nonneg_quantity (tickets s) \<Longrightarrow>
   list_all nonneg_quantity (tickets (ix_step tonum stripe op s))"
  by (cases op)
     (simp_all add: ix_post_bookings_tickets ix_accept_tickets ix_reject_tickets ix_pay_ok)

lemma ix_run_ok:
  "list_all nonneg_quantity (tickets s) \<Longrightarrow>
   list_all nonneg_quantity (tickets (ix_run tonum stripe ops s))"
  unfolding ix_run_def by (induction ops arbitrary: s) (simp_all add: ix_step_ok)

text \<open>
  Claim C2. Start from a state in which no ticket and no booking has a negative
  quantity. After every prefix of every sequence of booking creations, acceptances,
  rejections, cancellations and payment verifications of src/unnamed/part\_002, no
  ticket has a negative quantity; the same holds for the bookings, acceptances,
  rejections and payments of src/index.js, from every state whose tickets have no
  negative quantity.
\<close>

theorem quantity_never_negative:
  "(stock_ok s \<longrightarrow> list_all nonneg_quantity (tickets (p2_run stripe (take k ops) s)))
   \<and> (list_all nonneg_quantity (tickets s) \<longrightarrow>
        list_all nonneg_quantity (tickets (ix_run tonum stripe (take k iops) s)))"
  using p2_run_ok[of s stripe "take k ops"] ix_run_ok[of s tonum stripe "take k iops"]
  by (simp add: stock_ok_def)

lemma held_stock_ok: "stock_ok held_db"
  by (simp add: stock_ok_def held_db_def nonneg_quantity_def fld_def)

lemma shop_tickets_ok: "list_all nonneg_quantity (tickets shop_db)"
  by (simp add: shop_db_def nonneg_quantity_def fld_def)

theorem quantity_never_negative_witness:
  "stock_ok held_db
   \<and> list_all nonneg_quantity
        (tickets (p2_run stripe1
           (take 3 [P2Book (Some ''c@tixgo'') 10 9 req2, P2Reject (Some ''v@tixgo'') 11 (Hex 2),
                    P2Accept (Some ''v@tixgo'') 12 (Hex 9), P2Cancel (Hex 9)])
           held_db))
   \<and> list_all nonneg_quantity (tickets shop_db)
   \<and> list_all nonneg_quantity
        (tickets (ix_run no_tonum stripe1
           (take 2 [IxBook (Some ''c@tixgo'') 10 9 book2, IxPay 11 7 ''cs_1'',
                    IxReject (Some ''v@tixgo'') 12 (Hex 9)])
           shop_db))"
  using quantity_never_negative[where s = held_db and stripe = stripe1 and k = 3
      and ops = "[P2Book (Some ''c@tixgo'') 10 9 req2, P2Reject (Some ''v@tixgo'') 11 (Hex 2),
                  P2Accept (Some ''v@tixgo'') 12 (Hex 9), P2Cancel (Hex 9)]"]
    quantity_never_negative[where s = shop_db and stripe = stripe1 and k = 2
      and tonum = no_tonum
      and iops = "[IxBook (Some ''c@tixgo'') 10 9 book2, IxPay 11 7 ''cs_1'',
                   IxReject (Some ''v@tixgo'') 12 (Hex 9)]"]
    held_stock_ok shop_tickets_ok
  by simp


section \<open>The vendor's routes on a ticket\<close>

text \<open>
  \<open>PATCH /tickets/:id\<close> of both files and \<open>DELETE /tickets/:id\<close> refuse a rejected
  ticket and leave the state as it is.
\<close>

lemma rejected_ticket_patch_delete:
  assumes "findOne (by_id t) (tickets s) = Some d"
    "fld d ''verificationStatus'' = Some (JStr ''rejected'')"
  shows "ix_patch_ticket (Hex t) body s = (Fail 403 ''Rejected tickets cannot be updated'', s)"
    and "fld d ''vendorEmail'' = js_email caller \<Longrightarrow>
         p2_patch_ticket tonum caller (Hex t) body s
           = (Fail 403 ''Rejected tickets cannot be updated'', s)"
    and "fld d ''vendorEmail'' = js_email caller \<Longrightarrow>
         delete_ticket caller (Hex t) s = (Fail 403 ''Rejected tickets cannot be deleted'', s)"
  using assms by (simp_all add: ix_patch_ticket_def p2_patch_ticket_def delete_ticket_def Let_def)

text \<open>
  Claim C9 fails on \<open>PUT /tickets/:id\<close> of src/index.js, which has the ownership check
  of its sibling routes but not their check of the status: the vendor of the rejected
  ticket of \<open>rejected_db\<close> sets its price to 1 and its status to \<open>approved\<close>.
\<close>

theorem put_updates_rejected_ticket:
  "findOne (by_id 1) (tickets rejected_db)
     = Some [(''_id'', JId 1), (''vendorEmail'', JStr ''v@tixgo''),
             (''title'', JStr ''Dhaka-Sylhet''), (''price'', JNum 20), (''quantity'', JNum 5),
             (''verificationStatus'', JStr ''rejected''), (''advertised'', JBool False)]
   \<and> fst (ix_put_ticket (Some ''v@tixgo'') (Hex 1)
             [(''price'', JNum 1), (''verificationStatus'', JStr ''approved'')] rejected_db)
     = Send [(''acknowledged'', JBool True), (''modifiedCount'', JNum 1),
             (''upsertedId'', JNull), (''upsertedCount'', JNum 0), (''matchedCount'', JNum 1)]
   \<and> findOne (by_id 1)
        (tickets (snd (ix_put_ticket (Some ''v@tixgo'') (Hex 1)
             [(''price'', JNum 1), (''verificationStatus'', JStr ''approved'')] rejected_db)))
     = Some [(''_id'', JId 1), (''vendorEmail'', JStr ''v@tixgo''),
             (''title'', JStr ''Dhaka-Sylhet''), (''price'', JNum 1), (''quantity'', JNum 5),
             (''verificationStatus'', JStr ''approved''), (''advertised'', JBool False)]"
  by (simp add: ix_put_ticket_def rejected_db_def store_defs)

lemma update_first_field:
  "update_first flt u ds = Some r \<Longrightarrow>
   (\<And>d d'. flt d \<Longrightarrow> apply_update u d = Some d' \<Longrightarrow> fld d' k = fld d k) \<Longrightarrow>
   map (\<lambda>d. fld d k) (coll r) = map (\<lambda>d. fld d k) ds"
proof (induction ds arbitrary: r)
  case Nil
  then show ?case by auto
next
  case (Cons d ds)
  show ?case
  proof (cases "flt d")
    case True
    with Cons.prems(1) obtain d' where d': "apply_update u d = Some d'" and r: "coll r = d' # ds"
      by (auto split: option.splits)
    have "fld d' k = fld d k" by (rule Cons.prems(2)[OF True d'])
    with r show ?thesis by simp
  next
    case False
    with Cons.prems(1) obtain r' where r': "update_first flt u ds = Some r'"
      and r: "coll r = d # coll r'"
      by (auto split: option.splits)
    have "map (\<lambda>d. fld d k) (coll r') = map (\<lambda>d. fld d k) ds"
      by (rule Cons.IH[OF r' Cons.prems(2)])
    with r show ?thesis by simp
  qed
qed

lemma notin_delete: "k = k' \<or> k \<notin> fst ` set al \<Longrightarrow> k \<notin> fst ` set (AList.delete k' al)"
  using delete_notin_dom[of k' al] dom_delete_subset[of k' al] by blast

lemma keys_update: "fst ` set (AList.update k v al) = insert k (fst ` set al)"
  by (simp add: dom_update)

lemma Set_other_field:
  "list_all plain_key (map fst kvs) \<Longrightarrow>
   k \<notin> fst ` set kvs \<Longrightarrow> apply_update (Set kvs) d = Some d' \<Longrightarrow> fld d' k = fld d k"
  by (auto simp: Let_def fld_set_fields_other split: if_splits)

lemma plain_keys: "list_all plain_key (map fst kvs) = (\<forall>f\<in>fst ` set kvs. plain_key f)"
  by (simp add: list_all_iff)

lemma plain_delete:
  "\<forall>f\<in>fst ` set al. plain_key f \<Longrightarrow> \<forall>f\<in>fst ` set (AList.delete k al). plain_key f"
  using dom_delete_subset[of k al] by blast

lemma ix_patch_field:
  assumes p: "\<forall>f\<in>fst ` set body. plain_key f"
    and k: "k \<in> {''verificationStatus'', ''vendorEmail'', ''vendorName'', ''createdAt''}"
  shows "map (\<lambda>d. fld d k) (tickets (snd (ix_patch_ticket idp body s)))
           = map (\<lambda>d. fld d k) (tickets s)"
proof -
  let ?u = "AList.delete ''createdAt'' (AList.delete ''vendorName''
              (AList.delete ''vendorEmail'' (AList.delete ''verificationStatus'' body)))"
  from k have nk: "k \<notin> fst ` set ?u" by (elim insertE) (simp_all add: notin_delete)
  have pu: "list_all plain_key (map fst ?u)"
    unfolding plain_keys by (intro plain_delete p)
  have w: "map (\<lambda>d. fld d k) (coll r) = map (\<lambda>d. fld d k) (tickets s)"
    if "updateOne flt (Set ?u) (tickets s) = Some r" for flt r
  proof -
    from that pu have "update_first flt (Set ?u) (tickets s) = Some r"
      by (simp add: updateOne_def)
    then show ?thesis by (rule update_first_field) (rule Set_other_field[OF pu nk])
  qed
  show ?thesis
  proof (cases "toObjectId idp")
    case None
    then show ?thesis by (simp add: ix_patch_ticket_def)
  next
    case (Some oid)
    show ?thesis
    proof (cases "updateOne (by_id oid) (Set ?u) (tickets s)")
      case None
      with Some show ?thesis
        by (simp add: ix_patch_ticket_def Let_def split: option.splits)
    next
      case (Some r)
      with \<open>toObjectId idp = Some oid\<close> w[OF Some] show ?thesis
        by (simp add: ix_patch_ticket_def Let_def split: option.splits)
    qed
  qed
qed

lemma keys_array_or_empty: "fst ` set (array_or_empty k u) \<subseteq> insert k (fst ` set u)"
  by (auto simp: array_or_empty_def keys_update split: option.splits jval.splits)

lemma keys_to_number: "fst ` set (to_number tonum k u) \<subseteq> insert k (fst ` set u)"
  by (auto simp: to_number_def keys_update)

lemma protected_not_adjusted:
  "k \<in> {''verificationStatus'', ''vendorEmail'', ''vendorName'', ''createdAt''} \<Longrightarrow>
   k \<noteq> ''quantity'' \<and> k \<noteq> ''price'' \<and> k \<noteq> ''perks''"
  by (elim insertE) simp_all

lemma p2_update_keys:
  assumes "k \<notin> fst ` set u" "k \<noteq> ''quantity''" "k \<noteq> ''price''" "k \<noteq> ''perks''"
  shows "k \<notin> fst ` set (to_number tonum ''quantity'' (to_number tonum ''price''
            (array_or_empty ''perks'' u)))"
proof -
  have "k \<notin> fst ` set (array_or_empty ''perks'' u)"
    using keys_array_or_empty[of "''perks''" u] assms(1,4) by blast
  then have "k \<notin> fst ` set (to_number tonum ''price'' (array_or_empty ''perks'' u))"
    using keys_to_number[of tonum "''price''" "array_or_empty ''perks'' u"] assms(3) by blast
  then show ?thesis
    using keys_to_number[of tonum "''quantity''"
        "to_number tonum ''price'' (array_or_empty ''perks'' u)"] assms(2)
    by blast
qed

lemma plain_array_or_empty:
  "plain_key k \<Longrightarrow> \<forall>f\<in>fst ` set u. plain_key f \<Longrightarrow>
   \<forall>f\<in>fst ` set (array_or_empty k u). plain_key f"
  using keys_array_or_empty[of k u] by blast

lemma plain_to_number:
  "plain_key k \<Longrightarrow> \<forall>f\<in>fst ` set u. plain_key f \<Longrightarrow>
   \<forall>f\<in>fst ` set (to_number tonum k u). plain_key f"
  using keys_to_number[of tonum k u] by blast

lemma p2_patch_field:
  assumes p: "\<forall>f\<in>fst ` set body. plain_key f"
    and k: "k \<in> {''verificationStatus'', ''vendorEmail'', ''vendorName'', ''createdAt''}"
  shows "map (\<lambda>d. fld d k) (tickets (snd (p2_patch_ticket tonum caller idp body s)))
           = map (\<lambda>d. fld d k) (tickets s)"
proof -
  let ?u = "AList.delete ''_id'' (AList.delete ''createdAt'' (AList.delete ''vendorName''
              (AList.delete ''vendorEmail'' (AList.delete ''verificationStatus'' body))))"
  let ?u3 = "to_number tonum ''quantity'' (to_number tonum ''price'' (array_or_empty ''perks'' ?u))"
  from k have nk: "k \<notin> fst ` set ?u" by (elim insertE) (simp_all add: notin_delete)
  from protected_not_adjusted[OF k] have n3: "k \<notin> fst ` set ?u3"
    by (intro p2_update_keys[OF nk]) simp_all
  have "\<forall>f\<in>fst ` set ?u. plain_key f" by (intro plain_delete p)
  then have "\<forall>f\<in>fst ` set ?u3. plain_key f"
    by (intro plain_to_number plain_array_or_empty) simp_all
  then have pu: "list_all plain_key (map fst ?u3)" by (simp only: plain_keys)
  have w: "map (\<lambda>d. fld d k) (coll r) = map (\<lambda>d. fld d k) (tickets s)"
    if "updateOne flt (Set ?u3) (tickets s) = Some r" for flt r
  proof -
    from that pu have "update_first flt (Set ?u3) (tickets s) = Some r"
      by (simp add: updateOne_def)
    then show ?thesis by (rule update_first_field) (rule Set_other_field[OF pu n3])
  qed
  show ?thesis
  proof (cases "toObjectId idp")
    case None
    then show ?thesis by (simp add: p2_patch_ticket_def)
  next
    case (Some oid)
    show ?thesis
    proof (cases "updateOne (by_id oid) (Set ?u3) (tickets s)")
      case None
      with Some show ?thesis
        by (simp add: p2_patch_ticket_def Let_def split: option.splits)
    next
      case (Some r)
      with \<open>toObjectId idp = Some oid\<close> w[OF Some] show ?thesis
        by (simp add: p2_patch_ticket_def Let_def split: option.splits)
    qed
  qed
qed

lemma pending_ix_patch:
  "fst (ix_patch_ticket (Hex 1) body1 pending_db)
     = Send [(''success'', JBool True), (''modifiedCount'', JNum 1)]"
  by (simp add: ix_patch_ticket_def body1_def pending_db_def store_defs)

lemma pending_p2_patch:
  "fst (p2_patch_ticket no_tonum (Some ''v@tixgo'') (Hex 1) body1 pending_db)
     = Send [(''success'', JBool True), (''modifiedCount'', JNum 1)]"
  by (simp add: p2_patch_ticket_def array_or_empty_def to_number_def body1_def pending_db_def
      store_defs)

lemma body1_plain: "\<forall>k\<in>fst ` set body1. plain_key k"
  by (simp add: body1_def plain_key_def)

text \<open>
  The four deletes do their work for a request whose keys are names of top-level
  fields: every ticket has after such a request to the vendor's \<open>PATCH /tickets/:id\<close>
  the \<open>verificationStatus\<close>, \<open>vendorEmail\<close>, \<open>vendorName\<close> and \<open>createdAt\<close> it had
  before, in src/index.js and in src/unnamed/part\_002.
\<close>

theorem patch_keeps_protected_fields:
  "(\<forall>f\<in>fst ` set body. plain_key f)
   \<and> k \<in> {''verificationStatus'', ''vendorEmail'', ''vendorName'', ''createdAt''} \<longrightarrow>
   map (\<lambda>d. fld d k) (tickets (snd (ix_patch_ticket idp body s)))
     = map (\<lambda>d. fld d k) (tickets s)
   \<and> map (\<lambda>d. fld d k) (tickets (snd (p2_patch_ticket tonum caller idp body s)))
       = map (\<lambda>d. fld d k) (tickets s)"
proof (intro impI)
  assume "(\<forall>f\<in>fst ` set body. plain_key f)
   \<and> k \<in> {''verificationStatus'', ''vendorEmail'', ''vendorName'', ''createdAt''}"
  then have p: "\<forall>f\<in>fst ` set body. plain_key f"
    and k: "k \<in> {''verificationStatus'', ''vendorEmail'', ''vendorName'', ''createdAt''}"
    by (rule conjunct1, rule conjunct2)
  show "map (\<lambda>d. fld d k) (tickets (snd (ix_patch_ticket idp body s)))
     = map (\<lambda>d. fld d k) (tickets s)
   \<and> map (\<lambda>d. fld d k) (tickets (snd (p2_patch_ticket tonum caller idp body s)))
       = map (\<lambda>d. fld d k) (tickets s)"
    using ix_patch_field[OF p k] p2_patch_field[OF p k] by (rule conjI)
qed

theorem patch_keeps_protected_fields_witness:
  "fst (ix_patch_ticket (Hex 1) body1 pending_db)
       = Send [(''success'', JBool True), (''modifiedCount'', JNum 1)]
   \<and> map (\<lambda>d. fld d ''verificationStatus'') (tickets (snd (ix_patch_ticket (Hex 1) body1 pending_db)))
       = [Some (JStr ''pending'')]
   \<and> fst (p2_patch_ticket no_tonum (Some ''v@tixgo'') (Hex 1) body1 pending_db)
       = Send [(''success'', JBool True), (''modifiedCount'', JNum 1)]
   \<and> map (\<lambda>d. fld d ''vendorEmail'')
        (tickets (snd (p2_patch_ticket no_tonum (Some ''v@tixgo'') (Hex 1) body1 pending_db)))
       = [Some (JStr ''v@tixgo'')]"
proof -
  have t: "map (\<lambda>d. fld d ''verificationStatus'') (tickets pending_db) = [Some (JStr ''pending'')]"
    "map (\<lambda>d. fld d ''vendorEmail'') (tickets pending_db) = [Some (JStr ''v@tixgo'')]"
    by (simp_all add: pending_db_def fld_def)
  show ?thesis
    using patch_keeps_protected_fields[where body = body1 and k = "''verificationStatus''"
        and idp = "Hex 1" and s = pending_db]
      patch_keeps_protected_fields[where body = body1 and k = "''vendorEmail''"
        and idp = "Hex 1" and s = pending_db and tonum = no_tonum
        and caller = "Some ''v@tixgo''"]
      body1_plain pending_ix_patch pending_p2_patch t
    by simp
qed

text \<open>
  Claim C10 fails on a request whose key is a path into a protected field. The four
  deletes, which stand under the comment "Prevent forbidden updates" in the second
  copy of the handler in src/unnamed/part\_002, remove the keys \<open>verificationStatus\<close>, \<open>vendorEmail\<close>, \<open>vendorName\<close> and
  \<open>createdAt\<close>; the key \<open>vendorName.alias\<close> is another key and stays in the update.
  The ticket of \<open>pending_db\<close> was created without a \<open>vendorName\<close>, and the request
  body \<open>{ "vendorName.alias": "Other Lines" }\<close> of its vendor gives it one, in
  src/index.js and in src/unnamed/part\_002.
\<close>

theorem patch_sets_vendor_name:
  "map (\<lambda>d. fld d ''vendorName'') (tickets pending_db) = [None]
   \<and> fst (ix_patch_ticket (Hex 1) body2 pending_db)
       = Send [(''success'', JBool True), (''modifiedCount'', JNum 1)]
   \<and> map (\<lambda>d. fld d ''vendorName'') (tickets (snd (ix_patch_ticket (Hex 1) body2 pending_db)))
       = [Some (JObj [(''alias'', JStr ''Other Lines'')])]
   \<and> fst (p2_patch_ticket no_tonum (Some ''v@tixgo'') (Hex 1) body2 pending_db)
       = Send [(''success'', JBool True), (''modifiedCount'', JNum 1)]
   \<and> map (\<lambda>d. fld d ''vendorName'')
        (tickets (snd (p2_patch_ticket no_tonum (Some ''v@tixgo'') (Hex 1) body2 pending_db)))
       = [Some (JObj [(''alias'', JStr ''Other Lines'')])]"
  by (simp add: ix_patch_ticket_def p2_patch_ticket_def array_or_empty_def to_number_def
      body2_def pending_db_def store_defs apply_update.simps(1) well_formed.simps(1)
      set_field_def valid_path_def conflict_def)

end
